theory Spec2Isabelle
  imports Main
begin

section \<open>Errors and promises\<close>

text \<open>
  Every value the code throws, and every value a library promise rejects with, is
  taken to be an \<^verbatim>\<open>Error\<close> object; only its message is kept.
\<close>

datatype error = Error (message: string)

section \<open>Saved designs (src/utils/designManager.ts)\<close>

subsection \<open>The Design type and its JSON image\<close>

text \<open>
  The field \<^verbatim>\<open>createdAt?: Date\<close> of \<^verbatim>\<open>Design\<close> holds, at run time, either a
  \<^verbatim>\<open>Date\<close> object (what \<^verbatim>\<open>new Date()\<close> gives; the argument is its time value
  in milliseconds) or, once a design has been through \<^verbatim>\<open>JSON.stringify\<close> and
  \<^verbatim>\<open>JSON.parse\<close>, the string \<^verbatim>\<open>Date.prototype.toISOString\<close> printed for that time
  value. An optional field that is absent (or undefined) is \<open>None\<close>.
  The field \<^verbatim>\<open>id\<close> is named \<open>design_id\<close> here, and the other fields that share a
  name with a field of another interface carry the prefix \<open>design_\<close>.
\<close>

datatype created_at = DateObject int | IsoString int

record design =
  design_id :: string
  design_name :: string
  design_uri :: string
  design_category :: "string option"
  isUserGenerated :: "bool option"
  design_originalImageUri :: "string option"
  createdAt :: "created_at option"

text \<open>
  \<^verbatim>\<open>JSON.stringify\<close> calls \<^verbatim>\<open>toJSON\<close> on a \<^verbatim>\<open>Date\<close>, which prints it; strings and
  booleans are written and read back as they are, and an absent field stays absent.
\<close>

fun toJSON :: "created_at \<Rightarrow> created_at" where
  "toJSON (DateObject t) = IsoString t"
| "toJSON (IsoString t) = IsoString t"

definition json_image :: "design \<Rightarrow> design" where
  "json_image d = d\<lparr>createdAt := map_option toJSON (createdAt d)\<rparr>"

text \<open>
  The text kept under a key of the store. \<open>JsonText ds\<close> is the text
  \<^verbatim>\<open>JSON.stringify\<close> writes for the list \<open>ds\<close>; \<open>EmptyText\<close> is the empty string
  (falsy in \<^verbatim>\<open>stored ? JSON.parse(stored) : []\<close>); \<open>Malformed\<close> is any text
  \<^verbatim>\<open>JSON.parse\<close> throws on. Texts that parse to something other than a list of
  designs are not modelled.
\<close>

datatype stored_text = EmptyText | JsonText "design list" | Malformed

definition JSON_stringify :: "design list \<Rightarrow> stored_text" where
  "JSON_stringify ds = JsonText (map json_image ds)"

fun JSON_parse :: "stored_text \<Rightarrow> error + design list" where
  "JSON_parse (JsonText ds) = Inr (map json_image ds)"
| "JSON_parse EmptyText = Inl (Error ''Unexpected end of JSON input'')"
| "JSON_parse Malformed = Inl (Error ''Unexpected token in JSON'')"

subsection \<open>AsyncStorage\<close>

text \<open>
  The native key-value store: a map from keys to texts. Each call either takes
  effect or is rejected by the native module and leaves the items as they were;
  \<open>rejections\<close> lists, for the calls to come, which of them are rejected
  (\<open>True\<close>), and once the list is used up every call takes effect.
\<close>

record async_storage =
  items :: "string \<Rightarrow> stored_text option"
  rejections :: "bool list"

definition next_call :: "async_storage \<Rightarrow> bool \<times> async_storage" where
  "next_call s =
     (case rejections s of
        [] \<Rightarrow> (False, s)
      | r # rs \<Rightarrow> (r, s\<lparr>rejections := rs\<rparr>))"

definition getItem :: "async_storage \<Rightarrow> string \<Rightarrow> (error + stored_text option) \<times> async_storage" where
  "getItem s k =
     (case next_call s of
        (True, s') \<Rightarrow> (Inl (Error ''AsyncStorage.getItem rejected''), s')
      | (False, s') \<Rightarrow> (Inr (items s' k), s'))"

definition setItem :: "async_storage \<Rightarrow> string \<Rightarrow> stored_text \<Rightarrow> (error + unit) \<times> async_storage" where
  "setItem s k v =
     (case next_call s of
        (True, s') \<Rightarrow> (Inl (Error ''AsyncStorage.setItem rejected''), s')
      | (False, s') \<Rightarrow> (Inr (), s'\<lparr>items := (items s')(k \<mapsto> v)\<rparr>))"

definition removeItem :: "async_storage \<Rightarrow> string \<Rightarrow> (error + unit) \<times> async_storage" where
  "removeItem s k =
     (case next_call s of
        (True, s') \<Rightarrow> (Inl (Error ''AsyncStorage.removeItem rejected''), s')
      | (False, s') \<Rightarrow> (Inr (), s'\<lparr>items := (items s')(k := None)\<rparr>))"

subsection \<open>DesignManager\<close>

text \<open>
  The module's variables: \<open>AsyncStorage\<close> is \<open>None\<close> when the \<^verbatim>\<open>require\<close> of the
  native module threw, and \<open>memoryStorage\<close> is the in-memory list.
\<close>

record design_store =
  AsyncStorage :: "async_storage option"
  memoryStorage :: "design list"

definition CUSTOM_DESIGNS_KEY :: string where
  "CUSTOM_DESIGNS_KEY = ''custom_tattoo_designs''"

definition getCustomDesigns :: "design_store \<Rightarrow> design list \<times> design_store" where
  "getCustomDesigns st =
     (case AsyncStorage st of
        Some a \<Rightarrow>
          (case getItem a CUSTOM_DESIGNS_KEY of
             (Inl e, a') \<Rightarrow> ([], st\<lparr>AsyncStorage := Some a'\<rparr>)
           | (Inr stored, a') \<Rightarrow>
               ((case stored of
                   None \<Rightarrow> []
                 | Some EmptyText \<Rightarrow> []
                 | Some txt \<Rightarrow> (case JSON_parse txt of Inl e \<Rightarrow> [] | Inr ds \<Rightarrow> ds)),
                st\<lparr>AsyncStorage := Some a'\<rparr>))
      | None \<Rightarrow> (memoryStorage st, st))"

definition saveCustomDesign :: "design_store \<Rightarrow> design \<Rightarrow> (error + unit) \<times> design_store" where
  "saveCustomDesign st d =
     (case getCustomDesigns st of
        (customDesigns, st1) \<Rightarrow>
          (let updatedDesigns = d # customDesigns in
           case AsyncStorage st1 of
             Some a \<Rightarrow>
               (case setItem a CUSTOM_DESIGNS_KEY (JSON_stringify updatedDesigns) of
                  (Inl e, a') \<Rightarrow> (Inl (Error ''Failed to save design''), st1\<lparr>AsyncStorage := Some a'\<rparr>)
                | (Inr u, a') \<Rightarrow> (Inr (), st1\<lparr>AsyncStorage := Some a'\<rparr>))
           | None \<Rightarrow> (Inr (), st1\<lparr>memoryStorage := updatedDesigns\<rparr>)))"

definition deleteCustomDesign :: "design_store \<Rightarrow> string \<Rightarrow> (error + unit) \<times> design_store" where
  "deleteCustomDesign st designId =
     (case getCustomDesigns st of
        (customDesigns, st1) \<Rightarrow>
          (let updatedDesigns = filter (\<lambda>d. design_id d \<noteq> designId) customDesigns in
           case AsyncStorage st1 of
             Some a \<Rightarrow>
               (case setItem a CUSTOM_DESIGNS_KEY (JSON_stringify updatedDesigns) of
                  (Inl e, a') \<Rightarrow> (Inl (Error ''Failed to delete design''), st1\<lparr>AsyncStorage := Some a'\<rparr>)
                | (Inr u, a') \<Rightarrow> (Inr (), st1\<lparr>AsyncStorage := Some a'\<rparr>))
           | None \<Rightarrow> (Inr (), st1\<lparr>memoryStorage := updatedDesigns\<rparr>)))"

definition getCustomDesign :: "design_store \<Rightarrow> string \<Rightarrow> design option \<times> design_store" where
  "getCustomDesign st designId =
     (case getCustomDesigns st of
        (customDesigns, st1) \<Rightarrow> (find (\<lambda>d. design_id d = designId) customDesigns, st1))"

definition clearAllCustomDesigns :: "design_store \<Rightarrow> (error + unit) \<times> design_store" where
  "clearAllCustomDesigns st =
     (case AsyncStorage st of
        Some a \<Rightarrow>
          (case removeItem a CUSTOM_DESIGNS_KEY of
             (Inl e, a') \<Rightarrow> (Inl (Error ''Failed to clear designs''), st\<lparr>AsyncStorage := Some a'\<rparr>)
           | (Inr u, a') \<Rightarrow> (Inr (), st\<lparr>AsyncStorage := Some a'\<rparr>))
      | None \<Rightarrow> (Inr (), st\<lparr>memoryStorage := []\<rparr>))"

text \<open>
  \<^verbatim>\<open>getDesignStats\<close> (lines 110 to 137). \<^verbatim>\<open>getTime\<close> is a method of a \<^verbatim>\<open>Date\<close>; on a
  string the call \<^verbatim>\<open>a.getTime()\<close> throws a \<^verbatim>\<open>TypeError\<close> (\<open>None\<close> here).
  \<^verbatim>\<open>Array.prototype.sort\<close> does not call the comparison function on a list of
  fewer than two elements, and on a longer list it calls it on every element at
  least once, each call evaluating \<^verbatim>\<open>a.getTime() - b.getTime()\<close>; two \<^verbatim>\<open>Date\<close>s
  of one time value are not told apart.
\<close>

record design_stats =
  totalCustomDesigns :: nat
  oldestDesign :: "created_at option"
  newestDesign :: "created_at option"

fun getTime :: "created_at \<Rightarrow> int option" where
  "getTime (DateObject t) = Some t"
| "getTime (IsoString t) = None"

definition sort_by_getTime :: "created_at list \<Rightarrow> error + created_at list" where
  "sort_by_getTime dates =
     (if length dates < 2 then Inr dates
      else
        (case those (map getTime dates) of
           None \<Rightarrow> Inl (Error ''a.getTime is not a function'')
         | Some ts \<Rightarrow> Inr (map DateObject (sort ts))))"

definition getDesignStats :: "design_store \<Rightarrow> design_stats \<times> design_store" where
  "getDesignStats st =
     (case getCustomDesigns st of
        (customDesigns, st1) \<Rightarrow>
          if customDesigns = []
          then (\<lparr>totalCustomDesigns = 0, oldestDesign = None, newestDesign = None\<rparr>, st1)
          else
            let dates = map the (filter (\<lambda>date. date \<noteq> None) (map createdAt customDesigns)) in
            (case sort_by_getTime dates of
               Inl e \<Rightarrow> (\<lparr>totalCustomDesigns = 0, oldestDesign = None, newestDesign = None\<rparr>, st1)
             | Inr sortedDates \<Rightarrow>
                 (\<lparr>totalCustomDesigns = length customDesigns,
                   oldestDesign = (if sortedDates = [] then None else Some (hd sortedDates)),
                   newestDesign = (if sortedDates = [] then None else Some (last sortedDates))\<rparr>,
                  st1)))"

text \<open>No call of the store is scheduled to be rejected.\<close>

definition reliable :: "design_store \<Rightarrow> bool" where
  "reliable st = (case AsyncStorage st of None \<Rightarrow> True | Some a \<Rightarrow> rejections a = [])"

section \<open>Strings\<close>

text \<open>
  A \<^typ>\<open>char\<close> stands for one UTF-16 code unit below 256, so a \<^typ>\<open>string\<close> is a
  JavaScript string of such code units. \<open>is_space\<close> is the class \<^verbatim>\<open>\s\<close> of a regular
  expression, which is also what \<^verbatim>\<open>trim\<close> strips, on these code units: tab, line
  feed, vertical tab, form feed, carriage return, space and no-break space.
\<close>

definition is_space :: "char \<Rightarrow> bool" where
  "is_space c = (of_char c \<in> {9, 10, 11, 12, 13, 32, 160 :: nat})"

definition trim :: "string \<Rightarrow> string" where
  "trim s = rev (dropWhile is_space (rev (dropWhile is_space s)))"

definition startsWith :: "string \<Rightarrow> string \<Rightarrow> bool" where
  "startsWith s p = (take (length p) s = p)"

text \<open>\<^verbatim>\<open>s.includes(p)\<close> (\<open>includes\<close> is a keyword of Isabelle).\<close>

fun str_includes :: "string \<Rightarrow> string \<Rightarrow> bool" where
  "str_includes [] p = (p = [])"
| "str_includes (c # cs) p = (startsWith (c # cs) p \<or> str_includes cs p)"

text \<open>
  \<^verbatim>\<open>base64data.split(',')[1]\<close>: the text between the first and the second comma,
  and \<^verbatim>\<open>undefined\<close> (\<open>None\<close>) when there is no comma.
\<close>

definition split_comma_1 :: "string \<Rightarrow> string option" where
  "split_comma_1 s =
     (case dropWhile (\<lambda>c. c \<noteq> CHR '','') s of
        [] \<Rightarrow> None
      | _ # rest \<Rightarrow> Some (takeWhile (\<lambda>c. c \<noteq> CHR '','') rest))"

text \<open>Truthiness of an optional string and of an optional boolean.\<close>

definition truthy :: "string option \<Rightarrow> bool" where
  "truthy v = (case v of None \<Rightarrow> False | Some s \<Rightarrow> s \<noteq> [])"

definition enabled :: "bool option \<Rightarrow> bool" where
  "enabled v = (v = Some True)"

subsection \<open>The regular expressions of starVectorProcessor.ts\<close>

text \<open>
  With the flag \<^verbatim>\<open>i\<close> two code units match when their canonical forms (the upper
  case of a letter \<^verbatim>\<open>a\<close> to \<^verbatim>\<open>z\<close>, the code unit itself otherwise) agree; the
  patterns below hold ASCII characters only.
\<close>

definition canonical :: "char \<Rightarrow> nat" where
  "canonical c = (if 97 \<le> (of_char c :: nat) \<and> (of_char c :: nat) \<le> 122
                  then of_char c - 32 else of_char c)"

fun starts_ci :: "string \<Rightarrow> string \<Rightarrow> bool" where
  "starts_ci s [] = True"
| "starts_ci [] (p # ps) = False"
| "starts_ci (c # cs) (p # ps) = (canonical c = canonical p \<and> starts_ci cs ps)"

text \<open>
  \<^verbatim>\<open>[\s\S]*<\/svg>\<close> at the start of a text, greedy: the star takes every character
  and gives them back one at a time, so the match ends at the last \<^verbatim>\<open></svg>\<close>.
\<close>

fun greedy_to_close :: "string \<Rightarrow> string option" where
  "greedy_to_close [] = None"
| "greedy_to_close (c # cs) =
     (case greedy_to_close cs of
        Some m \<Rightarrow> Some (c # m)
      | None \<Rightarrow> if starts_ci (c # cs) ''</svg>'' then Some (take 6 (c # cs)) else None)"

text \<open>\<^verbatim>\<open>[\s\S]*?<\/svg>\<close>, lazy: the match ends at the first \<^verbatim>\<open></svg>\<close>.\<close>

fun lazy_to_close :: "string \<Rightarrow> string option" where
  "lazy_to_close [] = None"
| "lazy_to_close (c # cs) =
     (if starts_ci (c # cs) ''</svg>'' then Some (take 6 (c # cs))
      else map_option (Cons c) (lazy_to_close cs))"

text \<open>
  \<^verbatim>\<open>s.match(/<svg[\s\S]*<\/svg>/i)\<close> and \<^verbatim>\<open>s.match(/<svg[\s\S]*?<\/svg>/i)\<close>: the
  match that starts leftmost, \<open>None\<close> for \<^verbatim>\<open>null\<close>.
\<close>

fun match_svg_greedy :: "string \<Rightarrow> string option" where
  "match_svg_greedy [] = None"
| "match_svg_greedy (c # cs) =
     (if starts_ci (c # cs) ''<svg'' then
        (case greedy_to_close (drop 4 (c # cs)) of
           Some m \<Rightarrow> Some (take 4 (c # cs) @ m)
         | None \<Rightarrow> match_svg_greedy cs)
      else match_svg_greedy cs)"

fun match_svg_lazy :: "string \<Rightarrow> string option" where
  "match_svg_lazy [] = None"
| "match_svg_lazy (c # cs) =
     (if starts_ci (c # cs) ''<svg'' then
        (case lazy_to_close (drop 4 (c # cs)) of
           Some m \<Rightarrow> Some (take 4 (c # cs) @ m)
         | None \<Rightarrow> match_svg_lazy cs)
      else match_svg_lazy cs)"

text \<open>
  \<^verbatim>\<open>\s*\n\<close> on the text that follows a line feed, greedy; the result is what is
  left of the text after the match.
\<close>

fun blank_run :: "string \<Rightarrow> string option" where
  "blank_run [] = None"
| "blank_run (c # cs) =
     (if is_space c then
        (case blank_run cs of
           Some r \<Rightarrow> Some r
         | None \<Rightarrow> if c = CHR 0x0A then Some cs else None)
      else None)"

lemma blank_run_shorter: "blank_run cs = Some r \<Longrightarrow> length r < length cs"
  by (induction cs arbitrary: r) (auto split: if_splits option.splits)

text \<open>\<^verbatim>\<open>s.replace(/\n\s*\n/g, '\n')\<close>\<close>

function remove_empty_lines :: "string \<Rightarrow> string" where
  "remove_empty_lines [] = []"
| "remove_empty_lines (c # cs) =
     (if c = CHR 0x0A then
        (case blank_run cs of
           Some r \<Rightarrow> CHR 0x0A # remove_empty_lines r
         | None \<Rightarrow> c # remove_empty_lines cs)
      else c # remove_empty_lines cs)"
  by pat_completeness auto
termination
  by (relation "measure length") (auto dest: blank_run_shorter)

text \<open>
  \<^verbatim>\<open>\s+<\<close> on the text that follows a \<^verbatim>\<open>></\<close>; the result is what is left of the
  text after the match.
\<close>

definition tag_gap :: "string \<Rightarrow> string option" where
  "tag_gap cs =
     (case cs of
        [] \<Rightarrow> None
      | c # _ \<Rightarrow>
          if is_space c then
            (case dropWhile is_space cs of
               [] \<Rightarrow> None
             | d # ds \<Rightarrow> if d = CHR ''<'' then Some ds else None)
          else None)"

lemma tag_gap_shorter: "tag_gap cs = Some r \<Longrightarrow> length r < length cs"
proof -
  assume a: "tag_gap cs = Some r"
  then obtain d where "dropWhile is_space cs = d # r"
    by (auto simp: tag_gap_def split: list.splits if_splits)
  moreover have "length (dropWhile is_space cs) \<le> length cs" by (rule length_dropWhile_le)
  ultimately show ?thesis by simp
qed

text \<open>\<^verbatim>\<open>s.replace(/>\s+</g, '><')\<close>\<close>

function close_tag_gaps :: "string \<Rightarrow> string" where
  "close_tag_gaps [] = []"
| "close_tag_gaps (c # cs) =
     (if c = CHR ''>'' then
        (case tag_gap cs of
           Some r \<Rightarrow> CHR ''>'' # CHR ''<'' # close_tag_gaps r
         | None \<Rightarrow> c # close_tag_gaps cs)
      else c # close_tag_gaps cs)"
  by pat_completeness auto
termination
  by (relation "measure length") (auto dest: tag_gap_shorter)

subsection \<open>validateAndCleanSVG, extractSVGFromResponse, validateBase64Image\<close>

definition validateAndCleanSVG :: "string \<Rightarrow> error + string" where
  "validateAndCleanSVG svgCode =
     (let cleaned = trim svgCode in
      case (if \<not> startsWith cleaned ''<svg'' then
              (case match_svg_greedy cleaned of
                 Some svgMatch \<Rightarrow> Inr svgMatch
               | None \<Rightarrow> Inl (Error ''Invalid SVG code generated''))
            else Inr cleaned) of
        Inl e \<Rightarrow> Inl e
      | Inr cleaned' \<Rightarrow> Inr (close_tag_gaps (remove_empty_lines cleaned')))"

definition extractSVGFromResponse :: "string \<Rightarrow> string option" where
  "extractSVGFromResponse response = match_svg_lazy response"

definition validateBase64Image :: "string \<Rightarrow> bool" where
  "validateBase64Image base64 =
     (if base64 = [] then False
      else (startsWith base64 ''/9j/'' \<or> startsWith base64 ''iVBOR'' \<or> startsWith base64 ''R0lGOD'')
           \<and> length base64 > 100)"

section \<open>Promises and the outside world\<close>

text \<open>
  An awaited promise resolves, rejects, or never settles (\<open>Pending\<close>). Every promise
  of a library settles; a promise that never settles is one the code builds with
  \<^verbatim>\<open>new Promise\<close> and whose \<^verbatim>\<open>resolve\<close> it then fails to call.
\<close>

datatype 'a outcome = Resolved 'a | Rejected error | Pending

subsection \<open>What the code asks of the device and the network\<close>

text \<open>
  A number as the code writes it: \<open>Decimal m e\<close> is \<open>m\<close> times ten to the power
  \<open>e\<close>, so \<^verbatim>\<open>0.95\<close> is \<open>Decimal 95 (- 2)\<close>. The code passes these numbers on and
  never computes with them.
\<close>

datatype number = Decimal (mantissa: int) (exponent: int)

datatype SaveFormat = JPEG | PNG

datatype action = Resize "nat option" "nat option" | Crop number number number number

datatype save_options = SaveOptions (compress: "number option") (save_format: SaveFormat)

datatype image_result = ImageResult (uri: string) (width: nat) (height: nat)

datatype EncodingType = Base64 | UTF8

datatype blob = Blob string

text \<open>
  The body of a request: the form with its \<^verbatim>\<open>image_file\<close> (uri, type, name), or the
  object handed to \<^verbatim>\<open>JSON.stringify\<close>, by its fields in their order.
\<close>

datatype body =
    FormData string string string
  | GenerateBody string string nat number
  | ChatBody string string string nat number bool
  | InputsBody string nat number bool bool

datatype request =
  Request (url: string) (http_method: string) (headers: "(string \<times> string) list") (body: "body option")

text \<open>
  Of the object \<^verbatim>\<open>response.json()\<close> resolves to, the fields the code reads:
  \<^verbatim>\<open>svg_code\<close>, \<^verbatim>\<open>choices[0].message.content\<close> and the generated text (the
  result itself when it is a string, else \<^verbatim>\<open>[0].generated_text\<close>, else
  \<^verbatim>\<open>generated_text\<close>). The three body readers reject with \<open>Inl\<close>.
\<close>

datatype payload =
  Payload (svg_code: "string option") (content: "string option") (generated_text: "string option")

datatype response =
  Response (ok: bool) (status: nat) (json_body: "error + payload")
    (text_body: "error + string") (blob_body: "error + blob")

datatype event =
    Manipulate string "action list" save_options
  | ReadAsString string EncodingType
  | WriteAsString string "string option" EncodingType
  | DeleteFile string
  | Fetch request
  | ReadAsDataURL blob
  | DateNow

text \<open>
  The environment: which of the optional modules \<^verbatim>\<open>require\<close> found, the constants
  the code reads, and for every call that leaves the code its reply, which may depend
  on all the calls made so far. \<open>svg_markup w h\<close> is the text of the template
  literal of \<^verbatim>\<open>generateSVGFromAnalysis\<close> for a width and a height, and \<open>restyle\<close> is
  the chain of four \<^verbatim>\<open>replace\<close> calls of \<^verbatim>\<open>optimizeSVGForTattoo\<close>; both are pure
  and total, and their texts are left open.
\<close>

record env =
  ImageManipulator :: bool
  FileSystem :: bool
  HfInference :: "(string \<Rightarrow> error + string) option"
  documentDirectory :: string
  AI_CONFIG_huggingFace :: string
  manipulateAsync_reply :: "event list \<Rightarrow> string \<Rightarrow> action list \<Rightarrow> save_options \<Rightarrow> error + image_result"
  readAsStringAsync_reply :: "event list \<Rightarrow> string \<Rightarrow> EncodingType \<Rightarrow> error + string"
  writeAsStringAsync_reply :: "event list \<Rightarrow> string \<Rightarrow> string option \<Rightarrow> EncodingType \<Rightarrow> error + unit"
  deleteAsync_reply :: "event list \<Rightarrow> string \<Rightarrow> error + unit"
  fetch_reply :: "event list \<Rightarrow> request \<Rightarrow> error + response"
  readAsDataURL_reply :: "event list \<Rightarrow> blob \<Rightarrow> string option"
  Date_now :: "event list \<Rightarrow> string"
  svg_markup :: "nat \<Rightarrow> nat \<Rightarrow> string"
  restyle :: "string \<Rightarrow> string"

subsection \<open>Asynchronous computations\<close>

text \<open>
  An asynchronous function takes the calls made so far and gives its outcome and
  the calls made by then.
\<close>

type_synonym 'a io = "event list \<Rightarrow> 'a outcome \<times> event list"

definition resolved :: "'a \<Rightarrow> 'a io" where
  "resolved x h = (Resolved x, h)"

definition thrown :: "error \<Rightarrow> 'a io" where
  "thrown e h = (Rejected e, h)"

text \<open>\<^verbatim>\<open>await\<close> outside any \<^verbatim>\<open>try\<close>: a rejection leaves the function.\<close>

definition await :: "'a io \<Rightarrow> ('a \<Rightarrow> 'b io) \<Rightarrow> 'b io" where
  "await m k h =
     (case m h of
        (Resolved x, h') \<Rightarrow> k x h'
      | (Rejected e, h') \<Rightarrow> (Rejected e, h')
      | (Pending, h') \<Rightarrow> (Pending, h'))"

text \<open>
  \<^verbatim>\<open>await\<close> inside a \<^verbatim>\<open>try\<close> block whose \<^verbatim>\<open>catch\<close> clause is \<open>handler\<close>: a
  rejection goes to the clause, and what the clause throws leaves the function.
\<close>

definition await_try :: "'a io \<Rightarrow> (error \<Rightarrow> 'b io) \<Rightarrow> ('a \<Rightarrow> 'b io) \<Rightarrow> 'b io" where
  "await_try m handler k h =
     (case m h of
        (Resolved x, h') \<Rightarrow> k x h'
      | (Rejected e, h') \<Rightarrow> handler e h'
      | (Pending, h') \<Rightarrow> (Pending, h'))"

definition external :: "event \<Rightarrow> (event list \<Rightarrow> error + 'a) \<Rightarrow> 'a io" where
  "external ev reply h =
     ((case reply h of Inl e \<Rightarrow> Rejected e | Inr x \<Rightarrow> Resolved x), h @ [ev])"

text \<open>A member read on a module that \<^verbatim>\<open>require\<close> did not find.\<close>

definition TypeError :: error where
  "TypeError = Error ''Cannot read property of undefined''"

definition manipulateAsync :: "env \<Rightarrow> string \<Rightarrow> action list \<Rightarrow> save_options \<Rightarrow> image_result io" where
  "manipulateAsync env u acts opts =
     (if ImageManipulator env
      then external (Manipulate u acts opts) (\<lambda>h. manipulateAsync_reply env h u acts opts)
      else thrown TypeError)"

definition readAsStringAsync :: "env \<Rightarrow> string \<Rightarrow> EncodingType \<Rightarrow> string io" where
  "readAsStringAsync env path enc =
     (if FileSystem env
      then external (ReadAsString path enc) (\<lambda>h. readAsStringAsync_reply env h path enc)
      else thrown TypeError)"

definition writeAsStringAsync :: "env \<Rightarrow> string \<Rightarrow> string option \<Rightarrow> EncodingType \<Rightarrow> unit io" where
  "writeAsStringAsync env path contents enc =
     (if FileSystem env
      then external (WriteAsString path contents enc) (\<lambda>h. writeAsStringAsync_reply env h path contents enc)
      else thrown TypeError)"

definition deleteAsync :: "env \<Rightarrow> string \<Rightarrow> unit io" where
  "deleteAsync env path =
     (if FileSystem env
      then external (DeleteFile path) (\<lambda>h. deleteAsync_reply env h path)
      else thrown TypeError)"

definition fetch :: "env \<Rightarrow> request \<Rightarrow> response io" where
  "fetch env req = external (Fetch req) (\<lambda>h. fetch_reply env h req)"

definition Date_now_text :: "env \<Rightarrow> string io" where
  "Date_now_text env h = (Resolved (Date_now env h), h @ [DateNow])"


section \<open>The StarVector processor (src/utils/starVectorProcessor.ts)\<close>

record StarVectorOptions =
  model :: "string option"
  temperature :: "number option"
  maxTokens :: "nat option"
  useHuggingFace :: "bool option"
  huggingFaceToken :: "string option"
  useCPUMode :: "bool option"
  localModelPath :: "string option"

record StarVectorResult =
  success :: bool
  svgCode :: "string option"
  svgUri :: "string option"
  originalImageUri :: string
  processingSteps :: "string list"
  error :: "string option"
  model :: "string option"

text \<open>The static fields of the class; \<open>hf\<close> is the client, \<open>None\<close> for \<^verbatim>\<open>null\<close>.\<close>

record star_vector =
  hf :: "string option"
  isInitialized :: bool
  cpuModeEnabled :: bool

definition star_vector_initial :: star_vector where
  "star_vector_initial = \<lparr>hf = None, isInitialized = False, cpuModeEnabled = False\<rparr>"

definition no_options :: StarVectorOptions where
  "no_options = \<lparr>StarVectorOptions.model = None, temperature = None, maxTokens = None,
                  useHuggingFace = None, huggingFaceToken = None,
                  StarVectorOptions.useCPUMode = None, localModelPath = None\<rparr>"

definition initialize :: "env \<Rightarrow> star_vector \<Rightarrow> string option \<Rightarrow> bool \<Rightarrow> bool \<times> star_vector" where
  "initialize env sv token enableCPUMode =
     (if enableCPUMode then (True, sv\<lparr>cpuModeEnabled := True, isInitialized := True\<rparr>)
      else
        (case HfInference env of
           None \<Rightarrow> (False, sv)
         | Some new_HfInference \<Rightarrow>
             (case token of
                None \<Rightarrow> (False, sv)
              | Some t \<Rightarrow>
                  if t = [] then (False, sv)
                  else
                    (case new_HfInference t of
                       Inl e \<Rightarrow> (False, sv)
                     | Inr client \<Rightarrow> (True, sv\<lparr>hf := Some client, isInitialized := True\<rparr>)))))"

definition isAvailable :: "env \<Rightarrow> star_vector \<Rightarrow> bool" where
  "isAvailable env sv = (isInitialized sv \<and> hf sv \<noteq> None \<and> HfInference env \<noteq> None)"

text \<open>\<^verbatim>\<open>options.maxTokens || 2048\<close> and \<^verbatim>\<open>options.temperature || 0.1\<close>\<close>

definition maxTokens_or_default :: "StarVectorOptions \<Rightarrow> nat" where
  "maxTokens_or_default options =
     (case maxTokens options of None \<Rightarrow> 2048 | Some n \<Rightarrow> if n = 0 then 2048 else n)"

definition temperature_or_default :: "StarVectorOptions \<Rightarrow> number" where
  "temperature_or_default options =
     (case temperature options of
        None \<Rightarrow> Decimal 1 (- 1)
      | Some t \<Rightarrow> if mantissa t = 0 then Decimal 1 (- 1) else t)"

text \<open>A value in a template literal: \<^verbatim>\<open>undefined\<close> prints as that word.\<close>

definition template_text :: "string option \<Rightarrow> string" where
  "template_text v = (case v of None \<Rightarrow> ''undefined'' | Some s \<Rightarrow> s)"

definition checkLocalStarVector :: "env \<Rightarrow> bool io" where
  "checkLocalStarVector env =
     await_try (fetch env (Request ''http://localhost:8000/health'' ''GET'' [] None))
       (\<lambda>error. resolved False)
       (\<lambda>response. resolved (ok response))"

definition callLocalStarVector :: "env \<Rightarrow> string \<Rightarrow> string \<Rightarrow> StarVectorOptions \<Rightarrow> string option io" where
  "callLocalStarVector env imageBase64 modelName options =
     await_try
       (fetch env (Request ''http://localhost:8000/generate'' ''POST''
          [(''Content-Type'', ''application/json'')]
          (Some (GenerateBody imageBase64 modelName (maxTokens_or_default options)
                   (temperature_or_default options)))))
       (\<lambda>error. resolved None)
       (\<lambda>response.
          if ok response then
            (case json_body response of
               Inl e \<Rightarrow> resolved None
             | Inr result \<Rightarrow> resolved (svg_code result))
          else resolved None)"

definition prepareImageForStarVector :: "env \<Rightarrow> string \<Rightarrow> string io" where
  "prepareImageForStarVector env imageUri =
     (if \<not> ImageManipulator env then resolved imageUri
      else
        await_try
          (manipulateAsync env imageUri [Resize (Some 512) None] (SaveOptions (Some (Decimal 95 (- 2))) JPEG))
          (\<lambda>error. resolved imageUri)
          (\<lambda>optimizedImage. resolved (uri optimizedImage)))"

definition text_prompt :: "string \<Rightarrow> string" where
  "text_prompt imageBase64 =
     ''<image>'' @ imageBase64 @ ''</image>'' @ [CHR 0x0A, CHR 0x0A] @
     ''Convert this image to clean SVG code suitable for tattoo design. Create bold, simple lines and shapes. Output only valid SVG markup:''"

definition tryTextGenerationAPI :: "env \<Rightarrow> string \<Rightarrow> string \<Rightarrow> StarVectorOptions \<Rightarrow> string option io" where
  "tryTextGenerationAPI env imageBase64 modelName options =
     await_try
       (fetch env (Request (''https://api-inference.huggingface.co/models/'' @ modelName) ''POST''
          [(''Authorization'', ''Bearer '' @ template_text (huggingFaceToken options)),
           (''Content-Type'', ''application/json'')]
          (Some (InputsBody (text_prompt imageBase64) (maxTokens_or_default options)
                   (temperature_or_default options) True False))))
       (\<lambda>error. resolved None)
       (\<lambda>response.
          if ok response then
            (case json_body response of
               Inl e \<Rightarrow> resolved None
             | Inr result \<Rightarrow>
                 (case generated_text result of
                    None \<Rightarrow> resolved None
                  | Some t \<Rightarrow> if t = [] then resolved None else resolved (extractSVGFromResponse t)))
          else resolved None)"

definition chat_prompt :: string where
  "chat_prompt = ''Convert this image to clean SVG code suitable for tattoo design. Generate bold, simple lines and shapes that capture the essential elements. Output only valid SVG markup without any explanations.''"

definition callStarVectorAPI :: "env \<Rightarrow> string \<Rightarrow> string \<Rightarrow> StarVectorOptions \<Rightarrow> string option io" where
  "callStarVectorAPI env imageBase64 modelName options =
     await_try
       (fetch env
          (Request (''https://api-inference.huggingface.co/models/'' @ modelName @ ''/v1/chat/completions'')
             ''POST''
             [(''Authorization'', ''Bearer '' @ template_text (huggingFaceToken options)),
              (''Content-Type'', ''application/json'')]
             (Some (ChatBody modelName chat_prompt (''data:image/jpeg;base64,'' @ imageBase64)
                      (maxTokens_or_default options) (temperature_or_default options) False))))
       (\<lambda>error. resolved None)
       (\<lambda>chatResponse.
          let after_branches =
            (case text_body chatResponse of
               Inl e \<Rightarrow> resolved None
             | Inr errorText \<Rightarrow> resolved None)
          in
          if ok chatResponse then
            (case json_body chatResponse of
               Inl e \<Rightarrow> resolved None
             | Inr result \<Rightarrow>
                 if truthy (content result) then
                   (case extractSVGFromResponse (the (content result)) of
                      Some svg \<Rightarrow> if svg \<noteq> [] then resolved (Some svg) else after_branches
                    | None \<Rightarrow> after_branches)
                 else after_branches)
          else if status chatResponse = 404 then
            await_try (tryTextGenerationAPI env imageBase64 modelName options)
              (\<lambda>error. resolved None) resolved
          else after_branches)"

text \<open>\<^verbatim>\<open>analyzeImageForVectors\<close> returns a fixed object that nothing reads.\<close>

definition generateSVGFromAnalysis :: "env \<Rightarrow> string \<Rightarrow> string io" where
  "generateSVGFromAnalysis env imageUri =
     (if ImageManipulator env then
        await_try (manipulateAsync env imageUri [] (SaveOptions None JPEG))
          (\<lambda>error. resolved (svg_markup env 400 400))
          (\<lambda>imageInfo. resolved (svg_markup env (min (width imageInfo) 800) (min (height imageInfo) 800)))
      else resolved (svg_markup env 400 400))"

definition optimizeSVGForTattoo :: "env \<Rightarrow> string \<Rightarrow> string io" where
  "optimizeSVGForTattoo env svg = resolved (restyle env svg)"

definition simpleGeometricPNG :: string where
  "simpleGeometricPNG = ''iVBORw0KGgoAAAANSUhEUgAAAAgAAAAICAYAAADED76LAAAABHNCSVQICAgIfAhkiAAAAAlwSFlzAAAAdgAAAHYBTnsmZQAAABl0RVh0U29mdHdhcmUAd3d3Lmlua3NjYXBlLm9yZ5vuPBoAAAAySURBVBiVY2RgYPgPBAxAwMjAAATMQMDAwMDIyMDAwMjIwMDIyMDAwMjIwMDIyMDAwAAD5wAhkJa3AQAAAABJRU5ErkJggg==''"

definition createSimpleTattooDesign :: "env \<Rightarrow> string io" where
  "createSimpleTattooDesign env =
     (if \<not> ImageManipulator env \<or> \<not> FileSystem env
      then thrown (Error ''Required modules not available'')
      else
        let last_resort = (\<lambda>error.
              await (Date_now_text env) (\<lambda>stamp.
              let fallbackPath = documentDirectory env @ ''fallback_design_'' @ stamp @ ''.txt'' in
              await_try (writeAsStringAsync env fallbackPath (Some ''Design generated successfully'') UTF8)
                (\<lambda>fallbackError. thrown (Error ''Could not create any design output''))
                (\<lambda>u. resolved fallbackPath)))
        in
        await (Date_now_text env) (\<lambda>stamp.
        let filePath = documentDirectory env @ ''tattoo_design_'' @ stamp @ ''.png'' in
        await_try (writeAsStringAsync env filePath (Some simpleGeometricPNG) Base64) last_resort (\<lambda>u.
        await_try (manipulateAsync env filePath [Resize (Some 400) (Some 400)] (SaveOptions (Some (Decimal 9 (- 1))) PNG))
          last_resort (\<lambda>result.
        await_try (deleteAsync env filePath) last_resort (\<lambda>u.
        resolved (uri result))))))"

definition createTattooImageFallback :: "env \<Rightarrow> string \<Rightarrow> string io" where
  "createTattooImageFallback env svg =
     (if \<not> ImageManipulator env then thrown (Error ''ImageManipulator not available'')
      else await_try (createSimpleTattooDesign env) (\<lambda>error. thrown error) resolved)"

definition convertSVGToPNG :: "env \<Rightarrow> string \<Rightarrow> string io" where
  "convertSVGToPNG env svg = createTattooImageFallback env svg"

definition saveSVGToFile :: "env \<Rightarrow> string \<Rightarrow> string io" where
  "saveSVGToFile env svg =
     (if \<not> FileSystem env then thrown (Error ''FileSystem not available'')
      else
        await (Date_now_text env) (\<lambda>stamp.
        let svgFilePath = documentDirectory env @ ''starvector_tattoo_'' @ stamp @ ''.svg'' in
        await (writeAsStringAsync env svgFilePath (Some svg) UTF8) (\<lambda>u.
        await_try (convertSVGToPNG env svg)
          (\<lambda>error. createTattooImageFallback env svg)
          resolved)))"

definition processWithLocalStarVector :: "env \<Rightarrow> string \<Rightarrow> StarVectorOptions \<Rightarrow> StarVectorResult io" where
  "processWithLocalStarVector env imageUri options =
     (let failed = (\<lambda>steps error.
            resolved \<lparr>success = False, svgCode = None, svgUri = None, originalImageUri = imageUri,
                      processingSteps = steps, error = Some (message error), model = None\<rparr>);
          steps1 = [''Image analyzed for vector elements''];
          steps2 = steps1 @ [''SVG structure generated''];
          steps3 = steps2 @ [''SVG optimized for tattoo design'']
      in
      await_try (generateSVGFromAnalysis env imageUri) (failed steps1) (\<lambda>svg.
      await_try (optimizeSVGForTattoo env svg) (failed steps2) (\<lambda>optimizedSVG.
      await_try (saveSVGToFile env optimizedSVG) (failed steps3) (\<lambda>savedUri.
      resolved \<lparr>success = True, svgCode = Some optimizedSVG, svgUri = Some savedUri,
                originalImageUri = imageUri,
                processingSteps = steps3 @ [''SVG file saved''], error = None,
                model = Some ''local-starvector-inspired''\<rparr>))))"


subsection \<open>imageToSVG\<close>

text \<open>
  The \<^verbatim>\<open>catch\<close> clause of \<^verbatim>\<open>imageToSVG\<close> (lines 258 to 284), for the steps pushed
  by the time of the throw.
\<close>

definition imageToSVG_catch ::
  "env \<Rightarrow> string \<Rightarrow> StarVectorOptions \<Rightarrow> string list \<Rightarrow> error \<Rightarrow> StarVectorResult io" where
  "imageToSVG_catch env imageUri options steps err =
     await_try (processWithLocalStarVector env imageUri options)
       (\<lambda>fallbackError.
          resolved \<lparr>success = False, svgCode = None, svgUri = None, originalImageUri = imageUri,
                    processingSteps = steps,
                    error = Some (''Primary processing failed: '' @ message err @
                                  ''. Fallback failed: '' @ message fallbackError),
                    model = None\<rparr>)
       (\<lambda>fallbackResult.
          resolved (fallbackResult\<lparr>processingSteps :=
            steps @ [''Error in main processing: '' @ message err] @ processingSteps fallbackResult\<rparr>))"

text \<open>
  Lines 193 to 209 and 223 to 241: the generated code is validated, saved and
  returned, under the model name given.
\<close>

definition imageToSVG_finish ::
  "env \<Rightarrow> string \<Rightarrow> StarVectorOptions \<Rightarrow> string list \<Rightarrow> string \<Rightarrow> string \<Rightarrow> StarVectorResult io" where
  "imageToSVG_finish env imageUri options steps generated modelLabel =
     (case validateAndCleanSVG generated of
        Inl e \<Rightarrow> imageToSVG_catch env imageUri options steps e
      | Inr cleanedSVG \<Rightarrow>
          (let steps' = steps @ [''SVG code validated and cleaned''] in
           await_try (saveSVGToFile env cleanedSVG) (imageToSVG_catch env imageUri options steps')
             (\<lambda>savedUri.
                resolved \<lparr>success = True, svgCode = Some cleanedSVG, svgUri = Some savedUri,
                          originalImageUri = imageUri,
                          processingSteps = steps' @ [''SVG file saved''], error = None,
                          model = Some modelLabel\<rparr>)))"

text \<open>Step 6 (lines 245 to 256).\<close>

definition imageToSVG_step6 ::
  "env \<Rightarrow> string \<Rightarrow> StarVectorOptions \<Rightarrow> string list \<Rightarrow> StarVectorResult io" where
  "imageToSVG_step6 env imageUri options steps =
     (let steps' = steps @ [''StarVector models not available''] in
      await_try (processWithLocalStarVector env imageUri options)
        (imageToSVG_catch env imageUri options steps')
        (\<lambda>localResult.
           resolved (localResult\<lparr>processingSteps := steps' @ processingSteps localResult\<rparr>)))"

text \<open>Step 5 (lines 217 to 243).\<close>

definition imageToSVG_step5 ::
  "env \<Rightarrow> star_vector \<Rightarrow> string \<Rightarrow> StarVectorOptions \<Rightarrow> string \<Rightarrow> string \<Rightarrow> string list
     \<Rightarrow> StarVectorResult io" where
  "imageToSVG_step5 env sv imageUri options imageBase64 modelName steps =
     (if isInitialized sv \<and> hf sv \<noteq> None then
        await_try (callStarVectorAPI env imageBase64 modelName options)
          (imageToSVG_catch env imageUri options steps)
          (\<lambda>generated.
             if truthy generated then
               imageToSVG_finish env imageUri options
                 (steps @ [''SVG code generated by StarVector HuggingFace API''])
                 (the generated) modelName
             else imageToSVG_step6 env imageUri options steps)
      else imageToSVG_step6 env imageUri options steps)"

definition imageToSVG ::
  "env \<Rightarrow> star_vector \<Rightarrow> string \<Rightarrow> StarVectorOptions \<Rightarrow> StarVectorResult io" where
  "imageToSVG env sv imageUri options =
     await_try (prepareImageForStarVector env imageUri) (imageToSVG_catch env imageUri options [])
       (\<lambda>preparedImageUri.
     let steps1 = [''Image prepared for StarVector processing''] in
     await_try (readAsStringAsync env preparedImageUri Base64) (imageToSVG_catch env imageUri options steps1)
       (\<lambda>imageBase64.
     if \<not> validateBase64Image imageBase64 then
       imageToSVG_catch env imageUri options steps1
         (Error ''Invalid image format for StarVector processing'')
     else
       let modelName = (if StarVectorOptions.model options = Some ''8b''
                        then ''starvector/starvector-8b-im2svg''
                        else ''starvector/starvector-1b-im2svg'');
           steps2 = steps1 @ [''Using '' @ modelName @ '' model'']
       in
       if cpuModeEnabled sv \<or> enabled (StarVectorOptions.useCPUMode options) then
         await_try (checkLocalStarVector env) (imageToSVG_catch env imageUri options steps2)
           (\<lambda>isLocalAvailable.
              if isLocalAvailable then
                await_try (callLocalStarVector env imageBase64 modelName options)
                  (imageToSVG_catch env imageUri options steps2)
                  (\<lambda>localSvgCode.
                     if truthy localSvgCode then
                       imageToSVG_finish env imageUri options
                         (steps2 @ [''SVG generated using local CPU StarVector''])
                         (the localSvgCode) (modelName @ '' (Local CPU)'')
                     else imageToSVG_step5 env sv imageUri options imageBase64 modelName steps2)
              else
                imageToSVG_step5 env sv imageUri options imageBase64 modelName
                  (steps2 @ [''Local CPU StarVector not available'']))
       else imageToSVG_step5 env sv imageUri options imageBase64 modelName steps2))"

section \<open>The image processor (src/utils/aiImageProcessor.ts)\<close>

record ProcessingOptions =
  removeBackground :: "bool option"
  enhanceEdges :: "bool option"
  convertToLineArt :: "bool option"
  autoContrast :: "bool option"
  smartCrop :: "bool option"
  useAI :: "bool option"
  outputFormat :: "string option"
  useStarVector :: "bool option"
  starVectorModel :: "string option"
  fallbackToLocal :: "bool option"
  useCPUMode :: "bool option"

record ProcessingResult =
  success :: bool
  processedImageUri :: "string option"
  originalImageUri :: string
  processingSteps :: "string list"
  error :: "string option"
  format :: "string option"
  svgCode :: "string option"
  model :: "string option"

text \<open>The keys of \<^verbatim>\<open>AI_SERVICES\<close>, \<open>None\<close> for \<^verbatim>\<open>null\<close>.\<close>

record ai_services =
  CODIA_AI_apiKey :: "string option"
  REMOVE_BG_apiKey :: "string option"
  CLIPDROP_apiKey :: "string option"

definition AI_SERVICES_initial :: ai_services where
  "AI_SERVICES_initial = \<lparr>CODIA_AI_apiKey = None, REMOVE_BG_apiKey = None, CLIPDROP_apiKey = None\<rparr>"

text \<open>
  \<^verbatim>\<open>AI_PROCESSING_DEFAULTS\<close> (src/constants/aiConfig.ts), without \<^verbatim>\<open>preferSVG\<close>,
  which nothing reads, and the spread \<^verbatim>\<open>{ ...AI_PROCESSING_DEFAULTS, ...options }\<close>:
  a field that \<open>options\<close> has replaces the default.
\<close>

definition AI_PROCESSING_DEFAULTS :: ProcessingOptions where
  "AI_PROCESSING_DEFAULTS =
     \<lparr>removeBackground = Some True, enhanceEdges = Some True, convertToLineArt = Some True,
      autoContrast = Some True, smartCrop = Some True, useAI = Some True,
      outputFormat = Some ''SVG'', useStarVector = Some True, starVectorModel = Some ''1b'',
      fallbackToLocal = Some True, useCPUMode = Some False\<rparr>"

definition or_default :: "'a option \<Rightarrow> 'a option \<Rightarrow> 'a option" where
  "or_default d v = (case v of None \<Rightarrow> d | Some x \<Rightarrow> Some x)"

definition spread :: "ProcessingOptions \<Rightarrow> ProcessingOptions \<Rightarrow> ProcessingOptions" where
  "spread d options =
     \<lparr>removeBackground = or_default (removeBackground d) (removeBackground options),
      enhanceEdges = or_default (enhanceEdges d) (enhanceEdges options),
      convertToLineArt = or_default (convertToLineArt d) (convertToLineArt options),
      autoContrast = or_default (autoContrast d) (autoContrast options),
      smartCrop = or_default (smartCrop d) (smartCrop options),
      useAI = or_default (useAI d) (useAI options),
      outputFormat = or_default (outputFormat d) (outputFormat options),
      useStarVector = or_default (useStarVector d) (useStarVector options),
      starVectorModel = or_default (starVectorModel d) (starVectorModel options),
      fallbackToLocal = or_default (fallbackToLocal d) (fallbackToLocal options),
      useCPUMode = or_default (useCPUMode d) (useCPUMode options)\<rparr>"

definition setAPIKeys ::
  "env \<Rightarrow> ai_services \<Rightarrow> star_vector \<Rightarrow> string option \<Rightarrow> string option \<Rightarrow> string option
     \<Rightarrow> string option \<Rightarrow> bool \<Rightarrow> ai_services \<times> star_vector" where
  "setAPIKeys env svc sv codiaAI removeBG clipdrop huggingFace enableCPUMode =
     (let svc1 = (if truthy codiaAI then svc\<lparr>CODIA_AI_apiKey := codiaAI\<rparr> else svc);
          svc2 = (if truthy removeBG then svc1\<lparr>REMOVE_BG_apiKey := removeBG\<rparr> else svc1);
          svc3 = (if truthy clipdrop then svc2\<lparr>CLIPDROP_apiKey := clipdrop\<rparr> else svc2)
      in
      (svc3,
       if truthy huggingFace \<or> enableCPUMode
       then snd (initialize env sv huggingFace enableCPUMode) else sv))"

subsection \<open>The steps of the traditional pipeline\<close>

definition preprocessForAI :: "env \<Rightarrow> string \<Rightarrow> string io" where
  "preprocessForAI env imageUri =
     (if \<not> ImageManipulator env then resolved imageUri
      else
        await_try
          (manipulateAsync env imageUri [Resize (Some 1024) None] (SaveOptions (Some (Decimal 9 (- 1))) JPEG))
          (\<lambda>error. resolved imageUri)
          (\<lambda>optimizedImage. resolved (uri optimizedImage)))"

definition localBackgroundRemoval :: "env \<Rightarrow> string \<Rightarrow> string io" where
  "localBackgroundRemoval env imageUri =
     (if \<not> ImageManipulator env then resolved imageUri
      else
        await_try
          (manipulateAsync env imageUri [Resize (Some 800) None] (SaveOptions (Some (Decimal 10 (- 1))) PNG))
          (\<lambda>error. resolved imageUri)
          (\<lambda>resizedImage.
        await_try
          (manipulateAsync env (uri resizedImage) [] (SaveOptions (Some (Decimal 3 (- 1))) PNG))
          (\<lambda>error. resolved imageUri)
          (\<lambda>highContrastImage. resolved (uri highContrastImage))))"

definition smartCrop_step :: "env \<Rightarrow> string \<Rightarrow> string io" where
  "smartCrop_step env imageUri =
     (if \<not> ImageManipulator env then resolved imageUri
      else
        await_try
          (manipulateAsync env imageUri [Crop (Decimal 1 (- 1)) (Decimal 1 (- 1)) (Decimal 8 (- 1)) (Decimal 8 (- 1)), Resize (Some 600) None]
             (SaveOptions (Some (Decimal 9 (- 1))) PNG))
          (\<lambda>error. resolved imageUri)
          (\<lambda>croppedImage. resolved (uri croppedImage)))"

definition convertToLineArt_step :: "env \<Rightarrow> string \<Rightarrow> string io" where
  "convertToLineArt_step env imageUri =
     (if \<not> ImageManipulator env then resolved imageUri
      else
        await_try
          (manipulateAsync env imageUri [] (SaveOptions (Some (Decimal 1 (- 1))) PNG))
          (\<lambda>error. resolved imageUri)
          (\<lambda>lineArtImage. resolved (uri lineArtImage)))"

definition applyTattooStyling :: "env \<Rightarrow> string \<Rightarrow> bool option \<Rightarrow> string io" where
  "applyTattooStyling env imageUri autoContrastArg =
     (let autoContrast' = (case autoContrastArg of None \<Rightarrow> True | Some b \<Rightarrow> b) in
      if \<not> ImageManipulator env then resolved imageUri
      else
        await_try
          (manipulateAsync env imageUri [Resize (Some 800) None]
             (SaveOptions (Some (if autoContrast' then (Decimal 1 (- 1)) else (Decimal 8 (- 1)))) PNG))
          (\<lambda>error. resolved imageUri)
          (\<lambda>styledImage. resolved (uri styledImage)))"


subsection \<open>Background removal by a remote service\<close>

text \<open>
  The promise that \<^verbatim>\<open>tryRemoveBgAPI\<close> (lines 397 to 413) and \<^verbatim>\<open>tryClipDropAPI\<close>
  (lines 446 to 462) return: a \<^verbatim>\<open>FileReader\<close> reads the blob, and its
  \<^verbatim>\<open>onloadend\<close> callback cuts the data out of the data URL, writes the file and
  only then calls \<^verbatim>\<open>resolve\<close>. The promise has no \<^verbatim>\<open>reject\<close>, and what the
  callback throws is lost: when \<^verbatim>\<open>reader.result\<close> is \<^verbatim>\<open>null\<close>, when
  \<^verbatim>\<open>FileSystem\<close> is undefined or when the write is rejected, the promise never
  settles.
\<close>

definition never :: "'a io" where
  "never h = (Pending, h)"

definition readAsDataURL :: "env \<Rightarrow> blob \<Rightarrow> string option io" where
  "readAsDataURL env b h = (Resolved (readAsDataURL_reply env h b), h @ [ReadAsDataURL b])"

definition blob_to_file :: "env \<Rightarrow> string \<Rightarrow> blob \<Rightarrow> string option io" where
  "blob_to_file env prefix imageBlob =
     await (readAsDataURL env imageBlob) (\<lambda>reader_result.
       case reader_result of
         None \<Rightarrow> never
       | Some base64data \<Rightarrow>
           (let base64Image = split_comma_1 base64data in
            await (Date_now_text env) (\<lambda>stamp.
            if \<not> FileSystem env then never
            else
              let filePath = documentDirectory env @ prefix @ stamp @ ''.png'' in
              await_try (writeAsStringAsync env filePath base64Image Base64)
                (\<lambda>error. never)
                (\<lambda>u. resolved (Some filePath)))))"

definition tryRemoveBgAPI :: "env \<Rightarrow> ai_services \<Rightarrow> string \<Rightarrow> string option io" where
  "tryRemoveBgAPI env svc imageUri =
     await_try
       (fetch env (Request ''https://api.remove.bg/v1.0/removebg'' ''POST''
          [(''X-Api-Key'', template_text (REMOVE_BG_apiKey svc))]
          (Some (FormData imageUri ''image/jpeg'' ''image.jpg''))))
       (\<lambda>error. resolved None)
       (\<lambda>response.
          if ok response then
            (case blob_body response of
               Inl e \<Rightarrow> resolved None
             | Inr imageBlob \<Rightarrow> blob_to_file env ''bg_removed_'' imageBlob)
          else resolved None)"

definition tryClipDropAPI :: "env \<Rightarrow> ai_services \<Rightarrow> string \<Rightarrow> string option io" where
  "tryClipDropAPI env svc imageUri =
     await_try
       (fetch env (Request ''https://clipdrop-api.co/remove-background/v1'' ''POST''
          [(''x-api-key'', template_text (CLIPDROP_apiKey svc))]
          (Some (FormData imageUri ''image/jpeg'' ''image.jpg''))))
       (\<lambda>error. resolved None)
       (\<lambda>response.
          if ok response then
            (case blob_body response of
               Inl e \<Rightarrow> resolved None
             | Inr imageBlob \<Rightarrow> blob_to_file env ''clipdrop_'' imageBlob)
          else resolved None)"

definition removeBackgroundAI :: "env \<Rightarrow> ai_services \<Rightarrow> string \<Rightarrow> string option io" where
  "removeBackgroundAI env svc imageUri =
     (let clipdrop_part =
        (if truthy (CLIPDROP_apiKey svc) then
           await_try (tryClipDropAPI env svc imageUri)
             (\<lambda>error. resolved None)
             (\<lambda>clipDropResult. if truthy clipDropResult then resolved clipDropResult else resolved None)
         else resolved None)
      in
      if truthy (REMOVE_BG_apiKey svc) then
        await_try (tryRemoveBgAPI env svc imageUri)
          (\<lambda>error. resolved None)
          (\<lambda>removeBgResult. if truthy removeBgResult then resolved removeBgResult else clipdrop_part)
      else clipdrop_part)"

subsection \<open>traditionalProcessingPipeline\<close>

text \<open>
  Steps 2, 3 and 4 of the pipeline (lines 186 to 211), each on the pair of the
  variables \<^verbatim>\<open>currentImageUri\<close> and \<^verbatim>\<open>processingSteps\<close>.
\<close>

definition background_stage ::
  "env \<Rightarrow> ai_services \<Rightarrow> ProcessingOptions \<Rightarrow> string \<times> string list \<Rightarrow> (string \<times> string list) io" where
  "background_stage env svc options cur =
     (if enabled (removeBackground options) then
        await (removeBackgroundAI env svc (fst cur)) (\<lambda>backgroundRemovedUri.
          if truthy backgroundRemovedUri then
            resolved (the backgroundRemovedUri, snd cur @ [''Background removed using AI''])
          else
            await (localBackgroundRemoval env (fst cur)) (\<lambda>u.
            resolved (u, snd cur @ [''Background processed locally''])))
      else resolved cur)"

definition crop_stage ::
  "env \<Rightarrow> ProcessingOptions \<Rightarrow> string \<times> string list \<Rightarrow> (string \<times> string list) io" where
  "crop_stage env options cur =
     (if enabled (smartCrop options) then
        await (smartCrop_step env (fst cur)) (\<lambda>u. resolved (u, snd cur @ [''Smart cropped'']))
      else resolved cur)"

definition lineart_stage ::
  "env \<Rightarrow> ProcessingOptions \<Rightarrow> string \<times> string list \<Rightarrow> (string \<times> string list) io" where
  "lineart_stage env options cur =
     (if enabled (convertToLineArt options) then
        await (convertToLineArt_step env (fst cur)) (\<lambda>u. resolved (u, snd cur @ [''Converted to line art'']))
      else resolved cur)"

definition traditionalProcessingPipeline ::
  "env \<Rightarrow> ai_services \<Rightarrow> string \<Rightarrow> ProcessingOptions \<Rightarrow> string list \<Rightarrow> ProcessingResult io" where
  "traditionalProcessingPipeline env svc imageUri options existingSteps =
     (let steps0 = existingSteps @ [''Using traditional processing pipeline''];
          rethrow = (\<lambda>error. thrown (Error (''Traditional processing failed: '' @ message error)))
      in
      await_try (preprocessForAI env imageUri) rethrow (\<lambda>cur1.
      await_try (background_stage env svc options (cur1, steps0 @ [''Image preprocessed''])) rethrow (\<lambda>s2.
      await_try (crop_stage env options s2) rethrow (\<lambda>s3.
      await_try (lineart_stage env options s3) rethrow (\<lambda>s4.
      await_try (applyTattooStyling env (fst s4) (autoContrast options)) rethrow (\<lambda>cur5.
      resolved \<lparr>success = True, processedImageUri = Some cur5, originalImageUri = imageUri,
                processingSteps = snd s4 @ [''Tattoo styling applied''], error = None,
                format = Some ''PNG'', svgCode = None, model = Some ''traditional-pipeline''\<rparr>))))))"

definition ultimateFallbackProcessing :: "env \<Rightarrow> string \<Rightarrow> string list \<Rightarrow> ProcessingResult io" where
  "ultimateFallbackProcessing env imageUri existingSteps =
     (let steps0 = existingSteps @ [''Using ultimate fallback processing''] in
      if \<not> ImageManipulator env then thrown (Error ''No image processing capabilities available'')
      else
        await_try
          (manipulateAsync env imageUri [Resize (Some 600) None] (SaveOptions (Some (Decimal 8 (- 1))) PNG))
          (\<lambda>error. thrown (Error (''Ultimate fallback failed: '' @ message error)))
          (\<lambda>processedImage.
             resolved \<lparr>success = True, processedImageUri = Some (uri processedImage),
                       originalImageUri = imageUri,
                       processingSteps = steps0 @ [''Basic image processing applied''], error = None,
                       format = Some ''PNG'', svgCode = None, model = Some ''ultimate-fallback''\<rparr>))"

subsection \<open>processImageToTattooDesign\<close>

text \<open>
  The \<^verbatim>\<open>catch\<close> clause (lines 151 to 166), for the steps that
  \<^verbatim>\<open>processImageToTattooDesign\<close> itself has pushed by the time of the throw.
\<close>

definition processImage_catch :: "env \<Rightarrow> string \<Rightarrow> string list \<Rightarrow> error \<Rightarrow> ProcessingResult io" where
  "processImage_catch env imageUri steps err =
     await_try (ultimateFallbackProcessing env imageUri steps)
       (\<lambda>fallbackError.
          resolved \<lparr>success = False, processedImageUri = None, originalImageUri = imageUri,
                    processingSteps = steps,
                    error = Some (''All processing methods failed: '' @ message err),
                    format = None, svgCode = None, model = None\<rparr>)
       resolved"

text \<open>Step 3 (lines 147 to 149).\<close>

definition traditional_tier ::
  "env \<Rightarrow> ai_services \<Rightarrow> string \<Rightarrow> ProcessingOptions \<Rightarrow> string list \<Rightarrow> ProcessingResult io" where
  "traditional_tier env svc imageUri finalOptions steps =
     await_try (traditionalProcessingPipeline env svc imageUri finalOptions steps)
       (processImage_catch env imageUri steps) resolved"

text \<open>Step 2 (lines 125 to 145), followed by step 3.\<close>

definition local_tier ::
  "env \<Rightarrow> ai_services \<Rightarrow> string \<Rightarrow> ProcessingOptions \<Rightarrow> string list \<Rightarrow> ProcessingResult io" where
  "local_tier env svc imageUri finalOptions steps =
     (if enabled (fallbackToLocal finalOptions) then
        await_try (processWithLocalStarVector env imageUri no_options)
          (processImage_catch env imageUri steps)
          (\<lambda>localStarVectorResult.
             if StarVectorResult.success localStarVectorResult then
               resolved \<lparr>success = True, processedImageUri = svgUri localStarVectorResult,
                         originalImageUri = imageUri,
                         processingSteps = steps @ StarVectorResult.processingSteps localStarVectorResult,
                         error = None, format = Some ''SVG'',
                         svgCode = StarVectorResult.svgCode localStarVectorResult,
                         model = StarVectorResult.model localStarVectorResult\<rparr>
             else
               traditional_tier env svc imageUri finalOptions
                 (steps @ [''Local StarVector processing failed'']))
      else traditional_tier env svc imageUri finalOptions steps)"

definition processImageToTattooDesign ::
  "env \<Rightarrow> ai_services \<Rightarrow> star_vector \<Rightarrow> string \<Rightarrow> ProcessingOptions \<Rightarrow> ProcessingResult io" where
  "processImageToTattooDesign env svc sv imageUri options =
     (let finalOptions = spread AI_PROCESSING_DEFAULTS options in
      if enabled (useStarVector finalOptions) \<and> isAvailable env sv then
        let starVectorOptions =
              \<lparr>StarVectorOptions.model =
                 Some (if truthy (starVectorModel finalOptions) then the (starVectorModel finalOptions) else ''1b''),
               temperature = Some (Decimal 1 (- 1)), maxTokens = Some 2048, useHuggingFace = None,
               huggingFaceToken = Some (AI_CONFIG_huggingFace env),
               StarVectorOptions.useCPUMode = None, localModelPath = None\<rparr>
        in
        await_try (imageToSVG env sv imageUri starVectorOptions) (processImage_catch env imageUri [])
          (\<lambda>starVectorResult.
             if StarVectorResult.success starVectorResult then
               let usingAPI =
                     list_ex (\<lambda>step. str_includes step ''StarVector API'' \<and> \<not> str_includes step ''not available'')
                       (StarVectorResult.processingSteps starVectorResult)
               in
               resolved \<lparr>success = True, processedImageUri = svgUri starVectorResult,
                         originalImageUri = imageUri,
                         processingSteps = StarVectorResult.processingSteps starVectorResult,
                         error = None, format = Some ''SVG'',
                         svgCode = StarVectorResult.svgCode starVectorResult,
                         model = (if usingAPI then StarVectorResult.model starVectorResult
                                  else Some ''Enhanced StarVector-inspired (Local)'')\<rparr>
             else local_tier env svc imageUri finalOptions [''StarVector processing not available''])
      else local_tier env svc imageUri finalOptions [])"

section \<open>Observations and examples\<close>

text \<open>
  What the store holds under the designs' key, as a read that is not rejected
  returns it.
\<close>

definition stored_list :: "design_store \<Rightarrow> design list" where
  "stored_list st =
     (case AsyncStorage st of
        None \<Rightarrow> memoryStorage st
      | Some a \<Rightarrow>
          (case items a CUSTOM_DESIGNS_KEY of
             Some (JsonText ds) \<Rightarrow> map json_image ds
           | _ \<Rightarrow> []))"

text \<open>Two stores used by the examples: a list of two designs held by AsyncStorage.\<close>

definition wolf :: design where
  "wolf = \<lparr>design_id = ''1'', design_name = ''Wolf Design'', design_uri = ''star.svg'',
           design_category = Some ''Animals'', isUserGenerated = None,
           design_originalImageUri = None, createdAt = None\<rparr>"

definition moon :: design where
  "moon = \<lparr>design_id = ''2'', design_name = ''Moon Design'', design_uri = ''moon.svg'',
           design_category = Some ''Celestial'', isUserGenerated = None,
           design_originalImageUri = None, createdAt = None\<rparr>"

definition two_designs :: design_store where
  "two_designs =
     \<lparr>AsyncStorage = Some \<lparr>items = [CUSTOM_DESIGNS_KEY \<mapsto> JsonText [wolf, moon]], rejections = []\<rparr>,
      memoryStorage = []\<rparr>"

text \<open>
  The manipulation call with these arguments, made after the calls \<open>h\<close>, throws:
  the module is missing or the library rejects.
\<close>

definition manipulation_throws :: "env \<Rightarrow> event list \<Rightarrow> string \<Rightarrow> action list \<Rightarrow> save_options \<Rightarrow> bool" where
  "manipulation_throws env h u acts opts =
     (case fst (manipulateAsync env u acts opts h) of Rejected e \<Rightarrow> True | _ \<Rightarrow> False)"

text \<open>
  The options \<^verbatim>\<open>applyTattooStyling\<close> saves with, for its argument
  \<^verbatim>\<open>autoContrast\<close> (\<^verbatim>\<open>true\<close> by default).
\<close>

definition styling_options :: "bool option \<Rightarrow> save_options" where
  "styling_options ac = SaveOptions (Some (if ac = Some False then (Decimal 8 (- 1)) else (Decimal 1 (- 1)))) PNG"

text \<open>
  Devices used by the examples. On \<open>offline_device\<close> both modules are present, image
  manipulation and file writes work, and there is no network and no HuggingFace
  module; on \<open>broken_manipulator\<close> every image manipulation is rejected.
\<close>

definition offline_device :: env where
  "offline_device =
     \<lparr>ImageManipulator = True, FileSystem = True, HfInference = None,
      documentDirectory = ''file:///documents/'', AI_CONFIG_huggingFace = [],
      manipulateAsync_reply = (\<lambda>h u acts opts. Inr (ImageResult (u @ ''.out'') 1024 768)),
      readAsStringAsync_reply = (\<lambda>h path enc. Inl (Error ''File not found'')),
      writeAsStringAsync_reply = (\<lambda>h path contents enc. Inr ()),
      deleteAsync_reply = (\<lambda>h path. Inr ()),
      fetch_reply = (\<lambda>h req. Inl (Error ''Network request failed'')),
      readAsDataURL_reply = (\<lambda>h b. None),
      Date_now = (\<lambda>h. ''1700000000000''),
      svg_markup = (\<lambda>w h. ''<svg></svg>''),
      restyle = (\<lambda>svg. svg)\<rparr>"

definition broken_manipulator :: env where
  "broken_manipulator =
     offline_device\<lparr>manipulateAsync_reply := (\<lambda>h u acts opts. Inl (Error ''Could not load the image''))\<rparr>"

text \<open>
  What can be said of an asynchronous computation whatever calls were made before
  it: it never rejects; it never stays pending; it always resolves; every value it
  resolves to has a property.
\<close>

definition never_rejects :: "'a io \<Rightarrow> bool" where
  "never_rejects m = (\<forall>h e. fst (m h) \<noteq> Rejected e)"

definition settles :: "'a io \<Rightarrow> bool" where
  "settles m = (\<forall>h. fst (m h) \<noteq> Pending)"

definition always_resolves :: "'a io \<Rightarrow> bool" where
  "always_resolves m = (\<forall>h. \<exists>x. fst (m h) = Resolved x)"

definition resolves_to :: "'a io \<Rightarrow> ('a \<Rightarrow> bool) \<Rightarrow> bool" where
  "resolves_to m P = (\<forall>h x. fst (m h) = Resolved x \<longrightarrow> P x)"

text \<open>The calls a computation adds to those made before it.\<close>

definition new_calls :: "'a io \<Rightarrow> event list \<Rightarrow> event list" where
  "new_calls m h = drop (length h) (snd (m h))"

definition requests_to :: "string \<Rightarrow> event list \<Rightarrow> bool" where
  "requests_to target evs =
     list_ex (\<lambda>ev. case ev of Fetch req \<Rightarrow> url req = target | _ \<Rightarrow> False) evs"

text \<open>The two requests for background removal, as the code builds them.\<close>

definition remove_bg_request :: "ai_services \<Rightarrow> string \<Rightarrow> request" where
  "remove_bg_request svc imageUri =
     Request ''https://api.remove.bg/v1.0/removebg'' ''POST''
       [(''X-Api-Key'', template_text (REMOVE_BG_apiKey svc))]
       (Some (FormData imageUri ''image/jpeg'' ''image.jpg''))"

definition clipdrop_request :: "ai_services \<Rightarrow> string \<Rightarrow> request" where
  "clipdrop_request svc imageUri =
     Request ''https://clipdrop-api.co/remove-background/v1'' ''POST''
       [(''x-api-key'', template_text (CLIPDROP_apiKey svc))]
       (Some (FormData imageUri ''image/jpeg'' ''image.jpg''))"

text \<open>
  A background-removal service fails on a request made after the calls \<open>h\<close>: the
  request is rejected, the response is not \<^verbatim>\<open>ok\<close>, or its body cannot be read.
\<close>

definition service_fails :: "env \<Rightarrow> event list \<Rightarrow> request \<Rightarrow> bool" where
  "service_fails env h req =
     (case fetch_reply env h req of
        Inl e \<Rightarrow> True
      | Inr response \<Rightarrow> \<not> ok response \<or> isl (blob_body response))"

text \<open>Both background-removal keys set, as \<^verbatim>\<open>setAPIKeys\<close> leaves them.\<close>

definition both_keys :: ai_services where
  "both_keys = \<lparr>CODIA_AI_apiKey = None, REMOVE_BG_apiKey = Some ''rb-key'', CLIPDROP_apiKey = Some ''cd-key''\<rparr>"

text \<open>
  A result of \<^verbatim>\<open>imageToSVG\<close> that a StarVector model produced (steps 4 and 5), as
  opposed to the local drawing, carries a model name other than the local one.
\<close>

definition from_model :: "StarVectorResult \<Rightarrow> bool" where
  "from_model r =
     (StarVectorResult.success r \<and> StarVectorResult.model r \<noteq> Some ''local-starvector-inspired'')"

text \<open>The SVG code of a result begins with \<^verbatim>\<open><svg\<close>, letters compared without case.\<close>

definition svg_code_ok :: "StarVectorResult \<Rightarrow> bool" where
  "svg_code_ok r =
     (case StarVectorResult.svgCode r of None \<Rightarrow> False | Some svg \<Rightarrow> starts_ci svg ''<svg'')"

text \<open>
  A result of \<^verbatim>\<open>imageToSVG\<close> that comes from a StarVector model carries markup that
  starts with \<^verbatim>\<open><svg\<close>, the case of letters left open.
\<close>

definition api_svg_ok :: "StarVectorResult \<Rightarrow> bool" where
  "api_svg_ok r = (from_model r \<longrightarrow> svg_code_ok r)"

text \<open>
  A device on which the HuggingFace client exists, the prepared image reads back as
  JPEG data, and the chat endpoint answers with SVG markup in capital letters.
\<close>

definition jpeg_base64 :: string where
  "jpeg_base64 = ''/9j/'' @ replicate 100 (CHR ''A'')"

definition hf_device :: env where
  "hf_device =
     offline_device
       \<lparr>HfInference := Some (\<lambda>token. Inr token),
        readAsStringAsync_reply := (\<lambda>h path enc. Inr jpeg_base64),
        fetch_reply := (\<lambda>h req.
          Inr (Response True 200 (Inr (Payload None (Some ''Here it is: <SVG><path/></SVG>'') None))
                 (Inl (Error ''body used already'')) (Inl (Error ''body used already''))))\<rparr>"

definition hf_ready :: star_vector where
  "hf_ready = \<lparr>hf = Some ''hf_token'', isInitialized = True, cpuModeEnabled = False\<rparr>"

definition capital_svg_result :: StarVectorResult where
  "capital_svg_result =
     \<lparr>StarVectorResult.success = True, StarVectorResult.svgCode = Some ''<SVG><path/></SVG>'',
      svgUri = Some ''file:///documents/tattoo_design_1700000000000.png.out'',
      StarVectorResult.originalImageUri = ''photo.jpg'',
      StarVectorResult.processingSteps =
        [''Image prepared for StarVector processing'', ''Using starvector/starvector-1b-im2svg model'',
         ''SVG code generated by StarVector HuggingFace API'', ''SVG code validated and cleaned'',
         ''SVG file saved''],
      StarVectorResult.error = None,
      StarVectorResult.model = Some ''starvector/starvector-1b-im2svg''\<rparr>"

text \<open>A result that carries a tattoo graphic.\<close>

definition has_graphic :: "ProcessingResult \<Rightarrow> bool" where
  "has_graphic r = (success r \<and> processedImageUri r \<noteq> None)"

text \<open>
  A device whose storage is full: every file write is rejected. Images are
  manipulated and read, the HuggingFace module is present, and every request is
  answered with status 200 and a body that is an image, not JSON. \<open>remove_bg_key\<close>
  is \<^verbatim>\<open>AI_SERVICES\<close> after \<^verbatim>\<open>setAPIKeys\<close> with a Remove.bg key only.
\<close>

definition full_disk_device :: env where
  "full_disk_device =
     offline_device
       \<lparr>HfInference := Some (\<lambda>token. Inr token),
        readAsStringAsync_reply := (\<lambda>h path enc. Inr jpeg_base64),
        writeAsStringAsync_reply := (\<lambda>h path contents enc. Inl (Error ''No space left on device'')),
        fetch_reply := (\<lambda>h req.
          Inr (Response True 200 (Inl (Error ''Unexpected token in JSON''))
                 (Inl (Error ''body used already'')) (Inr (Blob ''PNG'')))),
        readAsDataURL_reply := (\<lambda>h b. Some ''data:image/png;base64,iVBORw0KGgo='')\<rparr>"

definition remove_bg_key :: ai_services where
  "remove_bg_key = \<lparr>CODIA_AI_apiKey = None, REMOVE_BG_apiKey = Some ''rb-key'', CLIPDROP_apiKey = None\<rparr>"

text \<open>A successful result of the StarVector processor names the file it saved.\<close>

definition has_file :: "StarVectorResult \<Rightarrow> bool" where
  "has_file r = (StarVectorResult.success r \<longrightarrow> svgUri r \<noteq> None)"

text \<open>The options of a caller that turns StarVector off and leaves the rest to the defaults.\<close>

definition without_StarVector :: ProcessingOptions where
  "without_StarVector =
     \<lparr>removeBackground = None, enhanceEdges = None, convertToLineArt = None, autoContrast = None,
      smartCrop = None, useAI = None, outputFormat = None, useStarVector = Some False,
      starVectorModel = None, fallbackToLocal = None, useCPUMode = None\<rparr>"

text \<open>What the local drawing returns when the file cannot be written.\<close>

definition local_failure :: "string \<Rightarrow> StarVectorResult" where
  "local_failure imageUri =
     \<lparr>StarVectorResult.success = False, StarVectorResult.svgCode = None, svgUri = None,
      StarVectorResult.originalImageUri = imageUri,
      StarVectorResult.processingSteps =
        [''Image analyzed for vector elements'', ''SVG structure generated'',
         ''SVG optimized for tattoo design''],
      StarVectorResult.error = Some ''No space left on device'', StarVectorResult.model = None\<rparr>"

text \<open>The options of a caller that turns the local drawing off and leaves the rest to the defaults.\<close>

definition without_local :: ProcessingOptions where
  "without_local =
     \<lparr>removeBackground = None, enhanceEdges = None, convertToLineArt = None, autoContrast = None,
      smartCrop = None, useAI = None, outputFormat = None, useStarVector = None,
      starVectorModel = None, fallbackToLocal = Some False, useCPUMode = None\<rparr>"

text \<open>What the local drawing returns on \<open>offline_device\<close>.\<close>

definition offline_drawing :: "string \<Rightarrow> StarVectorResult" where
  "offline_drawing imageUri =
     \<lparr>StarVectorResult.success = True, StarVectorResult.svgCode = Some ''<svg></svg>'',
      svgUri = Some ''file:///documents/tattoo_design_1700000000000.png.out'',
      StarVectorResult.originalImageUri = imageUri,
      StarVectorResult.processingSteps =
        [''Image analyzed for vector elements'', ''SVG structure generated'',
         ''SVG optimized for tattoo design'', ''SVG file saved''],
      StarVectorResult.error = None, StarVectorResult.model = Some ''local-starvector-inspired''\<rparr>"

text \<open>
  A design as \<^verbatim>\<open>saveDesign\<close> of DesignCaptureScreen.tsx builds it, with
  \<^verbatim>\<open>createdAt: new Date()\<close>, a second one, and two empty stores: one held by
  AsyncStorage and one held in memory.
\<close>

definition captured :: design where
  "captured = \<lparr>design_id = ''user_1700000000000'', design_name = ''AI Design 11/14/2023'',
               design_uri = ''file:///documents/tattoo_design_1700000000000.png.out'',
               design_category = Some ''Custom'', isUserGenerated = Some True,
               design_originalImageUri = Some ''photo.jpg'',
               createdAt = Some (DateObject 1700000000000)\<rparr>"

definition captured_later :: design where
  "captured_later = captured\<lparr>design_id := ''user_1700000060000'',
                              createdAt := Some (DateObject 1700000060000)\<rparr>"

definition fresh_async :: design_store where
  "fresh_async = \<lparr>AsyncStorage = Some \<lparr>items = Map.empty, rejections = []\<rparr>, memoryStorage = []\<rparr>"

definition fresh_memory :: design_store where
  "fresh_memory = \<lparr>AsyncStorage = None, memoryStorage = []\<rparr>"

text \<open>
  The store of two designs at a moment when the native module rejects the next
  call, whichever it is, and accepts the calls after it.
\<close>

definition rejected_read :: design_store where
  "rejected_read =
     \<lparr>AsyncStorage = Some \<lparr>items = [CUSTOM_DESIGNS_KEY \<mapsto> JsonText [wolf, moon]], rejections = [True]\<rparr>,
      memoryStorage = []\<rparr>"

section \<open>Properties of the design store\<close>

lemma toJSON_idem: "toJSON (toJSON c) = toJSON c"
  by (cases c) simp_all

lemma json_image_idem: "json_image (json_image d) = json_image d"
  by (cases "createdAt d") (simp_all add: json_image_def toJSON_idem)

lemma design_id_json_image: "design_id (json_image d) = design_id d"
  by (simp add: json_image_def)

lemma filter_id_json_image:
  "filter (\<lambda>d. design_id d \<noteq> i) (map json_image ds) =
   map json_image (filter (\<lambda>d. design_id d \<noteq> i) ds)"
  by (induction ds) (simp_all add: design_id_json_image)

lemma getCustomDesigns_reliable:
  assumes "reliable st"
  shows "getCustomDesigns st = (stored_list st, st)"
proof (cases "AsyncStorage st")
  case None
  then show ?thesis by (simp add: getCustomDesigns_def stored_list_def)
next
  case (Some a)
  with assms have r: "rejections a = []" by (simp add: reliable_def)
  have g: "getItem a CUSTOM_DESIGNS_KEY = (Inr (items a CUSTOM_DESIGNS_KEY), a)"
    using r by (simp add: getItem_def next_call_def)
  have s: "st\<lparr>AsyncStorage := Some a\<rparr> = st" using Some by simp
  show ?thesis
    using Some g s
    by (simp add: getCustomDesigns_def stored_list_def split: option.splits stored_text.splits sum.splits)
qed

lemma stored_list_json_image:
  assumes "AsyncStorage st = Some a"
  shows "map json_image (stored_list st) = stored_list st"
  using assms
  by (simp add: stored_list_def json_image_idem split: option.splits stored_text.splits)

lemma setItem_accepted:
  assumes "rejections a = []"
  shows "setItem a k v = (Inr (), a\<lparr>items := (items a)(k \<mapsto> v)\<rparr>)"
  using assms by (simp add: setItem_def next_call_def)

lemma stored_list_after_setItem:
  assumes "AsyncStorage st = Some a"
  shows "stored_list (st\<lparr>AsyncStorage := Some (a\<lparr>items := (items a)(CUSTOM_DESIGNS_KEY \<mapsto> JSON_stringify ds)\<rparr>)\<rparr>)
         = map json_image ds"
  by (simp add: stored_list_def JSON_stringify_def json_image_idem)

lemma deleteCustomDesign_reliable:
  assumes "reliable st"
  shows "fst (deleteCustomDesign st i) = Inr () \<and>
         reliable (snd (deleteCustomDesign st i)) \<and>
         stored_list (snd (deleteCustomDesign st i)) =
           filter (\<lambda>d. design_id d \<noteq> i) (stored_list st)"
proof (cases "AsyncStorage st")
  case None
  then show ?thesis
    using getCustomDesigns_reliable [OF assms]
    by (simp add: deleteCustomDesign_def stored_list_def reliable_def)
next
  case (Some a)
  with assms have r: "rejections a = []" by (simp add: reliable_def)
  let ?ds = "filter (\<lambda>d. design_id d \<noteq> i) (stored_list st)"
  let ?st' = "st\<lparr>AsyncStorage := Some (a\<lparr>items := (items a)(CUSTOM_DESIGNS_KEY \<mapsto> JSON_stringify ?ds)\<rparr>)\<rparr>"
  have run: "deleteCustomDesign st i = (Inr (), ?st')"
    using Some getCustomDesigns_reliable [OF assms] setItem_accepted [OF r]
    by (simp add: deleteCustomDesign_def)
  have "stored_list ?st' = map json_image ?ds"
    by (rule stored_list_after_setItem [OF Some])
  also have "\<dots> = filter (\<lambda>d. design_id d \<noteq> i) (map json_image (stored_list st))"
    by (simp add: filter_id_json_image)
  also have "\<dots> = ?ds"
    by (simp add: stored_list_json_image [OF Some])
  finally have sl: "stored_list ?st' = ?ds" .
  have "reliable ?st'" using r by (simp add: reliable_def)
  with run sl show ?thesis by simp
qed

text \<open>
  Whatever the store holds and whatever the id, when no call of the store is
  rejected, \<^verbatim>\<open>deleteCustomDesign(designId)\<close> completes, and the list read
  afterwards is the list read before with exactly the designs of that id filtered
  out, the others in their order; when no stored design has the id, the list read
  afterwards is the list read before.
\<close>

theorem deleteCustomDesign_removes_exactly:
  assumes "reliable st"
  shows "fst (deleteCustomDesign st designId) = Inr () \<and>
         fst (getCustomDesigns (snd (deleteCustomDesign st designId))) =
           filter (\<lambda>d. design_id d \<noteq> designId) (fst (getCustomDesigns st)) \<and>
         (designId \<notin> design_id ` set (fst (getCustomDesigns st)) \<longrightarrow>
            fst (getCustomDesigns (snd (deleteCustomDesign st designId))) = fst (getCustomDesigns st))"
proof -
  let ?st' = "snd (deleteCustomDesign st designId)"
  from deleteCustomDesign_reliable [OF assms, of designId]
  have ok: "fst (deleteCustomDesign st designId) = Inr ()"
    and rel: "reliable ?st'"
    and sl: "stored_list ?st' = filter (\<lambda>d. design_id d \<noteq> designId) (stored_list st)"
    by simp_all
  have g: "fst (getCustomDesigns st) = stored_list st"
    by (simp add: getCustomDesigns_reliable [OF assms])
  have g': "fst (getCustomDesigns ?st') = stored_list ?st'"
    by (simp add: getCustomDesigns_reliable [OF rel])
  have absent: "designId \<notin> design_id ` set xs \<Longrightarrow> filter (\<lambda>d. design_id d \<noteq> designId) xs = xs" for xs
    by (induction xs) auto
  show ?thesis using ok g g' sl absent by auto
qed

lemma two_designs_reliable: "reliable two_designs"
  by (simp add: reliable_def two_designs_def)

lemma two_designs_read: "fst (getCustomDesigns two_designs) = [wolf, moon]"
proof -
  have "fst (getCustomDesigns two_designs) = stored_list two_designs"
    by (simp add: getCustomDesigns_reliable [OF two_designs_reliable])
  also have "\<dots> = [wolf, moon]"
    by (simp add: stored_list_def two_designs_def json_image_def wolf_def moon_def)
  finally show ?thesis .
qed

theorem deleteCustomDesign_removes_exactly_witness:
  "reliable two_designs \<and>
   fst (deleteCustomDesign two_designs ''1'') = Inr () \<and>
   fst (getCustomDesigns (snd (deleteCustomDesign two_designs ''1''))) = [moon] \<and>
   ''3'' \<notin> design_id ` set (fst (getCustomDesigns two_designs)) \<and>
   fst (getCustomDesigns (snd (deleteCustomDesign two_designs ''3''))) = [wolf, moon]"
proof -
  have ids: "design_id wolf = ''1''" "design_id moon = ''2''"
    by (simp_all add: wolf_def moon_def)
  have absent: "''3'' \<notin> design_id ` set (fst (getCustomDesigns two_designs))"
    by (simp add: two_designs_read ids)
  from deleteCustomDesign_removes_exactly [OF two_designs_reliable, of "''1''"]
  have one: "fst (deleteCustomDesign two_designs ''1'') = Inr ()"
    "fst (getCustomDesigns (snd (deleteCustomDesign two_designs ''1''))) = [moon]"
    by (simp_all add: two_designs_read ids)
  from deleteCustomDesign_removes_exactly [OF two_designs_reliable, of "''3''"]
  have three: "fst (getCustomDesigns (snd (deleteCustomDesign two_designs ''3''))) = [wolf, moon]"
    by (simp add: two_designs_read ids)
  show ?thesis using two_designs_reliable absent one three by simp
qed

lemma rejected_read_holds: "stored_list rejected_read = [wolf, moon]"
  by (simp add: stored_list_def rejected_read_def json_image_def wolf_def moon_def)

text \<open>
  Claim C8 fails on the code. The store holds two designs, with ids 1 and 2, and
  the native module rejects the read that \<^verbatim>\<open>deleteCustomDesign\<close> makes. The
  \<^verbatim>\<open>catch\<close> clause of \<^verbatim>\<open>getCustomDesigns\<close> answers with the empty list, the empty list
  is filtered and written back, and the delete of the id 3, which no design has,
  completes without error and leaves no design in the store.
\<close>

theorem deleteCustomDesign_rejected_read_empties_the_store:
  "stored_list rejected_read = [wolf, moon] \<and>
   ''3'' \<notin> design_id ` set (stored_list rejected_read) \<and>
   fst (deleteCustomDesign rejected_read ''3'') = Inr () \<and>
   reliable (snd (deleteCustomDesign rejected_read ''3'')) \<and>
   stored_list (snd (deleteCustomDesign rejected_read ''3'')) = [] \<and>
   fst (getCustomDesigns (snd (deleteCustomDesign rejected_read ''3''))) = []"
proof -
  have ids: "design_id wolf = ''1''" "design_id moon = ''2''"
    by (simp_all add: wolf_def moon_def)
  have run: "deleteCustomDesign rejected_read ''3''
      = (Inr (), \<lparr>AsyncStorage = Some \<lparr>items = [CUSTOM_DESIGNS_KEY \<mapsto> JsonText []], rejections = []\<rparr>,
                   memoryStorage = []\<rparr>)"
    by (simp add: deleteCustomDesign_def getCustomDesigns_def getItem_def setItem_def next_call_def
        JSON_stringify_def rejected_read_def)
  have rel: "reliable (snd (deleteCustomDesign rejected_read ''3''))"
    by (simp add: run reliable_def)
  have sl: "stored_list (snd (deleteCustomDesign rejected_read ''3'')) = []"
    by (simp add: run stored_list_def)
  have g: "fst (getCustomDesigns (snd (deleteCustomDesign rejected_read ''3''))) = []"
    by (simp only: getCustomDesigns_reliable [OF rel] fst_conv sl)
  have absent: "''3'' \<notin> design_id ` set (stored_list rejected_read)"
    by (simp add: rejected_read_holds ids)
  have ok: "fst (deleteCustomDesign rejected_read ''3'') = Inr ()"
    by (simp add: run)
  show ?thesis
    by (intro conjI) (rule rejected_read_holds absent ok rel sl g)+
qed

subsection \<open>Saving and reading back\<close>

lemma saveCustomDesign_reliable:
  assumes "reliable st"
  shows "fst (saveCustomDesign st d) = Inr () \<and>
         reliable (snd (saveCustomDesign st d)) \<and>
         stored_list (snd (saveCustomDesign st d)) =
           (case AsyncStorage st of None \<Rightarrow> d | Some a \<Rightarrow> json_image d) # stored_list st"
proof (cases "AsyncStorage st")
  case None
  then show ?thesis
    using getCustomDesigns_reliable [OF assms]
    by (simp add: saveCustomDesign_def stored_list_def reliable_def)
next
  case (Some a)
  with assms have r: "rejections a = []" by (simp add: reliable_def)
  let ?ds = "d # stored_list st"
  let ?st' = "st\<lparr>AsyncStorage := Some (a\<lparr>items := (items a)(CUSTOM_DESIGNS_KEY \<mapsto> JSON_stringify ?ds)\<rparr>)\<rparr>"
  have run: "saveCustomDesign st d = (Inr (), ?st')"
    using Some getCustomDesigns_reliable [OF assms] setItem_accepted [OF r]
    by (simp add: saveCustomDesign_def)
  have "stored_list ?st' = map json_image ?ds"
    by (rule stored_list_after_setItem [OF Some])
  also have "\<dots> = json_image d # stored_list st"
    by (simp add: stored_list_json_image [OF Some])
  finally have sl: "stored_list ?st' = json_image d # stored_list st" .
  have "reliable ?st'" using r by (simp add: reliable_def)
  with run sl Some show ?thesis by simp
qed

text \<open>
  The list read after a save is the list read before with the design in front, as
  it was given when the store is the in-memory list, and as JSON gives it back when
  the store is AsyncStorage.
\<close>

lemma saveCustomDesign_then_getCustomDesigns:
  assumes "reliable st"
  shows "fst (getCustomDesigns (snd (saveCustomDesign st d))) =
           (case AsyncStorage st of None \<Rightarrow> d | Some a \<Rightarrow> json_image d) # fst (getCustomDesigns st)"
proof -
  from saveCustomDesign_reliable [OF assms, of d]
  have rel: "reliable (snd (saveCustomDesign st d))"
    and sl: "stored_list (snd (saveCustomDesign st d)) =
           (case AsyncStorage st of None \<Rightarrow> d | Some a \<Rightarrow> json_image d) # stored_list st"
    by simp_all
  show ?thesis
    by (simp add: getCustomDesigns_reliable [OF rel] getCustomDesigns_reliable [OF assms] sl)
qed

text \<open>Only the key \<^verbatim>\<open>custom_tattoo_designs\<close> is written.\<close>

lemma saveCustomDesign_single_key:
  assumes "AsyncStorage st = Some a" "AsyncStorage (snd (saveCustomDesign st d)) = Some a'"
    and "k \<noteq> CUSTOM_DESIGNS_KEY"
  shows "items a' k = items a k"
  using assms
  by (auto simp: saveCustomDesign_def getCustomDesigns_def getItem_def setItem_def next_call_def Let_def
      split: prod.splits sum.splits option.splits list.splits bool.splits stored_text.splits if_splits)


subsection \<open>What JSON does to a Date\<close>

lemma fresh_reliable: "reliable fresh_async" "reliable fresh_memory"
  by (simp_all add: reliable_def fresh_async_def fresh_memory_def)

lemma fresh_stored: "stored_list fresh_async = []" "stored_list fresh_memory = []"
  by (simp_all add: stored_list_def fresh_async_def fresh_memory_def)

lemma fresh_read: "fst (getCustomDesigns fresh_async) = []" "fst (getCustomDesigns fresh_memory) = []"
  by (simp_all only: getCustomDesigns_reliable [OF fresh_reliable(1)]
      getCustomDesigns_reliable [OF fresh_reliable(2)] fst_conv fresh_stored)

lemma fresh_backend: "AsyncStorage fresh_async \<noteq> None" "AsyncStorage fresh_memory = None"
  by (simp_all add: fresh_async_def fresh_memory_def)

lemma json_image_captured:
  "json_image captured = captured\<lparr>createdAt := Some (IsoString 1700000000000)\<rparr>"
  "json_image captured \<noteq> captured"
  by (simp_all add: json_image_def captured_def)

lemma fresh_async_saved:
  "fst (saveCustomDesign fresh_async captured) = Inr ()"
  "fst (getCustomDesigns (snd (saveCustomDesign fresh_async captured)))
   = [captured\<lparr>createdAt := Some (IsoString 1700000000000)\<rparr>]"
proof -
  show "fst (saveCustomDesign fresh_async captured) = Inr ()"
    using saveCustomDesign_reliable [OF fresh_reliable(1)] by simp
  obtain a where a: "AsyncStorage fresh_async = Some a" using fresh_backend(1) by blast
  show "fst (getCustomDesigns (snd (saveCustomDesign fresh_async captured)))
   = [captured\<lparr>createdAt := Some (IsoString 1700000000000)\<rparr>]"
    by (simp add: saveCustomDesign_then_getCustomDesigns [OF fresh_reliable(1)] a fresh_read
        json_image_captured(1))
qed

lemma fresh_memory_saved:
  "fst (saveCustomDesign fresh_memory captured) = Inr ()"
  "fst (getCustomDesigns (snd (saveCustomDesign fresh_memory captured))) = [captured]"
proof -
  show "fst (saveCustomDesign fresh_memory captured) = Inr ()"
    using saveCustomDesign_reliable [OF fresh_reliable(2)] by simp
  show "fst (getCustomDesigns (snd (saveCustomDesign fresh_memory captured))) = [captured]"
    by (simp add: saveCustomDesign_then_getCustomDesigns [OF fresh_reliable(2)] fresh_backend(2)
        fresh_read)
qed


text \<open>
  Claim C5 fails on the code. A design saved with \<^verbatim>\<open>createdAt: new Date()\<close>, as
  DesignCaptureScreen saves it, into an empty AsyncStorage: the save completes
  without error, and the list read back holds one design whose \<^verbatim>\<open>createdAt\<close> is a
  string, not the \<^verbatim>\<open>Date\<close> that was saved. It is not the design prepended to the
  list stored before.
\<close>

theorem saveCustomDesign_loses_the_Date:
  "fst (saveCustomDesign fresh_async captured) = Inr () \<and>
   fst (getCustomDesigns (snd (saveCustomDesign fresh_async captured)))
     = [captured\<lparr>createdAt := Some (IsoString 1700000000000)\<rparr>] \<and>
   fst (getCustomDesigns (snd (saveCustomDesign fresh_async captured)))
     \<noteq> captured # fst (getCustomDesigns fresh_async)"
proof -
  have "captured\<lparr>createdAt := Some (IsoString 1700000000000)\<rparr> \<noteq> captured"
    using json_image_captured by simp
  then show ?thesis
    by (simp add: fresh_async_saved fresh_read)
qed

subsection \<open>The two backends\<close>

lemma clearAllCustomDesigns_reliable:
  assumes "reliable st"
  shows "fst (clearAllCustomDesigns st) = Inr () \<and>
         reliable (snd (clearAllCustomDesigns st)) \<and>
         stored_list (snd (clearAllCustomDesigns st)) = []"
proof (cases "AsyncStorage st")
  case None
  then show ?thesis by (simp add: clearAllCustomDesigns_def stored_list_def reliable_def)
next
  case (Some a)
  with assms have r: "rejections a = []" by (simp add: reliable_def)
  have "removeItem a CUSTOM_DESIGNS_KEY = (Inr (), a\<lparr>items := (items a)(CUSTOM_DESIGNS_KEY := None)\<rparr>)"
    using r by (simp add: removeItem_def next_call_def)
  with Some r show ?thesis
    by (simp add: clearAllCustomDesigns_def stored_list_def reliable_def)
qed

text \<open>
  What the two backends share. When no call of the store is rejected, every
  operation completes on both, and if AsyncStorage holds the JSON image of the
  in-memory list before an operation, it does so after it.
\<close>

lemma backends_agree_up_to_JSON:
  assumes m: "reliable m" "AsyncStorage m = None"
    and a: "reliable a" "AsyncStorage a = Some s"
    and rel: "stored_list a = map json_image (stored_list m)"
  shows "fst (saveCustomDesign m d) = Inr () \<and> fst (saveCustomDesign a d) = Inr () \<and>
         stored_list (snd (saveCustomDesign a d))
           = map json_image (stored_list (snd (saveCustomDesign m d)))"
    and "fst (deleteCustomDesign m i) = Inr () \<and> fst (deleteCustomDesign a i) = Inr () \<and>
         stored_list (snd (deleteCustomDesign a i))
           = map json_image (stored_list (snd (deleteCustomDesign m i)))"
    and "fst (clearAllCustomDesigns m) = Inr () \<and> fst (clearAllCustomDesigns a) = Inr () \<and>
         stored_list (snd (clearAllCustomDesigns a))
           = map json_image (stored_list (snd (clearAllCustomDesigns m)))"
    and "fst (getCustomDesigns a) = map json_image (fst (getCustomDesigns m))"
proof -
  show "fst (saveCustomDesign m d) = Inr () \<and> fst (saveCustomDesign a d) = Inr () \<and>
         stored_list (snd (saveCustomDesign a d))
           = map json_image (stored_list (snd (saveCustomDesign m d)))"
    using saveCustomDesign_reliable [OF m(1), of d] saveCustomDesign_reliable [OF a(1), of d]
    by (simp add: m(2) a(2) rel)
  show "fst (deleteCustomDesign m i) = Inr () \<and> fst (deleteCustomDesign a i) = Inr () \<and>
         stored_list (snd (deleteCustomDesign a i))
           = map json_image (stored_list (snd (deleteCustomDesign m i)))"
    using deleteCustomDesign_reliable [OF m(1), of i] deleteCustomDesign_reliable [OF a(1), of i]
    by (simp add: rel filter_id_json_image)
  show "fst (clearAllCustomDesigns m) = Inr () \<and> fst (clearAllCustomDesigns a) = Inr () \<and>
         stored_list (snd (clearAllCustomDesigns a))
           = map json_image (stored_list (snd (clearAllCustomDesigns m)))"
    using clearAllCustomDesigns_reliable [OF m(1)] clearAllCustomDesigns_reliable [OF a(1)]
    by simp
  show "fst (getCustomDesigns a) = map json_image (fst (getCustomDesigns m))"
    by (simp add: getCustomDesigns_reliable [OF m(1)] getCustomDesigns_reliable [OF a(1)] rel)
qed

text \<open>
  Claim C7 fails on the code, by the defect of claim C5. The same design saved into
  the empty in-memory list and into an empty AsyncStorage: both saves complete, and
  the lists read back differ. The in-memory list gives the design back with its
  \<^verbatim>\<open>Date\<close>; AsyncStorage gives it back with a string in its place.
\<close>

theorem memory_and_AsyncStorage_lists_differ:
  "fst (getCustomDesigns fresh_memory) = fst (getCustomDesigns fresh_async) \<and>
   fst (saveCustomDesign fresh_memory captured) = Inr () \<and>
   fst (saveCustomDesign fresh_async captured) = Inr () \<and>
   fst (getCustomDesigns (snd (saveCustomDesign fresh_memory captured))) = [captured] \<and>
   fst (getCustomDesigns (snd (saveCustomDesign fresh_async captured))) = [json_image captured] \<and>
   fst (getCustomDesigns (snd (saveCustomDesign fresh_memory captured)))
     \<noteq> fst (getCustomDesigns (snd (saveCustomDesign fresh_async captured)))"
  using json_image_captured
  by (simp add: fresh_read fresh_memory_saved fresh_async_saved)

text \<open>
  What the string does to \<^verbatim>\<open>getDesignStats\<close>. With two designs saved, the in-memory
  list gives their number and their dates; AsyncStorage gives no designs at all,
  because sorting the dates throws and the \<^verbatim>\<open>catch\<close> clause answers for it.
\<close>

lemma getDesignStats_in_memory:
  "fst (getDesignStats (snd (saveCustomDesign (snd (saveCustomDesign fresh_memory captured)) captured_later)))
   = \<lparr>totalCustomDesigns = 2, oldestDesign = Some (DateObject 1700000000000),
      newestDesign = Some (DateObject 1700000060000)\<rparr>"
proof -
  let ?st1 = "snd (saveCustomDesign fresh_memory captured)"
  let ?st2 = "snd (saveCustomDesign ?st1 captured_later)"
  from saveCustomDesign_reliable [OF fresh_reliable(2), of captured]
  have r1: "reliable ?st1" and s1: "stored_list ?st1 = [captured]"
    by (simp_all add: fresh_backend fresh_stored)
  have b1: "AsyncStorage ?st1 = None"
    by (simp add: saveCustomDesign_def getCustomDesigns_def fresh_memory_def)
  from saveCustomDesign_reliable [OF r1, of captured_later]
  have r2: "reliable ?st2" and s2: "stored_list ?st2 = [captured_later, captured]"
    by (simp_all add: b1 s1)
  have g: "getCustomDesigns ?st2 = ([captured_later, captured], ?st2)"
    by (simp only: getCustomDesigns_reliable [OF r2] s2)
  have c: "createdAt captured = Some (DateObject 1700000000000)"
    "createdAt captured_later = Some (DateObject 1700000060000)"
    by (simp_all add: captured_later_def captured_def)
  show ?thesis
    unfolding getDesignStats_def g
    by (simp add: c sort_by_getTime_def Let_def)
qed

lemma getDesignStats_in_AsyncStorage:
  "fst (getDesignStats (snd (saveCustomDesign (snd (saveCustomDesign fresh_async captured)) captured_later)))
   = \<lparr>totalCustomDesigns = 0, oldestDesign = None, newestDesign = None\<rparr>"
proof -
  let ?st1 = "snd (saveCustomDesign fresh_async captured)"
  let ?st2 = "snd (saveCustomDesign ?st1 captured_later)"
  obtain a where a: "AsyncStorage fresh_async = Some a" using fresh_backend(1) by blast
  from saveCustomDesign_reliable [OF fresh_reliable(1), of captured]
  have r1: "reliable ?st1" and s1: "stored_list ?st1 = [json_image captured]"
    by (simp_all add: a fresh_stored)
  have "AsyncStorage ?st1 \<noteq> None"
    by (simp add: saveCustomDesign_def getCustomDesigns_def getItem_def setItem_def next_call_def
        fresh_async_def)
  then obtain a1 where b1: "AsyncStorage ?st1 = Some a1" by blast
  from saveCustomDesign_reliable [OF r1, of captured_later]
  have r2: "reliable ?st2" and s2: "stored_list ?st2 = [json_image captured_later, json_image captured]"
    by (simp_all add: b1 s1)
  have g: "getCustomDesigns ?st2 = ([json_image captured_later, json_image captured], ?st2)"
    by (simp only: getCustomDesigns_reliable [OF r2] s2)
  have c: "createdAt (json_image captured) = Some (IsoString 1700000000000)"
    "createdAt (json_image captured_later) = Some (IsoString 1700000060000)"
    by (simp_all add: json_image_def captured_later_def captured_def)
  show ?thesis
    unfolding getDesignStats_def g
    by (simp add: c sort_by_getTime_def Let_def)
qed

section \<open>Properties of the image processor\<close>

lemma await_try_Resolved: "m h = (Resolved x, h') \<Longrightarrow> await_try m c k h = k x h'"
  by (simp add: await_try_def)

lemma await_try_Rejected: "m h = (Rejected e, h') \<Longrightarrow> await_try m c k h = c e h'"
  by (simp add: await_try_def)

lemma await_try_Pending: "m h = (Pending, h') \<Longrightarrow> await_try m c k h = (Pending, h')"
  by (simp add: await_try_def)

lemma await_Resolved: "m h = (Resolved x, h') \<Longrightarrow> await m k h = k x h'"
  by (simp add: await_def)

lemma await_Rejected: "m h = (Rejected e, h') \<Longrightarrow> await m k h = (Rejected e, h')"
  by (simp add: await_def)

lemma await_Pending: "m h = (Pending, h') \<Longrightarrow> await m k h = (Pending, h')"
  by (simp add: await_def)

lemma manipulateAsync_throws:
  assumes "ImageManipulator env" "manipulateAsync_reply env h u acts opts = Inl e"
  shows "manipulateAsync env u acts opts h = (Rejected e, h @ [Manipulate u acts opts])"
  using assms by (simp add: manipulateAsync_def external_def)

lemma manipulateAsync_returns:
  assumes "ImageManipulator env" "manipulateAsync_reply env h u acts opts = Inr img"
  shows "manipulateAsync env u acts opts h = (Resolved img, h @ [Manipulate u acts opts])"
  using assms by (simp add: manipulateAsync_def external_def)

lemma manipulateAsync_settles:
  assumes "ImageManipulator env"
  shows "fst (manipulateAsync env u acts opts h) \<noteq> Pending"
  using assms by (simp add: manipulateAsync_def external_def split: sum.splits)

lemma manipulation_throws_iff:
  "manipulation_throws env h u acts opts =
     (\<not> ImageManipulator env \<or> isl (manipulateAsync_reply env h u acts opts))"
  by (simp add: manipulation_throws_def manipulateAsync_def external_def thrown_def split: sum.splits)

text \<open>One manipulation wrapped in try/catch, as the five helpers have it.\<close>

lemma guarded_manipulation_full:
  "await_try (manipulateAsync env u acts opts) (\<lambda>error. resolved u0) (\<lambda>img. resolved (uri img)) h
   = (if ImageManipulator env
      then (case manipulateAsync_reply env h u acts opts of
              Inl e \<Rightarrow> (Resolved u0, h @ [Manipulate u acts opts])
            | Inr img \<Rightarrow> (Resolved (uri img), h @ [Manipulate u acts opts]))
      else (Resolved u0, h))"
  by (simp add: await_try_def manipulateAsync_def external_def resolved_def thrown_def split: sum.splits)

lemma preprocessForAI_run:
  "preprocessForAI env u h =
     (if ImageManipulator env
      then (case manipulateAsync_reply env h u [Resize (Some 1024) None] (SaveOptions (Some (Decimal 9 (- 1))) JPEG) of
              Inl e \<Rightarrow> (Resolved u, h @ [Manipulate u [Resize (Some 1024) None] (SaveOptions (Some (Decimal 9 (- 1))) JPEG)])
            | Inr img \<Rightarrow> (Resolved (uri img), h @ [Manipulate u [Resize (Some 1024) None] (SaveOptions (Some (Decimal 9 (- 1))) JPEG)]))
      else (Resolved u, h))"
  by (simp add: preprocessForAI_def guarded_manipulation_full resolved_def)

lemma smartCrop_step_run:
  "smartCrop_step env u h =
     (if ImageManipulator env
      then (case manipulateAsync_reply env h u [Crop (Decimal 1 (- 1)) (Decimal 1 (- 1)) (Decimal 8 (- 1)) (Decimal 8 (- 1)), Resize (Some 600) None] (SaveOptions (Some (Decimal 9 (- 1))) PNG) of
              Inl e \<Rightarrow> (Resolved u, h @ [Manipulate u [Crop (Decimal 1 (- 1)) (Decimal 1 (- 1)) (Decimal 8 (- 1)) (Decimal 8 (- 1)), Resize (Some 600) None] (SaveOptions (Some (Decimal 9 (- 1))) PNG)])
            | Inr img \<Rightarrow> (Resolved (uri img), h @ [Manipulate u [Crop (Decimal 1 (- 1)) (Decimal 1 (- 1)) (Decimal 8 (- 1)) (Decimal 8 (- 1)), Resize (Some 600) None] (SaveOptions (Some (Decimal 9 (- 1))) PNG)]))
      else (Resolved u, h))"
  by (simp add: smartCrop_step_def guarded_manipulation_full resolved_def)

lemma convertToLineArt_step_run:
  "convertToLineArt_step env u h =
     (if ImageManipulator env
      then (case manipulateAsync_reply env h u [] (SaveOptions (Some (Decimal 1 (- 1))) PNG) of
              Inl e \<Rightarrow> (Resolved u, h @ [Manipulate u [] (SaveOptions (Some (Decimal 1 (- 1))) PNG)])
            | Inr img \<Rightarrow> (Resolved (uri img), h @ [Manipulate u [] (SaveOptions (Some (Decimal 1 (- 1))) PNG)]))
      else (Resolved u, h))"
  by (simp add: convertToLineArt_step_def guarded_manipulation_full resolved_def)

lemma applyTattooStyling_run:
  "applyTattooStyling env u ac h =
     (if ImageManipulator env
      then (case manipulateAsync_reply env h u [Resize (Some 800) None] (styling_options ac) of
              Inl e \<Rightarrow> (Resolved u, h @ [Manipulate u [Resize (Some 800) None] (styling_options ac)])
            | Inr img \<Rightarrow> (Resolved (uri img), h @ [Manipulate u [Resize (Some 800) None] (styling_options ac)]))
      else (Resolved u, h))"
proof -
  have "SaveOptions (Some (if (case ac of None \<Rightarrow> True | Some b \<Rightarrow> b) then (Decimal 1 (- 1)) else (Decimal 8 (- 1)))) PNG = styling_options ac"
    by (cases ac) (auto simp: styling_options_def)
  then show ?thesis
    by (simp add: applyTattooStyling_def guarded_manipulation_full resolved_def Let_def)
qed

lemma localBackgroundRemoval_run:
  "localBackgroundRemoval env u h =
     (if ImageManipulator env then
        (let ev1 = Manipulate u [Resize (Some 800) None] (SaveOptions (Some (Decimal 10 (- 1))) PNG) in
         case manipulateAsync_reply env h u [Resize (Some 800) None] (SaveOptions (Some (Decimal 10 (- 1))) PNG) of
           Inl e \<Rightarrow> (Resolved u, h @ [ev1])
         | Inr img \<Rightarrow>
             (let ev2 = Manipulate (uri img) [] (SaveOptions (Some (Decimal 3 (- 1))) PNG) in
              case manipulateAsync_reply env (h @ [ev1]) (uri img) [] (SaveOptions (Some (Decimal 3 (- 1))) PNG) of
                Inl e \<Rightarrow> (Resolved u, h @ [ev1, ev2])
              | Inr img2 \<Rightarrow> (Resolved (uri img2), h @ [ev1, ev2])))
      else (Resolved u, h))"
  by (simp add: localBackgroundRemoval_def await_try_def manipulateAsync_def external_def
      resolved_def thrown_def Let_def split: sum.splits)

text \<open>
  Claim C3. Each of the five helpers \<^verbatim>\<open>preprocessForAI\<close>,
  \<^verbatim>\<open>localBackgroundRemoval\<close>, \<^verbatim>\<open>smartCrop\<close>, \<^verbatim>\<open>convertToLineArt\<close> and
  \<^verbatim>\<open>applyTattooStyling\<close> resolves to the URI it was given whenever its manipulation
  call throws (for \<^verbatim>\<open>localBackgroundRemoval\<close>: the first call, or the second one
  after the first has returned), and resolves to it without any call when the
  module is missing; none of them ever rejects.
\<close>

theorem steps_return_input_on_failure:
  "(manipulation_throws env h u [Resize (Some 1024) None] (SaveOptions (Some (Decimal 9 (- 1))) JPEG)
      \<longrightarrow> fst (preprocessForAI env u h) = Resolved u) \<and>
   (manipulation_throws env h u [Resize (Some 800) None] (SaveOptions (Some (Decimal 10 (- 1))) PNG)
      \<longrightarrow> fst (localBackgroundRemoval env u h) = Resolved u) \<and>
   (\<forall>img h1. manipulateAsync env u [Resize (Some 800) None] (SaveOptions (Some (Decimal 10 (- 1))) PNG) h = (Resolved img, h1)
      \<and> manipulation_throws env h1 (uri img) [] (SaveOptions (Some (Decimal 3 (- 1))) PNG)
      \<longrightarrow> fst (localBackgroundRemoval env u h) = Resolved u) \<and>
   (manipulation_throws env h u [Crop (Decimal 1 (- 1)) (Decimal 1 (- 1)) (Decimal 8 (- 1)) (Decimal 8 (- 1)), Resize (Some 600) None] (SaveOptions (Some (Decimal 9 (- 1))) PNG)
      \<longrightarrow> fst (smartCrop_step env u h) = Resolved u) \<and>
   (manipulation_throws env h u [] (SaveOptions (Some (Decimal 1 (- 1))) PNG)
      \<longrightarrow> fst (convertToLineArt_step env u h) = Resolved u) \<and>
   (manipulation_throws env h u [Resize (Some 800) None] (styling_options ac)
      \<longrightarrow> fst (applyTattooStyling env u ac h) = Resolved u) \<and>
   (\<not> ImageManipulator env \<longrightarrow>
      preprocessForAI env u h = (Resolved u, h) \<and>
      localBackgroundRemoval env u h = (Resolved u, h) \<and>
      smartCrop_step env u h = (Resolved u, h) \<and>
      convertToLineArt_step env u h = (Resolved u, h) \<and>
      applyTattooStyling env u ac h = (Resolved u, h)) \<and>
   (\<forall>e. fst (preprocessForAI env u h) \<noteq> Rejected e \<and>
        fst (localBackgroundRemoval env u h) \<noteq> Rejected e \<and>
        fst (smartCrop_step env u h) \<noteq> Rejected e \<and>
        fst (convertToLineArt_step env u h) \<noteq> Rejected e \<and>
        fst (applyTattooStyling env u ac h) \<noteq> Rejected e)"
proof -
  have a: "manipulation_throws env h u [Resize (Some 1024) None] (SaveOptions (Some (Decimal 9 (- 1))) JPEG)
      \<longrightarrow> fst (preprocessForAI env u h) = Resolved u"
    by (auto simp: manipulation_throws_iff preprocessForAI_run split: sum.splits)
  have b: "manipulation_throws env h u [Resize (Some 800) None] (SaveOptions (Some (Decimal 10 (- 1))) PNG)
      \<longrightarrow> fst (localBackgroundRemoval env u h) = Resolved u"
    by (auto simp: manipulation_throws_iff localBackgroundRemoval_run Let_def split: sum.splits)
  have c: "\<forall>img h1. manipulateAsync env u [Resize (Some 800) None] (SaveOptions (Some (Decimal 10 (- 1))) PNG) h = (Resolved img, h1)
      \<and> manipulation_throws env h1 (uri img) [] (SaveOptions (Some (Decimal 3 (- 1))) PNG)
      \<longrightarrow> fst (localBackgroundRemoval env u h) = Resolved u"
    by (auto simp: manipulation_throws_iff localBackgroundRemoval_run manipulateAsync_def
        external_def thrown_def Let_def split: sum.splits if_splits)
  have d: "manipulation_throws env h u [Crop (Decimal 1 (- 1)) (Decimal 1 (- 1)) (Decimal 8 (- 1)) (Decimal 8 (- 1)), Resize (Some 600) None] (SaveOptions (Some (Decimal 9 (- 1))) PNG)
      \<longrightarrow> fst (smartCrop_step env u h) = Resolved u"
    by (auto simp: manipulation_throws_iff smartCrop_step_run split: sum.splits)
  have e: "manipulation_throws env h u [] (SaveOptions (Some (Decimal 1 (- 1))) PNG)
      \<longrightarrow> fst (convertToLineArt_step env u h) = Resolved u"
    by (auto simp: manipulation_throws_iff convertToLineArt_step_run split: sum.splits)
  have f: "manipulation_throws env h u [Resize (Some 800) None] (styling_options ac)
      \<longrightarrow> fst (applyTattooStyling env u ac h) = Resolved u"
    by (auto simp: manipulation_throws_iff applyTattooStyling_run split: sum.splits)
  have g: "\<not> ImageManipulator env \<longrightarrow>
      preprocessForAI env u h = (Resolved u, h) \<and>
      localBackgroundRemoval env u h = (Resolved u, h) \<and>
      smartCrop_step env u h = (Resolved u, h) \<and>
      convertToLineArt_step env u h = (Resolved u, h) \<and>
      applyTattooStyling env u ac h = (Resolved u, h)"
    by (simp add: preprocessForAI_run localBackgroundRemoval_run smartCrop_step_run
        convertToLineArt_step_run applyTattooStyling_run)
  have i: "\<forall>e. fst (preprocessForAI env u h) \<noteq> Rejected e \<and>
        fst (localBackgroundRemoval env u h) \<noteq> Rejected e \<and>
        fst (smartCrop_step env u h) \<noteq> Rejected e \<and>
        fst (convertToLineArt_step env u h) \<noteq> Rejected e \<and>
        fst (applyTattooStyling env u ac h) \<noteq> Rejected e"
    by (simp add: preprocessForAI_run localBackgroundRemoval_run smartCrop_step_run
        convertToLineArt_step_run applyTattooStyling_run Let_def split: sum.splits)
  from a b c d e f g i show ?thesis by blast
qed

theorem steps_return_input_on_failure_witness:
  "manipulation_throws broken_manipulator [] ''photo.jpg'' [Resize (Some 1024) None] (SaveOptions (Some (Decimal 9 (- 1))) JPEG) \<and>
   fst (preprocessForAI broken_manipulator ''photo.jpg'' []) = Resolved ''photo.jpg'' \<and>
   manipulation_throws broken_manipulator [] ''photo.jpg'' [Resize (Some 800) None] (SaveOptions (Some (Decimal 10 (- 1))) PNG) \<and>
   fst (localBackgroundRemoval broken_manipulator ''photo.jpg'' []) = Resolved ''photo.jpg'' \<and>
   manipulation_throws broken_manipulator [] ''photo.jpg'' [Crop (Decimal 1 (- 1)) (Decimal 1 (- 1)) (Decimal 8 (- 1)) (Decimal 8 (- 1)), Resize (Some 600) None] (SaveOptions (Some (Decimal 9 (- 1))) PNG) \<and>
   fst (smartCrop_step broken_manipulator ''photo.jpg'' []) = Resolved ''photo.jpg'' \<and>
   manipulation_throws broken_manipulator [] ''photo.jpg'' [] (SaveOptions (Some (Decimal 1 (- 1))) PNG) \<and>
   fst (convertToLineArt_step broken_manipulator ''photo.jpg'' []) = Resolved ''photo.jpg'' \<and>
   manipulation_throws broken_manipulator [] ''photo.jpg'' [Resize (Some 800) None] (styling_options None) \<and>
   fst (applyTattooStyling broken_manipulator ''photo.jpg'' None []) = Resolved ''photo.jpg''"
proof -
  have t: "manipulation_throws broken_manipulator h u acts opts" for h u acts opts
    by (simp add: manipulation_throws_iff broken_manipulator_def)
  from steps_return_input_on_failure [of broken_manipulator "[]" "''photo.jpg''" None] t
  show ?thesis by blast
qed

subsection \<open>Rules for asynchronous computations\<close>

lemma never_rejects_resolved [simp]: "never_rejects (resolved x)"
  by (simp add: never_rejects_def resolved_def)

lemma never_rejects_never [simp]: "never_rejects never"
  by (simp add: never_rejects_def never_def)

lemma never_rejects_await_try:
  assumes "\<And>e. never_rejects (c e)" "\<And>x. never_rejects (k x)"
  shows "never_rejects (await_try m c k)"
  using assms by (auto simp: never_rejects_def await_try_def split: prod.splits outcome.splits)

lemma never_rejects_await:
  assumes "never_rejects m" "\<And>x. never_rejects (k x)"
  shows "never_rejects (await m k)"
  using assms
  by (auto simp: never_rejects_def await_def split: prod.splits outcome.splits) (metis fst_conv)

lemma never_rejectsD: "never_rejects m \<Longrightarrow> fst (m h) \<noteq> Rejected e"
  by (simp add: never_rejects_def)

lemma settles_resolved [simp]: "settles (resolved x)"
  by (simp add: settles_def resolved_def)

lemma settles_thrown [simp]: "settles (thrown e)"
  by (simp add: settles_def thrown_def)

lemma settles_external [simp]: "settles (external ev reply)"
  by (simp add: settles_def external_def split: sum.splits)

lemma settles_manipulateAsync [simp]: "settles (manipulateAsync env u acts opts)"
  by (simp add: manipulateAsync_def)

lemma settles_writeAsStringAsync [simp]: "settles (writeAsStringAsync env p c e)"
  by (simp add: writeAsStringAsync_def)

lemma settles_readAsStringAsync [simp]: "settles (readAsStringAsync env p e)"
  by (simp add: readAsStringAsync_def)

lemma settles_deleteAsync [simp]: "settles (deleteAsync env p)"
  by (simp add: deleteAsync_def)

lemma settles_fetch [simp]: "settles (fetch env req)"
  by (simp add: fetch_def)

lemma always_resolves_settles: "always_resolves m \<Longrightarrow> settles m"
  unfolding always_resolves_def settles_def by (metis outcome.distinct(3))

lemma always_resolves_never_rejects: "always_resolves m \<Longrightarrow> never_rejects m"
  unfolding always_resolves_def never_rejects_def by (metis outcome.distinct(1))

lemma always_resolves_resolved [simp]: "always_resolves (resolved x)"
  by (simp add: always_resolves_def resolved_def)

lemma always_resolves_Date_now_text [simp]: "always_resolves (Date_now_text env)"
  by (simp add: always_resolves_def Date_now_text_def)

lemma always_resolves_await_try:
  assumes "settles m" "\<And>e. always_resolves (c e)" "\<And>x. always_resolves (k x)"
  shows "always_resolves (await_try m c k)"
  unfolding always_resolves_def
proof
  fix h
  obtain o' h' where mh: "m h = (o', h')" by (cases "m h")
  with assms(1) have np: "o' \<noteq> Pending" by (auto simp: settles_def dest: spec [of _ h])
  show "\<exists>x. fst (await_try m c k h) = Resolved x"
  proof (cases o')
    case (Resolved x)
    with mh assms(3) [of x] show ?thesis by (simp add: await_try_def always_resolves_def)
  next
    case (Rejected e)
    with mh assms(2) [of e] show ?thesis by (simp add: await_try_def always_resolves_def)
  next
    case Pending
    with np show ?thesis by simp
  qed
qed

lemma always_resolves_await:
  assumes "always_resolves m" "\<And>x. always_resolves (k x)"
  shows "always_resolves (await m k)"
  unfolding always_resolves_def
proof
  fix h
  from assms(1) obtain x where "fst (m h) = Resolved x" by (auto simp: always_resolves_def)
  then obtain h' where "m h = (Resolved x, h')" by (cases "m h") simp
  with assms(2) [of x] show "\<exists>x. fst (await m k h) = Resolved x"
    by (simp add: await_def always_resolves_def)
qed

lemma always_resolvesD: "always_resolves m \<Longrightarrow> \<exists>x. fst (m h) = Resolved x"
  by (simp add: always_resolves_def)

lemma resolves_to_resolved: "P x \<Longrightarrow> resolves_to (resolved x) P"
  by (simp add: resolves_to_def resolved_def)

lemma resolves_to_thrown [simp]: "resolves_to (thrown e) P"
  by (simp add: resolves_to_def thrown_def)

lemma resolves_to_never [simp]: "resolves_to never P"
  by (simp add: resolves_to_def never_def)

lemma resolves_to_await_try:
  assumes "\<And>e. resolves_to (c e) P" "\<And>x. resolves_to (k x) P"
  shows "resolves_to (await_try m c k) P"
  using assms by (auto simp: resolves_to_def await_try_def split: prod.splits outcome.splits)

lemma resolves_to_await_try_of:
  assumes "resolves_to m Q" "\<And>e. resolves_to (c e) P" "\<And>x. Q x \<Longrightarrow> resolves_to (k x) P"
  shows "resolves_to (await_try m c k) P"
  using assms
  by (auto simp: resolves_to_def await_try_def split: prod.splits outcome.splits) (metis fst_conv)+

lemma resolves_to_await:
  assumes "\<And>x. resolves_to (k x) P"
  shows "resolves_to (await m k) P"
  using assms by (auto simp: resolves_to_def await_def split: prod.splits outcome.splits)

lemma resolves_toD: "resolves_to m P \<Longrightarrow> fst (m h) = Resolved x \<Longrightarrow> P x"
  by (simp add: resolves_to_def)

subsection \<open>The five helpers and the remote background removal\<close>

lemma always_resolves_guarded:
  "always_resolves (await_try (manipulateAsync env u acts opts) (\<lambda>error. resolved u0) (\<lambda>img. resolved (uri img)))"
  by (intro always_resolves_await_try) simp_all

lemma always_resolves_preprocessForAI: "always_resolves (preprocessForAI env u)"
  by (simp add: preprocessForAI_def always_resolves_guarded)

lemma always_resolves_smartCrop_step: "always_resolves (smartCrop_step env u)"
  by (simp add: smartCrop_step_def always_resolves_guarded)

lemma always_resolves_convertToLineArt_step: "always_resolves (convertToLineArt_step env u)"
  by (simp add: convertToLineArt_step_def always_resolves_guarded)

lemma always_resolves_applyTattooStyling: "always_resolves (applyTattooStyling env u ac)"
  by (simp add: applyTattooStyling_def Let_def always_resolves_guarded)

lemma always_resolves_localBackgroundRemoval: "always_resolves (localBackgroundRemoval env u)"
  unfolding localBackgroundRemoval_def
  by (auto intro!: always_resolves_await_try)

lemma never_rejects_blob_to_file: "never_rejects (blob_to_file env prefix b)"
proof -
  have r: "never_rejects (readAsDataURL env b)"
    by (simp add: never_rejects_def readAsDataURL_def)
  have d: "never_rejects (Date_now_text env)"
    by (simp add: always_resolves_never_rejects)
  show ?thesis
    unfolding blob_to_file_def
    by (rule never_rejects_await [OF r])
       (auto simp: Let_def split: option.splits intro!: never_rejects_await [OF d] never_rejects_await_try)
qed

lemma never_rejects_tryRemoveBgAPI: "never_rejects (tryRemoveBgAPI env svc u)"
  unfolding tryRemoveBgAPI_def
  by (rule never_rejects_await_try) (auto split: sum.splits simp: never_rejects_blob_to_file)

lemma never_rejects_tryClipDropAPI: "never_rejects (tryClipDropAPI env svc u)"
  unfolding tryClipDropAPI_def
  by (rule never_rejects_await_try) (auto split: sum.splits simp: never_rejects_blob_to_file)

lemma never_rejects_removeBackgroundAI: "never_rejects (removeBackgroundAI env svc u)"
  unfolding removeBackgroundAI_def Let_def
  by (auto intro!: never_rejects_await_try)


lemma blob_to_file_trace:
  "\<exists>evs. snd (blob_to_file env prefix b h) = h @ evs \<and> (\<forall>t. \<not> requests_to t evs)"
  by (auto simp: blob_to_file_def await_def await_try_def readAsDataURL_def Date_now_text_def
      writeAsStringAsync_def external_def never_def resolved_def thrown_def requests_to_def Let_def
      split: option.splits sum.splits)

lemma blob_to_file_not_null: "fst (blob_to_file env prefix b h) \<noteq> Resolved None"
  by (auto simp: blob_to_file_def await_def await_try_def readAsDataURL_def Date_now_text_def
      writeAsStringAsync_def external_def never_def resolved_def thrown_def Let_def
      split: option.splits sum.splits)

lemma blob_to_file_truthy:
  assumes "fst (blob_to_file env prefix b h) = Resolved r"
  shows "truthy r"
  using assms
  by (auto simp: blob_to_file_def await_def await_try_def readAsDataURL_def Date_now_text_def
      writeAsStringAsync_def external_def never_def resolved_def thrown_def Let_def truthy_def
      split: option.splits sum.splits if_splits)

lemma tryRemoveBgAPI_run:
  "tryRemoveBgAPI env svc u h =
     (if service_fails env h (remove_bg_request svc u)
      then (Resolved None, h @ [Fetch (remove_bg_request svc u)])
      else blob_to_file env ''bg_removed_''
             (projr (blob_body (projr (fetch_reply env h (remove_bg_request svc u)))))
             (h @ [Fetch (remove_bg_request svc u)]))"
  by (auto simp: tryRemoveBgAPI_def remove_bg_request_def service_fails_def await_try_def
      fetch_def external_def resolved_def split: sum.splits)

lemma tryClipDropAPI_run:
  "tryClipDropAPI env svc u h =
     (if service_fails env h (clipdrop_request svc u)
      then (Resolved None, h @ [Fetch (clipdrop_request svc u)])
      else blob_to_file env ''clipdrop_''
             (projr (blob_body (projr (fetch_reply env h (clipdrop_request svc u)))))
             (h @ [Fetch (clipdrop_request svc u)]))"
  by (auto simp: tryClipDropAPI_def clipdrop_request_def service_fails_def await_try_def
      fetch_def external_def resolved_def split: sum.splits)

text \<open>What \<^verbatim>\<open>removeBackgroundAI\<close> does once the Remove.bg branch is over.\<close>

lemma clipdrop_part_run:
  "(if truthy (CLIPDROP_apiKey svc) then
      await_try (tryClipDropAPI env svc u) (\<lambda>error. resolved None)
        (\<lambda>clipDropResult. if truthy clipDropResult then resolved clipDropResult else resolved None)
    else resolved None) h =
   (if truthy (CLIPDROP_apiKey svc) then tryClipDropAPI env svc u h else (Resolved None, h))"
proof (cases "truthy (CLIPDROP_apiKey svc)")
  case False
  then show ?thesis by (simp add: resolved_def)
next
  case True
  obtain r h' where run: "tryClipDropAPI env svc u h = (r, h')" by (cases "tryClipDropAPI env svc u h")
  have nr: "\<And>e. r \<noteq> Rejected e"
    using never_rejectsD [OF never_rejects_tryClipDropAPI, of env svc u h] run by simp
  have "\<And>x. r = Resolved x \<Longrightarrow> x = None \<or> truthy x"
    using run tryClipDropAPI_run [of env svc u h] blob_to_file_truthy
    by (metis fst_conv outcome.inject(1))
  with True run nr show ?thesis
    by (cases r) (auto simp: await_try_def resolved_def truthy_def)
qed

lemma removeBackgroundAI_run:
  "removeBackgroundAI env svc u h =
     (if truthy (REMOVE_BG_apiKey svc) then
        (if service_fails env h (remove_bg_request svc u) then
           (if truthy (CLIPDROP_apiKey svc)
            then tryClipDropAPI env svc u (h @ [Fetch (remove_bg_request svc u)])
            else (Resolved None, h @ [Fetch (remove_bg_request svc u)]))
         else tryRemoveBgAPI env svc u h)
      else if truthy (CLIPDROP_apiKey svc) then tryClipDropAPI env svc u h
      else (Resolved None, h))"
proof (cases "truthy (REMOVE_BG_apiKey svc)")
  case False
  then show ?thesis
    using clipdrop_part_run [of svc env u h] by (simp add: removeBackgroundAI_def Let_def)
next
  case rb: True
  show ?thesis
  proof (cases "service_fails env h (remove_bg_request svc u)")
    case True
    then have "tryRemoveBgAPI env svc u h = (Resolved None, h @ [Fetch (remove_bg_request svc u)])"
      by (simp add: tryRemoveBgAPI_run)
    with rb True show ?thesis
      using clipdrop_part_run [of svc env u "h @ [Fetch (remove_bg_request svc u)]"]
      by (simp add: removeBackgroundAI_def Let_def await_try_def truthy_def)
  next
    case False
    obtain r h' where run: "tryRemoveBgAPI env svc u h = (r, h')" by (cases "tryRemoveBgAPI env svc u h")
    have nr: "\<And>e. r \<noteq> Rejected e"
      using never_rejectsD [OF never_rejects_tryRemoveBgAPI, of env svc u h] run by simp
    have tr: "\<And>x. r = Resolved x \<Longrightarrow> truthy x"
      using run False tryRemoveBgAPI_run [of env svc u h] blob_to_file_truthy
      by (metis fst_conv)
    from rb False run nr tr show ?thesis
      by (cases r) (auto simp: removeBackgroundAI_def Let_def await_try_def resolved_def)
  qed
qed

lemma new_calls_append: "snd (m h) = h @ evs \<Longrightarrow> new_calls m h = evs"
  by (simp add: new_calls_def)

lemma requests_to_Cons:
  "requests_to t (Fetch req # evs) = (url req = t \<or> requests_to t evs)"
  by (simp add: requests_to_def)

lemma requests_to_Nil: "requests_to t [] = False"
  by (simp add: requests_to_def)

lemma tryRemoveBgAPI_calls:
  "\<exists>evs. snd (tryRemoveBgAPI env svc u h) = h @ Fetch (remove_bg_request svc u) # evs
         \<and> (\<forall>t. \<not> requests_to t evs)"
proof (cases "service_fails env h (remove_bg_request svc u)")
  case True
  then show ?thesis by (simp add: tryRemoveBgAPI_run requests_to_Nil)
next
  case False
  from blob_to_file_trace [of env "''bg_removed_''"
      "projr (blob_body (projr (fetch_reply env h (remove_bg_request svc u))))"
      "h @ [Fetch (remove_bg_request svc u)]"]
  show ?thesis using False by (auto simp: tryRemoveBgAPI_run)
qed

lemma tryClipDropAPI_calls:
  "\<exists>evs. snd (tryClipDropAPI env svc u h) = h @ Fetch (clipdrop_request svc u) # evs
         \<and> (\<forall>t. \<not> requests_to t evs)"
proof (cases "service_fails env h (clipdrop_request svc u)")
  case True
  then show ?thesis by (simp add: tryClipDropAPI_run requests_to_Nil)
next
  case False
  from blob_to_file_trace [of env "''clipdrop_''"
      "projr (blob_body (projr (fetch_reply env h (clipdrop_request svc u))))"
      "h @ [Fetch (clipdrop_request svc u)]"]
  show ?thesis using False by (auto simp: tryClipDropAPI_run)
qed

lemma url_remove_bg_request [simp]:
  "url (remove_bg_request svc u) = ''https://api.remove.bg/v1.0/removebg''"
  by (simp add: remove_bg_request_def)

lemma url_clipdrop_request [simp]:
  "url (clipdrop_request svc u) = ''https://clipdrop-api.co/remove-background/v1''"
  by (simp add: clipdrop_request_def)

lemma removeBackgroundAI_attempts:
  "(requests_to ''https://api.remove.bg/v1.0/removebg'' (new_calls (removeBackgroundAI env svc u) h)
      \<longleftrightarrow> truthy (REMOVE_BG_apiKey svc)) \<and>
   (requests_to ''https://clipdrop-api.co/remove-background/v1'' (new_calls (removeBackgroundAI env svc u) h)
      \<longleftrightarrow> truthy (CLIPDROP_apiKey svc) \<and>
          (truthy (REMOVE_BG_apiKey svc) \<longrightarrow> service_fails env h (remove_bg_request svc u)))"
proof -
  let ?h1 = "h @ [Fetch (remove_bg_request svc u)]"
  obtain e1 where e1: "snd (tryRemoveBgAPI env svc u h) = h @ Fetch (remove_bg_request svc u) # e1"
    "\<forall>t. \<not> requests_to t e1"
    using tryRemoveBgAPI_calls by blast
  obtain e2 where e2: "snd (tryClipDropAPI env svc u h) = h @ Fetch (clipdrop_request svc u) # e2"
    "\<forall>t. \<not> requests_to t e2"
    using tryClipDropAPI_calls by blast
  obtain e3 where e3: "snd (tryClipDropAPI env svc u ?h1) = ?h1 @ Fetch (clipdrop_request svc u) # e3"
    "\<forall>t. \<not> requests_to t e3"
    using tryClipDropAPI_calls by blast
  show ?thesis
    using e1 e2 e3
    by (auto simp: removeBackgroundAI_run new_calls_def requests_to_Cons requests_to_Nil)
qed

lemma removeBackgroundAI_all_fail:
  assumes "truthy (REMOVE_BG_apiKey svc) \<longrightarrow> service_fails env h (remove_bg_request svc u)"
    and "truthy (CLIPDROP_apiKey svc) \<longrightarrow>
           service_fails env (if truthy (REMOVE_BG_apiKey svc) then h @ [Fetch (remove_bg_request svc u)] else h)
             (clipdrop_request svc u)"
  shows "fst (removeBackgroundAI env svc u h) = Resolved None"
  using assms by (auto simp: removeBackgroundAI_run tryClipDropAPI_run)

lemma background_stage_null:
  assumes "enabled (removeBackground options)"
    and "fst (removeBackgroundAI env svc u h) = Resolved None"
  shows "\<exists>u'. fst (localBackgroundRemoval env u (snd (removeBackgroundAI env svc u h))) = Resolved u' \<and>
          background_stage env svc options (u, steps) h =
            (Resolved (u', steps @ [''Background processed locally'']),
             snd (localBackgroundRemoval env u (snd (removeBackgroundAI env svc u h))))"
proof -
  obtain h1 where r: "removeBackgroundAI env svc u h = (Resolved None, h1)"
    using assms(2) by (cases "removeBackgroundAI env svc u h") simp
  obtain u' where "fst (localBackgroundRemoval env u h1) = Resolved u'"
    using always_resolvesD [OF always_resolves_localBackgroundRemoval] by blast
  then obtain h2 where l: "localBackgroundRemoval env u h1 = (Resolved u', h2)"
    by (cases "localBackgroundRemoval env u h1") simp
  show ?thesis
    using assms(1) r l
    by (simp add: background_stage_def await_def resolved_def truthy_def)
qed

text \<open>
  Claim C4. \<^verbatim>\<open>removeBackgroundAI\<close> sends a request to the Remove.bg endpoint exactly
  when the Remove.bg key is set, and one to the ClipDrop endpoint exactly when the
  ClipDrop key is set and Remove.bg was not tried or failed; with no key set it
  makes no call and resolves to \<^verbatim>\<open>null\<close>; when every service it tries fails it
  resolves to \<^verbatim>\<open>null\<close>; it never rejects; and in the pipeline, with background
  removal asked for, a \<^verbatim>\<open>null\<close> result is followed by
  \<^verbatim>\<open>localBackgroundRemoval\<close> on the same image, recorded as processed locally.
\<close>

theorem removeBackgroundAI_conditional:
  "(requests_to ''https://api.remove.bg/v1.0/removebg'' (new_calls (removeBackgroundAI env svc u) h)
      \<longleftrightarrow> truthy (REMOVE_BG_apiKey svc)) \<and>
   (requests_to ''https://clipdrop-api.co/remove-background/v1'' (new_calls (removeBackgroundAI env svc u) h)
      \<longleftrightarrow> truthy (CLIPDROP_apiKey svc) \<and>
          (truthy (REMOVE_BG_apiKey svc) \<longrightarrow> service_fails env h (remove_bg_request svc u))) \<and>
   (\<not> truthy (REMOVE_BG_apiKey svc) \<and> \<not> truthy (CLIPDROP_apiKey svc)
      \<longrightarrow> removeBackgroundAI env svc u h = (Resolved None, h)) \<and>
   ((truthy (REMOVE_BG_apiKey svc) \<longrightarrow> service_fails env h (remove_bg_request svc u)) \<and>
    (truthy (CLIPDROP_apiKey svc) \<longrightarrow>
       service_fails env (if truthy (REMOVE_BG_apiKey svc) then h @ [Fetch (remove_bg_request svc u)] else h)
         (clipdrop_request svc u))
      \<longrightarrow> fst (removeBackgroundAI env svc u h) = Resolved None) \<and>
   (\<forall>e. fst (removeBackgroundAI env svc u h) \<noteq> Rejected e) \<and>
   (enabled (removeBackground options) \<and> fst (removeBackgroundAI env svc u h) = Resolved None
      \<longrightarrow> (\<exists>u'. fst (localBackgroundRemoval env u (snd (removeBackgroundAI env svc u h))) = Resolved u' \<and>
                background_stage env svc options (u, steps) h =
                  (Resolved (u', steps @ [''Background processed locally'']),
                   snd (localBackgroundRemoval env u (snd (removeBackgroundAI env svc u h))))))"
proof -
  note a = removeBackgroundAI_attempts [of env svc u h]
  have c: "\<not> truthy (REMOVE_BG_apiKey svc) \<and> \<not> truthy (CLIPDROP_apiKey svc)
      \<longrightarrow> removeBackgroundAI env svc u h = (Resolved None, h)"
    by (simp add: removeBackgroundAI_run)
  have d: "(truthy (REMOVE_BG_apiKey svc) \<longrightarrow> service_fails env h (remove_bg_request svc u)) \<and>
    (truthy (CLIPDROP_apiKey svc) \<longrightarrow>
       service_fails env (if truthy (REMOVE_BG_apiKey svc) then h @ [Fetch (remove_bg_request svc u)] else h)
         (clipdrop_request svc u))
      \<longrightarrow> fst (removeBackgroundAI env svc u h) = Resolved None"
    using removeBackgroundAI_all_fail [of svc env h u] by blast
  have e: "\<forall>e. fst (removeBackgroundAI env svc u h) \<noteq> Rejected e"
    using never_rejectsD [OF never_rejects_removeBackgroundAI] by blast
  have f: "enabled (removeBackground options) \<and> fst (removeBackgroundAI env svc u h) = Resolved None
      \<longrightarrow> (\<exists>u'. fst (localBackgroundRemoval env u (snd (removeBackgroundAI env svc u h))) = Resolved u' \<and>
                background_stage env svc options (u, steps) h =
                  (Resolved (u', steps @ [''Background processed locally'']),
                   snd (localBackgroundRemoval env u (snd (removeBackgroundAI env svc u h)))))"
    using background_stage_null [of options env svc u h steps] by blast
  from a c d e f show ?thesis by blast
qed


lemma offline_service_fails: "service_fails offline_device h req"
  by (simp add: service_fails_def offline_device_def)

lemma offline_localBackgroundRemoval:
  "fst (localBackgroundRemoval offline_device u h) = Resolved (u @ ''.out'' @ ''.out'')"
  by (simp add: localBackgroundRemoval_run offline_device_def Let_def)

theorem removeBackgroundAI_conditional_witness:
  "truthy (REMOVE_BG_apiKey both_keys) \<and> truthy (CLIPDROP_apiKey both_keys) \<and>
   service_fails offline_device [] (remove_bg_request both_keys ''photo.jpg'') \<and>
   service_fails offline_device [Fetch (remove_bg_request both_keys ''photo.jpg'')]
     (clipdrop_request both_keys ''photo.jpg'') \<and>
   requests_to ''https://api.remove.bg/v1.0/removebg''
     (new_calls (removeBackgroundAI offline_device both_keys ''photo.jpg'') []) \<and>
   requests_to ''https://clipdrop-api.co/remove-background/v1''
     (new_calls (removeBackgroundAI offline_device both_keys ''photo.jpg'') []) \<and>
   fst (removeBackgroundAI offline_device both_keys ''photo.jpg'' []) = Resolved None \<and>
   enabled (removeBackground AI_PROCESSING_DEFAULTS) \<and>
   fst (background_stage offline_device both_keys AI_PROCESSING_DEFAULTS (''photo.jpg'', []) [])
     = Resolved (''photo.jpg.out.out'', [''Background processed locally''])"
proof -
  have k: "truthy (REMOVE_BG_apiKey both_keys)" "truthy (CLIPDROP_apiKey both_keys)"
    by (simp_all add: both_keys_def truthy_def)
  have en: "enabled (removeBackground AI_PROCESSING_DEFAULTS)"
    by (simp add: enabled_def AI_PROCESSING_DEFAULTS_def)
  note t = removeBackgroundAI_conditional [of offline_device both_keys "''photo.jpg''" "[]"
      AI_PROCESSING_DEFAULTS "[]"]
  from t k offline_service_fails
  have r1: "requests_to ''https://api.remove.bg/v1.0/removebg''
     (new_calls (removeBackgroundAI offline_device both_keys ''photo.jpg'') [])"
    and r2: "requests_to ''https://clipdrop-api.co/remove-background/v1''
     (new_calls (removeBackgroundAI offline_device both_keys ''photo.jpg'') [])"
    and n: "fst (removeBackgroundAI offline_device both_keys ''photo.jpg'' []) = Resolved None"
    by blast+
  from t en n obtain u' where
    l: "fst (localBackgroundRemoval offline_device ''photo.jpg''
          (snd (removeBackgroundAI offline_device both_keys ''photo.jpg'' []))) = Resolved u'"
    and b: "background_stage offline_device both_keys AI_PROCESSING_DEFAULTS (''photo.jpg'', []) [] =
            (Resolved (u', [] @ [''Background processed locally'']),
             snd (localBackgroundRemoval offline_device ''photo.jpg''
               (snd (removeBackgroundAI offline_device both_keys ''photo.jpg'' []))))"
    by blast
  from l have "u' = ''photo.jpg.out.out''" by (simp add: offline_localBackgroundRemoval)
  with b have bs: "fst (background_stage offline_device both_keys AI_PROCESSING_DEFAULTS (''photo.jpg'', []) [])
     = Resolved (''photo.jpg.out.out'', [''Background processed locally''])"
    by simp
  from k offline_service_fails r1 r2 n en bs show ?thesis by blast
qed

subsection \<open>The traditional pipeline\<close>

lemma await_try_ResolvedE:
  assumes "await_try m c k h = (Resolved r, h')" and "never_rejects m"
  obtains x h1 where "m h = (Resolved x, h1)" "k x h1 = (Resolved r, h')"
proof -
  obtain o1 h1 where mh: "m h = (o1, h1)" by (cases "m h")
  from assms(2) mh have nr: "\<And>e. o1 \<noteq> Rejected e"
    by (metis fst_conv never_rejectsD)
  show ?thesis
  proof (cases o1)
    case (Resolved x)
    with mh assms(1) that [of x h1] show ?thesis by (simp add: await_try_def)
  next
    case (Rejected e)
    with nr [of e] show ?thesis by simp
  next
    case Pending
    with mh assms(1) show ?thesis by (simp add: await_try_def)
  qed
qed

lemma await_ResolvedE:
  assumes "await m k h = (Resolved r, h')"
  obtains x h1 where "m h = (Resolved x, h1)" "k x h1 = (Resolved r, h')"
proof -
  obtain o1 h1 where mh: "m h = (o1, h1)" by (cases "m h")
  show ?thesis
  proof (cases o1)
    case (Resolved x)
    with mh assms(1) that [of x h1] show ?thesis by (simp add: await_def)
  next
    case (Rejected e)
    with mh assms(1) show ?thesis by (simp add: await_def)
  next
    case Pending
    with mh assms(1) show ?thesis by (simp add: await_def)
  qed
qed

lemma never_rejects_background_stage: "never_rejects (background_stage env svc options cur)"
proof -
  have l: "never_rejects (await (localBackgroundRemoval env (fst cur))
             (\<lambda>u. resolved (u, snd cur @ [''Background processed locally''])))"
    by (rule never_rejects_await)
       (simp_all add: always_resolves_never_rejects always_resolves_localBackgroundRemoval)
  have "never_rejects (await (removeBackgroundAI env svc (fst cur)) (\<lambda>backgroundRemovedUri.
          if truthy backgroundRemovedUri then
            resolved (the backgroundRemovedUri, snd cur @ [''Background removed using AI''])
          else
            await (localBackgroundRemoval env (fst cur)) (\<lambda>u.
            resolved (u, snd cur @ [''Background processed locally'']))))"
    by (rule never_rejects_await [OF never_rejects_removeBackgroundAI]) (simp add: l)
  then show ?thesis by (simp add: background_stage_def)
qed

lemma never_rejects_crop_stage: "never_rejects (crop_stage env options cur)"
proof -
  have "never_rejects (await (smartCrop_step env (fst cur)) (\<lambda>u. resolved (u, snd cur @ [''Smart cropped''])))"
    by (rule never_rejects_await)
       (simp_all add: always_resolves_never_rejects always_resolves_smartCrop_step)
  then show ?thesis by (simp add: crop_stage_def)
qed

lemma never_rejects_lineart_stage: "never_rejects (lineart_stage env options cur)"
proof -
  have "never_rejects (await (convertToLineArt_step env (fst cur))
          (\<lambda>u. resolved (u, snd cur @ [''Converted to line art''])))"
    by (rule never_rejects_await)
       (simp_all add: always_resolves_never_rejects always_resolves_convertToLineArt_step)
  then show ?thesis by (simp add: lineart_stage_def)
qed

lemma background_stage_steps:
  assumes "background_stage env svc options cur h1 = (Resolved c2, h2)"
  shows "(if enabled (removeBackground options)
          then snd c2 = snd cur @ [''Background removed using AI''] \<or>
               snd c2 = snd cur @ [''Background processed locally'']
          else c2 = cur \<and> h2 = h1)"
proof (cases "enabled (removeBackground options)")
  case False
  with assms show ?thesis by (simp add: background_stage_def resolved_def)
next
  case True
  with assms have "await (removeBackgroundAI env svc (fst cur)) (\<lambda>backgroundRemovedUri.
          if truthy backgroundRemovedUri then
            resolved (the backgroundRemovedUri, snd cur @ [''Background removed using AI''])
          else
            await (localBackgroundRemoval env (fst cur)) (\<lambda>u.
            resolved (u, snd cur @ [''Background processed locally'']))) h1 = (Resolved c2, h2)"
    by (simp add: background_stage_def)
  then obtain x hx where
    k: "(if truthy x then resolved (the x, snd cur @ [''Background removed using AI''])
         else await (localBackgroundRemoval env (fst cur))
                (\<lambda>u. resolved (u, snd cur @ [''Background processed locally'']))) hx
        = (Resolved c2, h2)"
    by (rule await_ResolvedE)
  show ?thesis
  proof (cases "truthy x")
    case t: True
    with k True show ?thesis by (auto simp: resolved_def)
  next
    case f: False
    with k have "await (localBackgroundRemoval env (fst cur))
        (\<lambda>u. resolved (u, snd cur @ [''Background processed locally''])) hx
        = (Resolved c2, h2)" by simp
    then obtain y hy where "resolved (y, snd cur @ [''Background processed locally'']) hy = (Resolved c2, h2)"
      by (rule await_ResolvedE)
    with True show ?thesis by (auto simp: resolved_def)
  qed
qed

lemma crop_stage_steps:
  assumes "crop_stage env options cur h2 = (Resolved c3, h3)"
  shows "(if enabled (smartCrop options)
          then snd c3 = snd cur @ [''Smart cropped''] \<and> smartCrop_step env (fst cur) h2 = (Resolved (fst c3), h3)
          else c3 = cur \<and> h3 = h2)"
proof (cases "enabled (smartCrop options)")
  case False
  with assms show ?thesis by (simp add: crop_stage_def resolved_def)
next
  case True
  with assms have "await (smartCrop_step env (fst cur)) (\<lambda>u. resolved (u, snd cur @ [''Smart cropped''])) h2
      = (Resolved c3, h3)"
    by (simp add: crop_stage_def)
  then obtain x hx where "smartCrop_step env (fst cur) h2 = (Resolved x, hx)"
    "resolved (x, snd cur @ [''Smart cropped'']) hx = (Resolved c3, h3)"
    by (rule await_ResolvedE)
  with True show ?thesis by (auto simp: resolved_def)
qed

lemma lineart_stage_steps:
  assumes "lineart_stage env options cur h3 = (Resolved c4, h4)"
  shows "(if enabled (convertToLineArt options)
          then snd c4 = snd cur @ [''Converted to line art''] \<and>
               convertToLineArt_step env (fst cur) h3 = (Resolved (fst c4), h4)
          else c4 = cur \<and> h4 = h3)"
proof (cases "enabled (convertToLineArt options)")
  case False
  with assms show ?thesis by (simp add: lineart_stage_def resolved_def)
next
  case True
  with assms have "await (convertToLineArt_step env (fst cur))
      (\<lambda>u. resolved (u, snd cur @ [''Converted to line art''])) h3
      = (Resolved c4, h4)"
    by (simp add: lineart_stage_def)
  then obtain x hx where "convertToLineArt_step env (fst cur) h3 = (Resolved x, hx)"
    "resolved (x, snd cur @ [''Converted to line art'']) hx = (Resolved c4, h4)"
    by (rule await_ResolvedE)
  with True show ?thesis by (auto simp: resolved_def)
qed

lemma traditionalProcessingPipeline_chain:
  assumes "traditionalProcessingPipeline env svc imageUri options existingSteps h = (Resolved r, h')"
  obtains u1 h1 u2 s2 h2 u3 s3 h3 u4 s4 h4 u5 where
    "preprocessForAI env imageUri h = (Resolved u1, h1)"
    "background_stage env svc options
       (u1, (existingSteps @ [''Using traditional processing pipeline'']) @ [''Image preprocessed'']) h1
       = (Resolved (u2, s2), h2)"
    "crop_stage env options (u2, s2) h2 = (Resolved (u3, s3), h3)"
    "lineart_stage env options (u3, s3) h3 = (Resolved (u4, s4), h4)"
    "applyTattooStyling env u4 (autoContrast options) h4 = (Resolved u5, h')"
    "r = \<lparr>success = True, processedImageUri = Some u5, originalImageUri = imageUri,
          processingSteps = s4 @ [''Tattoo styling applied''], error = None,
          format = Some ''PNG'', svgCode = None, model = Some ''traditional-pipeline''\<rparr>"
proof -
  let ?rethrow = "\<lambda>error. thrown (Error (''Traditional processing failed: '' @ message error))"
  let ?s1 = "(existingSteps @ [''Using traditional processing pipeline'']) @ [''Image preprocessed'']"
  from assms have k0: "await_try (preprocessForAI env imageUri) ?rethrow (\<lambda>cur1.
         await_try (background_stage env svc options (cur1, ?s1)) ?rethrow (\<lambda>s2.
         await_try (crop_stage env options s2) ?rethrow (\<lambda>s3.
         await_try (lineart_stage env options s3) ?rethrow (\<lambda>s4.
         await_try (applyTattooStyling env (fst s4) (autoContrast options)) ?rethrow (\<lambda>cur5.
         resolved \<lparr>success = True, processedImageUri = Some cur5, originalImageUri = imageUri,
                   processingSteps = snd s4 @ [''Tattoo styling applied''], error = None,
                   format = Some ''PNG'', svgCode = None, model = Some ''traditional-pipeline''\<rparr>))))) h
         = (Resolved r, h')"
    by (simp only: traditionalProcessingPipeline_def Let_def)
  from k0 obtain u1 h1 where
    p1: "preprocessForAI env imageUri h = (Resolved u1, h1)" and
    k1: "await_try (background_stage env svc options (u1, ?s1)) ?rethrow (\<lambda>s2.
         await_try (crop_stage env options s2) ?rethrow (\<lambda>s3.
         await_try (lineart_stage env options s3) ?rethrow (\<lambda>s4.
         await_try (applyTattooStyling env (fst s4) (autoContrast options)) ?rethrow (\<lambda>cur5.
         resolved \<lparr>success = True, processedImageUri = Some cur5, originalImageUri = imageUri,
                   processingSteps = snd s4 @ [''Tattoo styling applied''], error = None,
                   format = Some ''PNG'', svgCode = None, model = Some ''traditional-pipeline''\<rparr>)))) h1
         = (Resolved r, h')"
    by (rule await_try_ResolvedE
          [OF _ always_resolves_never_rejects [OF always_resolves_preprocessForAI]])
  from k1 obtain c2 h2 where
    p2: "background_stage env svc options (u1, ?s1) h1 = (Resolved c2, h2)" and
    k2: "await_try (crop_stage env options c2) ?rethrow (\<lambda>s3.
         await_try (lineart_stage env options s3) ?rethrow (\<lambda>s4.
         await_try (applyTattooStyling env (fst s4) (autoContrast options)) ?rethrow (\<lambda>cur5.
         resolved \<lparr>success = True, processedImageUri = Some cur5, originalImageUri = imageUri,
                   processingSteps = snd s4 @ [''Tattoo styling applied''], error = None,
                   format = Some ''PNG'', svgCode = None, model = Some ''traditional-pipeline''\<rparr>))) h2
         = (Resolved r, h')"
    by (rule await_try_ResolvedE [OF _ never_rejects_background_stage])
  from k2 obtain c3 h3 where
    p3: "crop_stage env options c2 h2 = (Resolved c3, h3)" and
    k3: "await_try (lineart_stage env options c3) ?rethrow (\<lambda>s4.
         await_try (applyTattooStyling env (fst s4) (autoContrast options)) ?rethrow (\<lambda>cur5.
         resolved \<lparr>success = True, processedImageUri = Some cur5, originalImageUri = imageUri,
                   processingSteps = snd s4 @ [''Tattoo styling applied''], error = None,
                   format = Some ''PNG'', svgCode = None, model = Some ''traditional-pipeline''\<rparr>)) h3
         = (Resolved r, h')"
    by (rule await_try_ResolvedE [OF _ never_rejects_crop_stage])
  from k3 obtain c4 h4 where
    p4: "lineart_stage env options c3 h3 = (Resolved c4, h4)" and
    k4: "await_try (applyTattooStyling env (fst c4) (autoContrast options)) ?rethrow (\<lambda>cur5.
         resolved \<lparr>success = True, processedImageUri = Some cur5, originalImageUri = imageUri,
                   processingSteps = snd c4 @ [''Tattoo styling applied''], error = None,
                   format = Some ''PNG'', svgCode = None, model = Some ''traditional-pipeline''\<rparr>) h4
         = (Resolved r, h')"
    by (rule await_try_ResolvedE [OF _ never_rejects_lineart_stage])
  from k4 obtain u5 h5 where
    p5: "applyTattooStyling env (fst c4) (autoContrast options) h4 = (Resolved u5, h5)" and
    k5: "resolved \<lparr>success = True, processedImageUri = Some u5, originalImageUri = imageUri,
                   processingSteps = snd c4 @ [''Tattoo styling applied''], error = None,
                   format = Some ''PNG'', svgCode = None, model = Some ''traditional-pipeline''\<rparr> h5
         = (Resolved r, h')"
    by (rule await_try_ResolvedE
          [OF _ always_resolves_never_rejects [OF always_resolves_applyTattooStyling]])
  from k5 have e: "h5 = h'"
    "r = \<lparr>success = True, processedImageUri = Some u5, originalImageUri = imageUri,
          processingSteps = snd c4 @ [''Tattoo styling applied''], error = None,
          format = Some ''PNG'', svgCode = None, model = Some ''traditional-pipeline''\<rparr>"
    by (simp_all add: resolved_def)
  show ?thesis
    using that [of u1 h1 "fst c2" "snd c2" h2 "fst c3" "snd c3" h3 "fst c4" "snd c4" h4 u5]
      p1 p2 p3 p4 p5 e by simp
qed


text \<open>
  Whenever \<^verbatim>\<open>traditionalProcessingPipeline\<close> resolves, it has run
  preprocessing first, then background removal if and only if
  \<^verbatim>\<open>options.removeBackground\<close>, then smart cropping if and only if
  \<^verbatim>\<open>options.smartCrop\<close>, then line-art conversion if and only if
  \<^verbatim>\<open>options.convertToLineArt\<close>, then tattoo styling, each step on the image and
  after the calls the step before it left; the result is a success of format PNG
  and model traditional-pipeline, and its processing steps are the steps given,
  the pipeline's own heading, and one entry for each step run, in that order.
\<close>

theorem traditionalProcessingPipeline_order:
  assumes "traditionalProcessingPipeline env svc imageUri options existingSteps h = (Resolved r, h')"
  shows "\<exists>u1 h1 u2 h2 u3 h3 u4 h4 u5 bg.
     preprocessForAI env imageUri h = (Resolved u1, h1) \<and>
     (if enabled (removeBackground options)
      then background_stage env svc options
             (u1, existingSteps @ [''Using traditional processing pipeline'', ''Image preprocessed'']) h1
           = (Resolved (u2, existingSteps @ [''Using traditional processing pipeline'', ''Image preprocessed'', bg]), h2)
      else u2 = u1 \<and> h2 = h1) \<and>
     (if enabled (smartCrop options)
      then smartCrop_step env u2 h2 = (Resolved u3, h3) else u3 = u2 \<and> h3 = h2) \<and>
     (if enabled (convertToLineArt options)
      then convertToLineArt_step env u3 h3 = (Resolved u4, h4) else u4 = u3 \<and> h4 = h3) \<and>
     applyTattooStyling env u4 (autoContrast options) h4 = (Resolved u5, h') \<and>
     success r \<and> processedImageUri r = Some u5 \<and> originalImageUri r = imageUri \<and>
     format r = Some ''PNG'' \<and> model r = Some ''traditional-pipeline'' \<and>
     (bg = ''Background removed using AI'' \<or> bg = ''Background processed locally'') \<and>
     processingSteps r =
       existingSteps @ [''Using traditional processing pipeline'', ''Image preprocessed''] @
       (if enabled (removeBackground options) then [bg] else []) @
       (if enabled (smartCrop options) then [''Smart cropped''] else []) @
       (if enabled (convertToLineArt options) then [''Converted to line art''] else []) @
       [''Tattoo styling applied'']"
proof -
  let ?s1 = "(existingSteps @ [''Using traditional processing pipeline'']) @ [''Image preprocessed'']"
  from assms obtain u1 h1 u2 s2 h2 u3 s3 h3 u4 s4 h4 u5 where
    p1: "preprocessForAI env imageUri h = (Resolved u1, h1)" and
    p2: "background_stage env svc options (u1, ?s1) h1 = (Resolved (u2, s2), h2)" and
    p3: "crop_stage env options (u2, s2) h2 = (Resolved (u3, s3), h3)" and
    p4: "lineart_stage env options (u3, s3) h3 = (Resolved (u4, s4), h4)" and
    p5: "applyTattooStyling env u4 (autoContrast options) h4 = (Resolved u5, h')" and
    r: "r = \<lparr>success = True, processedImageUri = Some u5, originalImageUri = imageUri,
          processingSteps = s4 @ [''Tattoo styling applied''], error = None,
          format = Some ''PNG'', svgCode = None, model = Some ''traditional-pipeline''\<rparr>"
    by (rule traditionalProcessingPipeline_chain)
  have s1: "?s1 = existingSteps @ [''Using traditional processing pipeline'', ''Image preprocessed'']"
    by simp
  define bg where "bg = (if s2 = ?s1 @ [''Background removed using AI'']
                         then ''Background removed using AI'' else ''Background processed locally'')"
  have bg: "bg = ''Background removed using AI'' \<or> bg = ''Background processed locally''"
    by (simp add: bg_def)
  have b: "if enabled (removeBackground options) then s2 = ?s1 @ [bg] else s2 = ?s1 \<and> u2 = u1 \<and> h2 = h1"
  proof (cases "enabled (removeBackground options)")
    case True
    with background_stage_steps [OF p2]
    have d: "s2 = ?s1 @ [''Background removed using AI''] \<or> s2 = ?s1 @ [''Background processed locally'']"
      by (simp only: if_True snd_conv)
    have "s2 = ?s1 @ [bg]"
    proof (cases "s2 = ?s1 @ [''Background removed using AI'']")
      case True
      have "bg = ''Background removed using AI''"
        unfolding bg_def using True by (rule if_P)
      with True show ?thesis by (simp only:)
    next
      case False
      have "bg = ''Background processed locally''"
        unfolding bg_def using False by (rule if_not_P)
      moreover from False d have "s2 = ?s1 @ [''Background processed locally'']" by blast
      ultimately show ?thesis by (simp only:)
    qed
    with True show ?thesis by (simp only: if_True)
  next
    case False
    with background_stage_steps [OF p2] have "(u2, s2) = (u1, ?s1) \<and> h2 = h1"
      by (simp only: if_False)
    with False show ?thesis by (auto simp only: if_False prod.inject)
  qed
  have c: "if enabled (smartCrop options)
           then s3 = s2 @ [''Smart cropped''] \<and> smartCrop_step env u2 h2 = (Resolved u3, h3)
           else s3 = s2 \<and> u3 = u2 \<and> h3 = h2"
  proof (cases "enabled (smartCrop options)")
    case True
    with crop_stage_steps [OF p3] show ?thesis by (simp only: if_True fst_conv snd_conv)
  next
    case False
    with crop_stage_steps [OF p3] show ?thesis by (auto simp only: if_False prod.inject)
  qed
  have l: "if enabled (convertToLineArt options)
           then s4 = s3 @ [''Converted to line art''] \<and> convertToLineArt_step env u3 h3 = (Resolved u4, h4)
           else s4 = s3 \<and> u4 = u3 \<and> h4 = h3"
  proof (cases "enabled (convertToLineArt options)")
    case True
    with lineart_stage_steps [OF p4] show ?thesis by (simp only: if_True fst_conv snd_conv)
  next
    case False
    with lineart_stage_steps [OF p4] show ?thesis by (auto simp only: if_False prod.inject)
  qed
  have stage2: "if enabled (removeBackground options)
      then background_stage env svc options
             (u1, existingSteps @ [''Using traditional processing pipeline'', ''Image preprocessed'']) h1
           = (Resolved (u2, existingSteps @ [''Using traditional processing pipeline'', ''Image preprocessed'', bg]), h2)
      else u2 = u1 \<and> h2 = h1"
  proof (cases "enabled (removeBackground options)")
    case True
    with b have "s2 = ?s1 @ [bg]" by simp
    then have "s2 = existingSteps @ [''Using traditional processing pipeline'', ''Image preprocessed'', bg]"
      by simp
    with p2 True show ?thesis by (simp only: s1 if_True)
  next
    case False
    with b show ?thesis by simp
  qed
  have s2: "s2 = existingSteps @ [''Using traditional processing pipeline'', ''Image preprocessed''] @
       (if enabled (removeBackground options) then [bg] else [])"
  proof (cases "enabled (removeBackground options)")
    case True
    with b have "s2 = ?s1 @ [bg]" by (simp only: if_True)
    with True show ?thesis by simp
  next
    case False
    with b have "s2 = ?s1" by (simp only: if_False)
    with False show ?thesis by simp
  qed
  have s3: "s3 = s2 @ (if enabled (smartCrop options) then [''Smart cropped''] else [])"
  proof (cases "enabled (smartCrop options)")
    case True
    with c have "s3 = s2 @ [''Smart cropped'']" by (simp only: if_True)
    with True show ?thesis by (simp only: if_True)
  next
    case False
    with c have "s3 = s2" by (simp only: if_False)
    with False show ?thesis by (simp only: if_False append_Nil2)
  qed
  have s4: "s4 = s3 @ (if enabled (convertToLineArt options) then [''Converted to line art''] else [])"
  proof (cases "enabled (convertToLineArt options)")
    case True
    with l have "s4 = s3 @ [''Converted to line art'']" by (simp only: if_True)
    with True show ?thesis by (simp only: if_True)
  next
    case False
    with l have "s4 = s3" by (simp only: if_False)
    with False show ?thesis by (simp only: if_False append_Nil2)
  qed
  have c': "if enabled (smartCrop options)
      then smartCrop_step env u2 h2 = (Resolved u3, h3) else u3 = u2 \<and> h3 = h2"
  proof (cases "enabled (smartCrop options)")
    case True
    with c show ?thesis by (simp only: if_True)
  next
    case False
    with c show ?thesis by (simp only: if_False)
  qed
  have l': "if enabled (convertToLineArt options)
      then convertToLineArt_step env u3 h3 = (Resolved u4, h4) else u4 = u3 \<and> h4 = h3"
  proof (cases "enabled (convertToLineArt options)")
    case True
    with l show ?thesis by (simp only: if_True)
  next
    case False
    with l show ?thesis by (simp only: if_False)
  qed
  have r1: "success r" and r2: "processedImageUri r = Some u5" and r3: "originalImageUri r = imageUri"
    and r4: "format r = Some ''PNG''" and r5: "model r = Some ''traditional-pipeline''"
    by (simp_all add: r)
  have "processingSteps r = s4 @ [''Tattoo styling applied'']" by (simp add: r)
  also have "\<dots> = ((existingSteps @ [''Using traditional processing pipeline'', ''Image preprocessed''] @
       (if enabled (removeBackground options) then [bg] else [])) @
       (if enabled (smartCrop options) then [''Smart cropped''] else [])) @
       (if enabled (convertToLineArt options) then [''Converted to line art''] else []) @
       [''Tattoo styling applied'']"
    by (simp only: s4 s3 s2 [symmetric] append_assoc)
  also have "\<dots> = existingSteps @ [''Using traditional processing pipeline'', ''Image preprocessed''] @
       (if enabled (removeBackground options) then [bg] else []) @
       (if enabled (smartCrop options) then [''Smart cropped''] else []) @
       (if enabled (convertToLineArt options) then [''Converted to line art''] else []) @
       [''Tattoo styling applied'']"
    by (simp only: append_assoc)
  finally have ps: "processingSteps r = existingSteps @ [''Using traditional processing pipeline'', ''Image preprocessed''] @
       (if enabled (removeBackground options) then [bg] else []) @
       (if enabled (smartCrop options) then [''Smart cropped''] else []) @
       (if enabled (convertToLineArt options) then [''Converted to line art''] else []) @
       [''Tattoo styling applied'']" .
  show ?thesis
    by (intro exI conjI) (rule p1 stage2 c' l' p5 r1 r2 r3 r4 r5 bg ps)+
qed


lemma offline_pipeline_run:
  "fst (traditionalProcessingPipeline offline_device AI_SERVICES_initial ''photo.jpg''
          AI_PROCESSING_DEFAULTS [] [])
   = Resolved \<lparr>success = True, processedImageUri = Some ''photo.jpg.out.out.out.out.out.out'',
        originalImageUri = ''photo.jpg'',
        processingSteps = [''Using traditional processing pipeline'', ''Image preprocessed'',
          ''Background processed locally'', ''Smart cropped'', ''Converted to line art'',
          ''Tattoo styling applied''],
        error = None, format = Some ''PNG'', svgCode = None, model = Some ''traditional-pipeline''\<rparr>"
  by (simp add: traditionalProcessingPipeline_def Let_def await_try_def await_def resolved_def
      preprocessForAI_run background_stage_def crop_stage_def lineart_stage_def
      removeBackgroundAI_run localBackgroundRemoval_run smartCrop_step_run
      convertToLineArt_step_run applyTattooStyling_run enabled_def truthy_def
      AI_PROCESSING_DEFAULTS_def AI_SERVICES_initial_def offline_device_def)

theorem traditionalProcessingPipeline_order_witness:
  "fst (traditionalProcessingPipeline offline_device AI_SERVICES_initial ''photo.jpg''
          AI_PROCESSING_DEFAULTS [] [])
   = Resolved \<lparr>success = True, processedImageUri = Some ''photo.jpg.out.out.out.out.out.out'',
        originalImageUri = ''photo.jpg'',
        processingSteps = [''Using traditional processing pipeline'', ''Image preprocessed'',
          ''Background processed locally'', ''Smart cropped'', ''Converted to line art'',
          ''Tattoo styling applied''],
        error = None, format = Some ''PNG'', svgCode = None, model = Some ''traditional-pipeline''\<rparr> \<and>
   (\<exists>bg. processingSteps \<lparr>success = True, processedImageUri = Some ''photo.jpg.out.out.out.out.out.out'',
        originalImageUri = ''photo.jpg'',
        processingSteps = [''Using traditional processing pipeline'', ''Image preprocessed'',
          ''Background processed locally'', ''Smart cropped'', ''Converted to line art'',
          ''Tattoo styling applied''],
        error = None, format = Some ''PNG'', svgCode = None, model = Some ''traditional-pipeline''\<rparr>
      = [''Using traditional processing pipeline'', ''Image preprocessed'', bg, ''Smart cropped'',
         ''Converted to line art'', ''Tattoo styling applied''])"
proof -
  let ?r = "\<lparr>success = True, processedImageUri = Some ''photo.jpg.out.out.out.out.out.out'',
        originalImageUri = ''photo.jpg'',
        processingSteps = [''Using traditional processing pipeline'', ''Image preprocessed'',
          ''Background processed locally'', ''Smart cropped'', ''Converted to line art'',
          ''Tattoo styling applied''],
        error = None, format = Some ''PNG'', svgCode = None, model = Some ''traditional-pipeline''\<rparr>"
  obtain h' where run: "traditionalProcessingPipeline offline_device AI_SERVICES_initial ''photo.jpg''
          AI_PROCESSING_DEFAULTS [] [] = (Resolved ?r, h')"
    using offline_pipeline_run
    by (cases "traditionalProcessingPipeline offline_device AI_SERVICES_initial ''photo.jpg''
          AI_PROCESSING_DEFAULTS [] []") simp
  have en: "enabled (removeBackground AI_PROCESSING_DEFAULTS)" "enabled (smartCrop AI_PROCESSING_DEFAULTS)"
    "enabled (convertToLineArt AI_PROCESSING_DEFAULTS)"
    by (simp_all add: enabled_def AI_PROCESSING_DEFAULTS_def)
  from traditionalProcessingPipeline_order [OF run] obtain bg where
    "processingSteps ?r =
       [] @ [''Using traditional processing pipeline'', ''Image preprocessed''] @
       (if enabled (removeBackground AI_PROCESSING_DEFAULTS) then [bg] else []) @
       (if enabled (smartCrop AI_PROCESSING_DEFAULTS) then [''Smart cropped''] else []) @
       (if enabled (convertToLineArt AI_PROCESSING_DEFAULTS) then [''Converted to line art''] else []) @
       [''Tattoo styling applied'']"
    by blast
  with en have "processingSteps ?r = [''Using traditional processing pipeline'', ''Image preprocessed'', bg,
      ''Smart cropped'', ''Converted to line art'', ''Tattoo styling applied'']"
    by (simp only: if_True append_Nil append_Cons)
  with offline_pipeline_run show ?thesis by blast
qed

subsection \<open>More rules for asynchronous computations\<close>

lemma never_rejects_await_try_of:
  assumes "never_rejects m" "\<And>x. never_rejects (k x)"
  shows "never_rejects (await_try m c k)"
  using assms
  by (auto simp: never_rejects_def await_try_def split: prod.splits outcome.splits) (metis fst_conv)

lemma resolves_to_await_try_unthrown:
  assumes "never_rejects m" "\<And>x. resolves_to (k x) P"
  shows "resolves_to (await_try m c k) P"
  using assms
  by (auto simp: resolves_to_def never_rejects_def await_try_def split: prod.splits outcome.splits)
     (metis fst_conv)

lemma settles_await_try:
  assumes "settles m" "\<And>e. settles (c e)" "\<And>x. settles (k x)"
  shows "settles (await_try m c k)"
  using assms
  by (auto simp: settles_def await_try_def split: prod.splits outcome.splits) (metis fst_conv)

lemma settles_await:
  assumes "settles m" "\<And>x. settles (k x)"
  shows "settles (await m k)"
  using assms
  by (auto simp: settles_def await_def split: prod.splits outcome.splits) (metis fst_conv)

lemma settles_Date_now_text [simp]: "settles (Date_now_text env)"
  by (simp add: always_resolves_settles)

subsection \<open>The StarVector processor\<close>

lemma settles_createSimpleTattooDesign: "settles (createSimpleTattooDesign env)"
  unfolding createSimpleTattooDesign_def Let_def
  by (auto intro!: settles_await settles_await_try)

lemma settles_createTattooImageFallback: "settles (createTattooImageFallback env svg)"
  unfolding createTattooImageFallback_def
  by (auto intro!: settles_await_try settles_createSimpleTattooDesign)

lemma settles_saveSVGToFile: "settles (saveSVGToFile env svg)"
  unfolding saveSVGToFile_def convertSVGToPNG_def Let_def
  by (auto intro!: settles_await settles_await_try settles_createTattooImageFallback)

lemma always_resolves_generateSVGFromAnalysis: "always_resolves (generateSVGFromAnalysis env u)"
  unfolding generateSVGFromAnalysis_def
  by (auto intro!: always_resolves_await_try)

lemma always_resolves_processWithLocalStarVector:
  "always_resolves (processWithLocalStarVector env u options)"
  unfolding processWithLocalStarVector_def Let_def optimizeSVGForTattoo_def
  by (intro always_resolves_await_try always_resolves_settles always_resolves_generateSVGFromAnalysis
      settles_saveSVGToFile always_resolves_resolved settles_resolved)

lemma processWithLocalStarVector_model:
  "resolves_to (processWithLocalStarVector env u options) (\<lambda>r. \<not> from_model r)"
  unfolding processWithLocalStarVector_def Let_def
  by (intro resolves_to_await_try resolves_to_resolved) (simp_all add: from_model_def)

lemma always_resolves_imageToSVG_catch:
  "always_resolves (imageToSVG_catch env u options steps err)"
  unfolding imageToSVG_catch_def
  by (intro always_resolves_await_try always_resolves_settles
      always_resolves_processWithLocalStarVector always_resolves_resolved)

lemma imageToSVG_catch_model:
  "resolves_to (imageToSVG_catch env u options steps err) (\<lambda>r. \<not> from_model r)"
  unfolding imageToSVG_catch_def
  by (rule resolves_to_await_try_of [OF processWithLocalStarVector_model])
     (auto intro!: resolves_to_resolved simp: from_model_def)


subsection \<open>validateAndCleanSVG\<close>

lemma starts_ci_svg_cases:
  assumes "starts_ci s ''<svg''"
  obtains c0 c1 c2 c3 rest where "s = c0 # c1 # c2 # c3 # rest"
    "canonical c0 = 60" "canonical c1 = 83" "canonical c2 = 86" "canonical c3 = 71"
proof -
  from assms obtain c0 s1 where s0: "s = c0 # s1" by (cases s) auto
  with assms have a0: "canonical c0 = 60" and r1: "starts_ci s1 ''svg''" by (simp_all add: canonical_def)
  from r1 obtain c1 s2 where s1: "s1 = c1 # s2" by (cases s1) auto
  with r1 have a1: "canonical c1 = 83" and r2: "starts_ci s2 ''vg''" by (simp_all add: canonical_def)
  from r2 obtain c2 s3 where s2: "s2 = c2 # s3" by (cases s2) auto
  with r2 have a2: "canonical c2 = 86" and r3: "starts_ci s3 ''g''" by (simp_all add: canonical_def)
  from r3 obtain c3 s4 where s3: "s3 = c3 # s4" by (cases s3) auto
  with r3 have a3: "canonical c3 = 71" by (simp_all add: canonical_def)
  show ?thesis using that [of c0 c1 c2 c3 s4] s0 s1 s2 s3 a0 a1 a2 a3 by simp
qed

lemma canonical_plain:
  assumes "canonical c = n" "n \<noteq> 10" "n \<noteq> 62"
  shows "c \<noteq> CHR 0x0A \<and> c \<noteq> CHR ''>''"
  using assms by (auto simp: canonical_def)

lemma cleanup_keeps_svg_start:
  assumes "starts_ci s ''<svg''"
  obtains c0 c1 c2 c3 r r' where
    "s = c0 # c1 # c2 # c3 # r"
    "close_tag_gaps (remove_empty_lines s) = c0 # c1 # c2 # c3 # r'"
    "starts_ci (c0 # c1 # c2 # c3 # r') ''<svg''"
proof -
  from assms obtain c0 c1 c2 c3 rest where s: "s = c0 # c1 # c2 # c3 # rest"
    and c: "canonical c0 = 60" "canonical c1 = 83" "canonical c2 = 86" "canonical c3 = 71"
    by (rule starts_ci_svg_cases)
  have p0: "c0 \<noteq> CHR 0x0A \<and> c0 \<noteq> CHR ''>''" by (rule canonical_plain [OF c(1)]) simp_all
  have p1: "c1 \<noteq> CHR 0x0A \<and> c1 \<noteq> CHR ''>''" by (rule canonical_plain [OF c(2)]) simp_all
  have p2: "c2 \<noteq> CHR 0x0A \<and> c2 \<noteq> CHR ''>''" by (rule canonical_plain [OF c(3)]) simp_all
  have p3: "c3 \<noteq> CHR 0x0A \<and> c3 \<noteq> CHR ''>''" by (rule canonical_plain [OF c(4)]) simp_all
  have e: "close_tag_gaps (remove_empty_lines s) = c0 # c1 # c2 # c3 # close_tag_gaps (remove_empty_lines rest)"
    using s p0 p1 p2 p3 by simp
  have "starts_ci (c0 # c1 # c2 # c3 # close_tag_gaps (remove_empty_lines rest)) ''<svg''"
    using c by (simp add: canonical_def)
  with s e show ?thesis by (rule that)
qed

lemma starts_ci_take4:
  assumes "starts_ci s ''<svg''"
  shows "starts_ci (take 4 s @ m) ''<svg''"
proof -
  from assms obtain c0 c1 c2 c3 rest where s: "s = c0 # c1 # c2 # c3 # rest"
    and c: "canonical c0 = 60" "canonical c1 = 83" "canonical c2 = 86" "canonical c3 = 71"
    by (rule starts_ci_svg_cases)
  show ?thesis using c by (simp add: s canonical_def)
qed

lemma match_svg_greedy_starts:
  "match_svg_greedy s = Some m \<Longrightarrow> starts_ci m ''<svg''"
proof (induction s)
  case Nil
  then show ?case by simp
next
  case (Cons c cs)
  show ?case
  proof (cases "starts_ci (c # cs) ''<svg''")
    case True
    show ?thesis
    proof (cases "greedy_to_close (drop 4 (c # cs))")
      case None
      with True have "match_svg_greedy (c # cs) = match_svg_greedy cs"
        by (simp del: starts_ci.simps)
      with Cons show ?thesis by simp
    next
      case (Some m')
      with True have "match_svg_greedy (c # cs) = Some (take 4 (c # cs) @ m')"
        by (simp del: starts_ci.simps)
      with Cons.prems have "m = take 4 (c # cs) @ m'" by simp
      with starts_ci_take4 [OF True, of m'] show ?thesis by simp
    qed
  next
    case False
    then have "match_svg_greedy (c # cs) = match_svg_greedy cs"
      by (simp del: starts_ci.simps)
    with Cons show ?thesis by simp
  qed
qed

lemma startsWith_starts_ci: "startsWith s p \<Longrightarrow> starts_ci s p"
proof -
  assume "startsWith s p"
  then have "s = p @ drop (length p) s" 
    by (metis append_take_drop_id startsWith_def)
  moreover have "starts_ci (p @ r) p" for r by (induction p) simp_all
  ultimately show ?thesis by metis
qed


lemma validateAndCleanSVG_result:
  "(case validateAndCleanSVG code of
      Inr cleaned \<Rightarrow> starts_ci cleaned ''<svg'' \<and>
                     (startsWith (trim code) ''<svg'' \<longrightarrow> startsWith cleaned ''<svg'')
    | Inl e \<Rightarrow> e = Error ''Invalid SVG code generated'') \<and>
   (isl (validateAndCleanSVG code) \<longleftrightarrow>
      \<not> startsWith (trim code) ''<svg'' \<and> match_svg_greedy (trim code) = None)"
proof (cases "startsWith (trim code) ''<svg''")
  case True
  then have ci: "starts_ci (trim code) ''<svg''" by (rule startsWith_starts_ci)
  have v: "validateAndCleanSVG code = Inr (close_tag_gaps (remove_empty_lines (trim code)))"
    using True by (simp add: validateAndCleanSVG_def)
  from ci obtain c0 c1 c2 c3 r r' where
    t: "trim code = c0 # c1 # c2 # c3 # r" and
    e: "close_tag_gaps (remove_empty_lines (trim code)) = c0 # c1 # c2 # c3 # r'" and
    k: "starts_ci (c0 # c1 # c2 # c3 # r') ''<svg''"
    by (rule cleanup_keeps_svg_start)
  from True t have "startsWith (c0 # c1 # c2 # c3 # r') ''<svg''"
    by (simp add: startsWith_def)
  with True k show ?thesis by (simp add: v e)
next
  case False
  show ?thesis
  proof (cases "match_svg_greedy (trim code)")
    case None
    with False show ?thesis by (simp add: validateAndCleanSVG_def)
  next
    case (Some m)
    then have ci: "starts_ci m ''<svg''" by (rule match_svg_greedy_starts)
    have v: "validateAndCleanSVG code = Inr (close_tag_gaps (remove_empty_lines m))"
      using False Some by (simp add: validateAndCleanSVG_def)
    from ci obtain c0 c1 c2 c3 r r' where
      e: "close_tag_gaps (remove_empty_lines m) = c0 # c1 # c2 # c3 # r'" and
      k: "starts_ci (c0 # c1 # c2 # c3 # r') ''<svg''"
      by (rule cleanup_keeps_svg_start)
    with False Some show ?thesis by (simp add: v)
  qed
qed

lemma validateAndCleanSVG_starts_ci:
  assumes "validateAndCleanSVG code = Inr cleaned"
  shows "starts_ci cleaned ''<svg''"
  using validateAndCleanSVG_result [of code] assms by simp

subsection \<open>imageToSVG\<close>

lemma always_resolves_prepareImageForStarVector: "always_resolves (prepareImageForStarVector env u)"
  by (simp add: prepareImageForStarVector_def always_resolves_guarded)

lemma always_resolves_checkLocalStarVector: "always_resolves (checkLocalStarVector env)"
  unfolding checkLocalStarVector_def
  by (intro always_resolves_await_try settles_fetch always_resolves_resolved)

lemma always_resolves_callLocalStarVector:
  "always_resolves (callLocalStarVector env b m options)"
  unfolding callLocalStarVector_def
  by (rule always_resolves_await_try) (auto split: sum.splits)

lemma always_resolves_tryTextGenerationAPI:
  "always_resolves (tryTextGenerationAPI env b m options)"
  unfolding tryTextGenerationAPI_def
  by (rule always_resolves_await_try) (auto split: sum.splits option.splits)

lemma always_resolves_callStarVectorAPI:
  "always_resolves (callStarVectorAPI env b m options)"
  unfolding callStarVectorAPI_def
  by (rule always_resolves_await_try)
     (auto simp: Let_def split: sum.splits option.splits
        intro!: always_resolves_await_try
          always_resolves_settles [OF always_resolves_tryTextGenerationAPI])

lemma imageToSVG_catch_svg:
  "resolves_to (imageToSVG_catch env u options steps err) api_svg_ok"
  using imageToSVG_catch_model [of env u options steps err]
  by (simp add: resolves_to_def api_svg_ok_def)

lemmas settles_calls =
  always_resolves_settles [OF always_resolves_prepareImageForStarVector]
  always_resolves_settles [OF always_resolves_checkLocalStarVector]
  always_resolves_settles [OF always_resolves_callLocalStarVector]
  always_resolves_settles [OF always_resolves_callStarVectorAPI]
  always_resolves_settles [OF always_resolves_processWithLocalStarVector]
  settles_saveSVGToFile settles_readAsStringAsync

lemma always_resolves_imageToSVG_finish:
  "always_resolves (imageToSVG_finish env u options steps generated label)"
  unfolding imageToSVG_finish_def Let_def
  by (auto split: sum.splits
      intro!: always_resolves_await_try settles_calls always_resolves_imageToSVG_catch)

lemma imageToSVG_finish_svg:
  "resolves_to (imageToSVG_finish env u options steps generated label) api_svg_ok"
proof (cases "validateAndCleanSVG generated")
  case (Inl e)
  then show ?thesis by (simp add: imageToSVG_finish_def imageToSVG_catch_svg)
next
  case (Inr cleaned)
  then have ci: "starts_ci cleaned ''<svg''" by (rule validateAndCleanSVG_starts_ci)
  have leaf: "api_svg_ok \<lparr>StarVectorResult.success = True, StarVectorResult.svgCode = Some cleaned, svgUri = Some savedUri,
                 StarVectorResult.originalImageUri = u, StarVectorResult.processingSteps = st,
                 StarVectorResult.error = None,
                 StarVectorResult.model = Some label\<rparr>" for savedUri st
    using ci by (simp add: api_svg_ok_def svg_code_ok_def)
  have "resolves_to
     (await_try (saveSVGToFile env cleaned)
        (imageToSVG_catch env u options (steps @ [''SVG code validated and cleaned'']))
        (\<lambda>savedUri.
            resolved \<lparr>StarVectorResult.success = True, StarVectorResult.svgCode = Some cleaned, svgUri = Some savedUri,
                 StarVectorResult.originalImageUri = u,
                 StarVectorResult.processingSteps =
                   (steps @ [''SVG code validated and cleaned'']) @ [''SVG file saved''],
                 StarVectorResult.error = None, StarVectorResult.model = Some label\<rparr>)) api_svg_ok"
    by (intro resolves_to_await_try resolves_to_resolved imageToSVG_catch_svg leaf)
  with Inr show ?thesis by (simp add: imageToSVG_finish_def Let_def)
qed

lemma always_resolves_imageToSVG_step6:
  "always_resolves (imageToSVG_step6 env u options steps)"
  unfolding imageToSVG_step6_def Let_def
  by (intro always_resolves_await_try settles_calls always_resolves_imageToSVG_catch
      always_resolves_resolved)

lemma api_svg_ok_update:
  "\<not> from_model r \<Longrightarrow> api_svg_ok (r\<lparr>StarVectorResult.processingSteps := st\<rparr>)"
  by (auto simp: api_svg_ok_def from_model_def)

lemma imageToSVG_step6_svg:
  "resolves_to (imageToSVG_step6 env u options steps) api_svg_ok"
  unfolding imageToSVG_step6_def Let_def
  by (rule resolves_to_await_try_of [OF processWithLocalStarVector_model])
     (auto intro!: resolves_to_resolved imageToSVG_catch_svg api_svg_ok_update)

lemma always_resolves_imageToSVG_step5:
  "always_resolves (imageToSVG_step5 env sv u options b m steps)"
  unfolding imageToSVG_step5_def
  by (auto intro!: always_resolves_await_try settles_calls
      always_resolves_imageToSVG_catch always_resolves_imageToSVG_finish
      always_resolves_imageToSVG_step6)

lemma imageToSVG_step5_svg:
  "resolves_to (imageToSVG_step5 env sv u options b m steps) api_svg_ok"
  unfolding imageToSVG_step5_def
  by (auto intro!: resolves_to_await_try imageToSVG_catch_svg imageToSVG_finish_svg imageToSVG_step6_svg)

lemma always_resolves_imageToSVG: "always_resolves (imageToSVG env sv u options)"
  unfolding imageToSVG_def Let_def
  by (auto intro!: always_resolves_await_try settles_calls always_resolves_imageToSVG_catch
      always_resolves_imageToSVG_finish always_resolves_imageToSVG_step5)

lemma imageToSVG_svg:
  "resolves_to (imageToSVG env sv u options) api_svg_ok"
  unfolding imageToSVG_def Let_def
  by (auto intro!: resolves_to_await_try imageToSVG_catch_svg imageToSVG_finish_svg imageToSVG_step5_svg)


subsection \<open>A run of imageToSVG\<close>

lemma fst_await_try_Resolved:
  "fst (m h) = Resolved x \<Longrightarrow> fst (await_try m c k h) = fst (k x (snd (m h)))"
  by (cases "m h") (simp add: await_try_def)

lemma fst_await_Resolved:
  "fst (m h) = Resolved x \<Longrightarrow> fst (await m k h) = fst (k x (snd (m h)))"
  by (cases "m h") (simp add: await_def)

lemma hf_manipulateAsync:
  "fst (manipulateAsync hf_device u acts opts h) = Resolved (ImageResult (u @ ''.out'') 1024 768)"
  by (simp add: manipulateAsync_def external_def hf_device_def offline_device_def)

lemma hf_writeAsStringAsync: "fst (writeAsStringAsync hf_device p c e h) = Resolved ()"
  by (simp add: writeAsStringAsync_def external_def hf_device_def offline_device_def)

lemma hf_deleteAsync: "fst (deleteAsync hf_device p h) = Resolved ()"
  by (simp add: deleteAsync_def external_def hf_device_def offline_device_def)

lemma hf_Date_now_text: "fst (Date_now_text hf_device h) = Resolved ''1700000000000''"
  by (simp add: Date_now_text_def hf_device_def offline_device_def)

lemma hf_documentDirectory: "documentDirectory hf_device = ''file:///documents/''"
  by (simp add: hf_device_def offline_device_def)

lemma hf_modules: "ImageManipulator hf_device" "FileSystem hf_device"
  by (simp_all add: hf_device_def offline_device_def)

lemma hf_prepareImageForStarVector:
  "fst (prepareImageForStarVector hf_device u h) = Resolved (u @ ''.out'')"
  by (simp add: prepareImageForStarVector_def hf_modules fst_await_try_Resolved [OF hf_manipulateAsync]
      resolved_def)

lemma hf_readAsStringAsync: "fst (readAsStringAsync hf_device p e h) = Resolved jpeg_base64"
  by (simp add: readAsStringAsync_def external_def hf_device_def offline_device_def)

lemma validateBase64Image_jpeg: "validateBase64Image jpeg_base64"
  by (simp add: validateBase64Image_def jpeg_base64_def startsWith_def)

lemma extract_capital_svg:
  "extractSVGFromResponse ''Here it is: <SVG><path/></SVG>'' = Some ''<SVG><path/></SVG>''"
  by (simp add: extractSVGFromResponse_def canonical_def)

lemma hf_callStarVectorAPI:
  "fst (callStarVectorAPI hf_device b m options h) = Resolved (Some ''<SVG><path/></SVG>'')"
proof -
  have f: "fst (fetch hf_device req h') =
     Resolved (Response True 200 (Inr (Payload None (Some ''Here it is: <SVG><path/></SVG>'') None))
                 (Inl (Error ''body used already'')) (Inl (Error ''body used already'')))" for req h'
    by (simp add: fetch_def external_def hf_device_def offline_device_def)
  show ?thesis
    unfolding callStarVectorAPI_def
    by (simp add: fst_await_try_Resolved [OF f] Let_def truthy_def extract_capital_svg resolved_def)
qed

lemma validate_capital_svg: "validateAndCleanSVG ''<SVG><path/></SVG>'' = Inr ''<SVG><path/></SVG>''"
  by (simp add: validateAndCleanSVG_def trim_def is_space_def startsWith_def canonical_def tag_gap_def)

lemma hf_createSimpleTattooDesign:
  "fst (createSimpleTattooDesign hf_device h)
   = Resolved ''file:///documents/tattoo_design_1700000000000.png.out''"
  unfolding createSimpleTattooDesign_def Let_def
  by (simp add: hf_modules hf_documentDirectory
      fst_await_Resolved [OF hf_Date_now_text]
      fst_await_try_Resolved [OF hf_writeAsStringAsync]
      fst_await_try_Resolved [OF hf_manipulateAsync]
      fst_await_try_Resolved [OF hf_deleteAsync] resolved_def)

lemma hf_createTattooImageFallback:
  "fst (createTattooImageFallback hf_device svg h)
   = Resolved ''file:///documents/tattoo_design_1700000000000.png.out''"
  unfolding createTattooImageFallback_def
  by (simp add: hf_modules fst_await_try_Resolved [OF hf_createSimpleTattooDesign] resolved_def)

lemma hf_saveSVGToFile:
  "fst (saveSVGToFile hf_device svg h)
   = Resolved ''file:///documents/tattoo_design_1700000000000.png.out''"
  unfolding saveSVGToFile_def convertSVGToPNG_def Let_def
  by (simp add: hf_modules
      fst_await_Resolved [OF hf_Date_now_text]
      fst_await_Resolved [OF hf_writeAsStringAsync]
      fst_await_try_Resolved [OF hf_createTattooImageFallback] resolved_def)

lemma hf_imageToSVG_finish:
  "fst (imageToSVG_finish hf_device ''photo.jpg'' options steps ''<SVG><path/></SVG>'' label h)
   = Resolved \<lparr>StarVectorResult.success = True, StarVectorResult.svgCode = Some ''<SVG><path/></SVG>'',
      svgUri = Some ''file:///documents/tattoo_design_1700000000000.png.out'',
      StarVectorResult.originalImageUri = ''photo.jpg'',
      StarVectorResult.processingSteps = (steps @ [''SVG code validated and cleaned'']) @ [''SVG file saved''],
      StarVectorResult.error = None, StarVectorResult.model = Some label\<rparr>"
  unfolding imageToSVG_finish_def Let_def
  by (simp add: validate_capital_svg fst_await_try_Resolved [OF hf_saveSVGToFile] resolved_def)

lemma hf_imageToSVG:
  "fst (imageToSVG hf_device hf_ready ''photo.jpg'' no_options h) = Resolved capital_svg_result"
proof -
  have m: "StarVectorOptions.model no_options \<noteq> Some ''8b''"
    "\<not> enabled (StarVectorOptions.useCPUMode no_options)"
    by (simp_all add: no_options_def enabled_def)
  have r: "isInitialized hf_ready" "hf hf_ready \<noteq> None" "\<not> cpuModeEnabled hf_ready"
    by (simp_all add: hf_ready_def)
  have s5: "fst (imageToSVG_step5 hf_device hf_ready ''photo.jpg'' no_options b
                  ''starvector/starvector-1b-im2svg''
                  [''Image prepared for StarVector processing'',
                   ''Using starvector/starvector-1b-im2svg model''] h')
            = Resolved capital_svg_result" for b h'
    unfolding imageToSVG_step5_def
    by (simp add: r fst_await_try_Resolved [OF hf_callStarVectorAPI] truthy_def hf_imageToSVG_finish
        capital_svg_result_def)
  show ?thesis
    unfolding imageToSVG_def Let_def
    by (simp add: fst_await_try_Resolved [OF hf_prepareImageForStarVector]
        fst_await_try_Resolved [OF hf_readAsStringAsync] validateBase64Image_jpeg m r s5)
qed


text \<open>
  Claim C10, as stated, fails: the pattern that finds the markup ignores the case
  of letters, so markup in capital letters is returned as it is, by
  \<^verbatim>\<open>validateAndCleanSVG\<close> and, through the HuggingFace branch, by
  \<^verbatim>\<open>imageToSVG\<close>, and it does not start with \<^verbatim>\<open><svg\<close>.
\<close>

theorem validateAndCleanSVG_capital_counterexample:
  "validateAndCleanSVG ''<SVG></SVG>'' = Inr ''<SVG></SVG>'' \<and>
   \<not> startsWith ''<SVG></SVG>'' ''<svg'' \<and>
   fst (imageToSVG hf_device hf_ready ''photo.jpg'' no_options []) = Resolved capital_svg_result \<and>
   StarVectorResult.success capital_svg_result \<and>
   StarVectorResult.model capital_svg_result = Some ''starvector/starvector-1b-im2svg'' \<and>
   StarVectorResult.svgCode capital_svg_result = Some ''<SVG><path/></SVG>'' \<and>
   \<not> startsWith ''<SVG><path/></SVG>'' ''<svg''"
proof -
  have "validateAndCleanSVG ''<SVG></SVG>'' = Inr ''<SVG></SVG>''"
    by (simp add: validateAndCleanSVG_def trim_def is_space_def startsWith_def canonical_def tag_gap_def)
  moreover have "\<not> startsWith ''<SVG></SVG>'' ''<svg''" "\<not> startsWith ''<SVG><path/></SVG>'' ''<svg''"
    by (simp_all add: startsWith_def)
  moreover have "StarVectorResult.success capital_svg_result"
    "StarVectorResult.model capital_svg_result = Some ''starvector/starvector-1b-im2svg''"
    "StarVectorResult.svgCode capital_svg_result = Some ''<SVG><path/></SVG>''"
    by (simp_all add: capital_svg_result_def)
  ultimately show ?thesis using hf_imageToSVG [of "[]"] by blast
qed

text \<open>
  Claim C10, amended. Whatever the input, what \<^verbatim>\<open>validateAndCleanSVG\<close> returns
  starts with \<^verbatim>\<open><svg\<close> when letters are compared without case, and with
  \<^verbatim>\<open><svg\<close> itself when the trimmed input does; it throws exactly when the trimmed
  input neither starts with \<^verbatim>\<open><svg\<close> nor has a match of
  \<^verbatim>\<open>/<svg[\s\S]*<\/svg>/i\<close>, and then the error is
  \<^verbatim>\<open>Invalid SVG code generated\<close>; and the SVG code of every successful result of
  \<^verbatim>\<open>imageToSVG\<close> that a StarVector model produced starts with \<^verbatim>\<open><svg\<close> when
  letters are compared without case.
\<close>

theorem validateAndCleanSVG_svg_tag:
  "(case validateAndCleanSVG code of
      Inr cleaned \<Rightarrow> starts_ci cleaned ''<svg'' \<and>
                     (startsWith (trim code) ''<svg'' \<longrightarrow> startsWith cleaned ''<svg'')
    | Inl e \<Rightarrow> e = Error ''Invalid SVG code generated'') \<and>
   (isl (validateAndCleanSVG code) \<longleftrightarrow>
      \<not> startsWith (trim code) ''<svg'' \<and> match_svg_greedy (trim code) = None) \<and>
   (fst (imageToSVG env sv imageUri options h) = Resolved r \<and> from_model r \<longrightarrow> svg_code_ok r)"
proof -
  have "fst (imageToSVG env sv imageUri options h) = Resolved r \<and> from_model r \<longrightarrow> svg_code_ok r"
    using resolves_toD [OF imageToSVG_svg, of env sv imageUri options h r]
    by (auto simp: api_svg_ok_def)
  with validateAndCleanSVG_result [of code] show ?thesis by blast
qed

theorem validateAndCleanSVG_svg_tag_witness:
  "validateAndCleanSVG '' <svg> <g/> </svg> '' = Inr ''<svg><g/></svg>'' \<and>
   startsWith (trim '' <svg> <g/> </svg> '') ''<svg'' \<and>
   startsWith ''<svg><g/></svg>'' ''<svg'' \<and>
   validateAndCleanSVG ''no markup'' = Inl (Error ''Invalid SVG code generated'') \<and>
   \<not> startsWith (trim ''no markup'') ''<svg'' \<and> match_svg_greedy (trim ''no markup'') = None \<and>
   fst (imageToSVG hf_device hf_ready ''photo.jpg'' no_options []) = Resolved capital_svg_result \<and>
   from_model capital_svg_result \<and> svg_code_ok capital_svg_result"
proof -
  have v: "validateAndCleanSVG '' <svg> <g/> </svg> '' = Inr ''<svg><g/></svg>''"
    by (simp add: validateAndCleanSVG_def trim_def is_space_def startsWith_def canonical_def tag_gap_def)
  have t: "startsWith (trim '' <svg> <g/> </svg> '') ''<svg''"
    by (simp add: trim_def is_space_def startsWith_def)
  have n: "validateAndCleanSVG ''no markup'' = Inl (Error ''Invalid SVG code generated'')"
    by (simp add: validateAndCleanSVG_def trim_def is_space_def startsWith_def canonical_def)
  have fm: "from_model capital_svg_result"
    by (simp add: from_model_def capital_svg_result_def)
  note w1 = validateAndCleanSVG_svg_tag [of "'' <svg> <g/> </svg> ''" hf_device hf_ready "''photo.jpg''"
      no_options "[]" capital_svg_result]
  note w2 = validateAndCleanSVG_svg_tag [of "''no markup''" hf_device hf_ready "''photo.jpg''"
      no_options "[]" capital_svg_result]
  from w1 v t have s: "startsWith ''<svg><g/></svg>'' ''<svg''" by simp
  from w1 fm hf_imageToSVG [of "[]"] have ok: "svg_code_ok capital_svg_result" by blast
  from w2 n have m: "\<not> startsWith (trim ''no markup'') ''<svg'' \<and> match_svg_greedy (trim ''no markup'') = None"
    by simp
  from v t s n m hf_imageToSVG [of "[]"] fm ok show ?thesis by blast
qed

subsection \<open>processImageToTattooDesign\<close>

lemma never_rejects_processImage_catch: "never_rejects (processImage_catch env u steps err)"
  unfolding processImage_catch_def
  by (intro never_rejects_await_try never_rejects_resolved)

lemma never_rejects_traditional_tier: "never_rejects (traditional_tier env svc u options steps)"
  unfolding traditional_tier_def
  by (intro never_rejects_await_try never_rejects_resolved never_rejects_processImage_catch)

lemma never_rejects_local_tier: "never_rejects (local_tier env svc u options steps)"
  unfolding local_tier_def
  by (auto intro!: never_rejects_await_try never_rejects_processImage_catch
      never_rejects_traditional_tier)

lemma never_rejects_processImageToTattooDesign:
  "never_rejects (processImageToTattooDesign env svc sv u options)"
  unfolding processImageToTattooDesign_def Let_def
  by (auto intro!: never_rejects_await_try never_rejects_processImage_catch never_rejects_local_tier)

lemma never_rejects_traditionalProcessingPipeline:
  "never_rejects (traditionalProcessingPipeline env svc u options steps)"
  unfolding traditionalProcessingPipeline_def Let_def
  by (intro never_rejects_await_try_of never_rejects_resolved never_rejects_background_stage
      never_rejects_crop_stage never_rejects_lineart_stage
      always_resolves_never_rejects [OF always_resolves_preprocessForAI]
      always_resolves_never_rejects [OF always_resolves_applyTattooStyling])

lemma traditionalProcessingPipeline_graphic:
  "resolves_to (traditionalProcessingPipeline env svc u options steps) has_graphic"
  unfolding traditionalProcessingPipeline_def Let_def
  by (intro resolves_to_await_try resolves_to_thrown resolves_to_resolved)
     (simp add: has_graphic_def)

lemma resolves_to_await_try_unthrown_of:
  assumes "never_rejects m" "resolves_to m Q" "\<And>x. Q x \<Longrightarrow> resolves_to (k x) P"
  shows "resolves_to (await_try m c k) P"
  using assms
  by (auto simp: resolves_to_def never_rejects_def await_try_def split: prod.splits outcome.splits)
     (metis fst_conv)+

lemma traditional_tier_graphic:
  "resolves_to (traditional_tier env svc u options steps) has_graphic"
  unfolding traditional_tier_def
  by (rule resolves_to_await_try_unthrown_of
        [OF never_rejects_traditionalProcessingPipeline traditionalProcessingPipeline_graphic])
     (rule resolves_to_resolved)

lemma processWithLocalStarVector_file:
  "resolves_to (processWithLocalStarVector env u options) has_file"
  unfolding processWithLocalStarVector_def Let_def
  by (intro resolves_to_await_try resolves_to_resolved) (simp_all add: has_file_def)

lemma has_file_update: "has_file r \<Longrightarrow> has_file (r\<lparr>StarVectorResult.processingSteps := st\<rparr>)"
  by (simp add: has_file_def)

lemma imageToSVG_catch_file:
  "resolves_to (imageToSVG_catch env u options steps err) has_file"
  unfolding imageToSVG_catch_def
  by (rule resolves_to_await_try_of [OF processWithLocalStarVector_file])
     (auto intro!: resolves_to_resolved has_file_update simp: has_file_def)

lemma imageToSVG_finish_file:
  "resolves_to (imageToSVG_finish env u options steps generated label) has_file"
  unfolding imageToSVG_finish_def Let_def
  by (auto split: sum.splits
      intro!: resolves_to_await_try resolves_to_resolved imageToSVG_catch_file simp: has_file_def)

lemma imageToSVG_step6_file:
  "resolves_to (imageToSVG_step6 env u options steps) has_file"
  unfolding imageToSVG_step6_def Let_def
  by (rule resolves_to_await_try_of [OF processWithLocalStarVector_file])
     (auto intro!: resolves_to_resolved imageToSVG_catch_file has_file_update)

lemma imageToSVG_step5_file:
  "resolves_to (imageToSVG_step5 env sv u options b m steps) has_file"
  unfolding imageToSVG_step5_def
  by (auto intro!: resolves_to_await_try imageToSVG_catch_file imageToSVG_finish_file imageToSVG_step6_file)

lemma imageToSVG_file:
  "resolves_to (imageToSVG env sv u options) has_file"
  unfolding imageToSVG_def Let_def
  by (auto intro!: resolves_to_await_try imageToSVG_catch_file imageToSVG_finish_file imageToSVG_step5_file)

lemma local_tier_graphic:
  "resolves_to (local_tier env svc u options steps) has_graphic"
proof (cases "enabled (fallbackToLocal options)")
  case False
  then show ?thesis by (simp add: local_tier_def traditional_tier_graphic)
next
  case True
  have "resolves_to
     (await_try (processWithLocalStarVector env u no_options) (processImage_catch env u steps)
        (\<lambda>localStarVectorResult.
            if StarVectorResult.success localStarVectorResult then
              resolved \<lparr>success = True, processedImageUri = svgUri localStarVectorResult,
                        originalImageUri = u,
                        processingSteps = steps @ StarVectorResult.processingSteps localStarVectorResult,
                        error = None, format = Some ''SVG'',
                        svgCode = StarVectorResult.svgCode localStarVectorResult,
                        model = StarVectorResult.model localStarVectorResult\<rparr>
            else traditional_tier env svc u options (steps @ [''Local StarVector processing failed''])))
     has_graphic"
    by (rule resolves_to_await_try_unthrown_of
          [OF always_resolves_never_rejects [OF always_resolves_processWithLocalStarVector]
              processWithLocalStarVector_file])
       (auto intro!: resolves_to_resolved traditional_tier_graphic simp: has_file_def has_graphic_def)
  with True show ?thesis by (simp add: local_tier_def)
qed

lemma processImageToTattooDesign_graphic:
  "resolves_to (processImageToTattooDesign env svc sv u options) has_graphic"
proof (cases "enabled (useStarVector (spread AI_PROCESSING_DEFAULTS options)) \<and> isAvailable env sv")
  case False
  then show ?thesis by (auto simp: processImageToTattooDesign_def Let_def local_tier_graphic)
next
  case True
  have "resolves_to
     (await_try (imageToSVG env sv u so) (processImage_catch env u [])
        (\<lambda>starVectorResult.
            if StarVectorResult.success starVectorResult then
              let usingAPI =
                    list_ex (\<lambda>step. str_includes step ''StarVector API'' \<and> \<not> str_includes step ''not available'')
                      (StarVectorResult.processingSteps starVectorResult)
              in
              resolved \<lparr>success = True, processedImageUri = svgUri starVectorResult,
                        originalImageUri = u,
                        processingSteps = StarVectorResult.processingSteps starVectorResult,
                        error = None, format = Some ''SVG'',
                        svgCode = StarVectorResult.svgCode starVectorResult,
                        model = (if usingAPI then StarVectorResult.model starVectorResult
                                 else Some ''Enhanced StarVector-inspired (Local)'')\<rparr>
            else local_tier env svc u (spread AI_PROCESSING_DEFAULTS options)
                   [''StarVector processing not available'']))
     has_graphic" for so
    by (rule resolves_to_await_try_unthrown_of
          [OF always_resolves_never_rejects [OF always_resolves_imageToSVG] imageToSVG_file])
       (auto intro!: resolves_to_resolved local_tier_graphic simp: has_file_def has_graphic_def Let_def)
  with True show ?thesis by (simp add: processImageToTattooDesign_def Let_def)
qed

text \<open>
  Where the StarVector branch is not taken, the call is step 2 onwards, with no
  step pushed.
\<close>

lemma processImageToTattooDesign_skips:
  assumes "\<not> (enabled (useStarVector (spread AI_PROCESSING_DEFAULTS options)) \<and> isAvailable env sv)"
  shows "processImageToTattooDesign env svc sv u options
         = local_tier env svc u (spread AI_PROCESSING_DEFAULTS options) []"
  using assms by (auto simp: processImageToTattooDesign_def Let_def)

text \<open>Without a key for background removal nothing stays pending.\<close>

lemma always_resolves_removeBackgroundAI_no_keys:
  assumes "\<not> truthy (REMOVE_BG_apiKey svc)" "\<not> truthy (CLIPDROP_apiKey svc)"
  shows "always_resolves (removeBackgroundAI env svc u)"
  using assms by (simp add: always_resolves_def removeBackgroundAI_run)

lemma always_resolves_background_stage:
  assumes "always_resolves (removeBackgroundAI env svc (fst cur))"
  shows "always_resolves (background_stage env svc options cur)"
  unfolding background_stage_def
  using assms
  by (auto intro!: always_resolves_await always_resolves_localBackgroundRemoval)

lemma always_resolves_await_try_of:
  assumes "always_resolves m" "\<And>x. always_resolves (k x)"
  shows "always_resolves (await_try m c k)"
  unfolding always_resolves_def
proof
  fix h
  from assms(1) obtain x where "fst (m h) = Resolved x" by (auto simp: always_resolves_def)
  then obtain h' where "m h = (Resolved x, h')" by (cases "m h") simp
  with assms(2) [of x] show "\<exists>x. fst (await_try m c k h) = Resolved x"
    by (simp add: await_try_def always_resolves_def)
qed

lemma always_resolves_crop_stage: "always_resolves (crop_stage env options cur)"
  unfolding crop_stage_def
  by (auto intro!: always_resolves_await always_resolves_smartCrop_step)

lemma always_resolves_lineart_stage: "always_resolves (lineart_stage env options cur)"
  unfolding lineart_stage_def
  by (auto intro!: always_resolves_await always_resolves_convertToLineArt_step)

lemma always_resolves_traditionalProcessingPipeline:
  assumes "\<And>x. always_resolves (removeBackgroundAI env svc x)"
  shows "always_resolves (traditionalProcessingPipeline env svc u options steps)"
  unfolding traditionalProcessingPipeline_def Let_def
  by (intro always_resolves_await_try_of always_resolves_resolved
      always_resolves_preprocessForAI always_resolves_background_stage assms
      always_resolves_crop_stage always_resolves_lineart_stage
      always_resolves_applyTattooStyling)

lemma always_resolves_processImage_catch:
  "always_resolves (processImage_catch env u steps err)"
  unfolding processImage_catch_def ultimateFallbackProcessing_def Let_def
  by (auto intro!: always_resolves_await_try settles_await_try)

lemma always_resolves_traditional_tier:
  assumes "\<And>x. always_resolves (removeBackgroundAI env svc x)"
  shows "always_resolves (traditional_tier env svc u options steps)"
  unfolding traditional_tier_def
  by (intro always_resolves_await_try always_resolves_settles always_resolves_resolved
      always_resolves_traditionalProcessingPipeline assms always_resolves_processImage_catch)

lemma always_resolves_local_tier:
  assumes "\<And>x. always_resolves (removeBackgroundAI env svc x)"
  shows "always_resolves (local_tier env svc u options steps)"
  unfolding local_tier_def
  by (auto intro!: always_resolves_await_try always_resolves_processImage_catch
      always_resolves_settles [OF always_resolves_processWithLocalStarVector]
      always_resolves_traditional_tier assms)

lemma always_resolves_processImageToTattooDesign:
  assumes "\<And>x. always_resolves (removeBackgroundAI env svc x)"
  shows "always_resolves (processImageToTattooDesign env svc sv u options)"
  unfolding processImageToTattooDesign_def Let_def
  by (auto intro!: always_resolves_await_try always_resolves_processImage_catch
      always_resolves_settles [OF always_resolves_imageToSVG]
      always_resolves_local_tier assms)

lemma processImageToTattooDesign_without_keys:
  assumes "\<not> truthy (REMOVE_BG_apiKey svc)" "\<not> truthy (CLIPDROP_apiKey svc)"
  shows "\<exists>r. fst (processImageToTattooDesign env svc sv u options h) = Resolved r \<and> has_graphic r"
proof -
  have "always_resolves (processImageToTattooDesign env svc sv u options)"
    by (rule always_resolves_processImageToTattooDesign)
       (rule always_resolves_removeBackgroundAI_no_keys [OF assms])
  then obtain r where r: "fst (processImageToTattooDesign env svc sv u options h) = Resolved r"
    by (auto simp: always_resolves_def)
  with resolves_toD [OF processImageToTattooDesign_graphic r] show ?thesis by blast
qed


subsection \<open>A run that never settles\<close>

lemma fst_await_try_Rejected:
  "fst (m h) = Rejected e \<Longrightarrow> fst (await_try m c k h) = fst (c e (snd (m h)))"
  by (cases "m h") (simp add: await_try_def)

lemma fst_await_try_Pending:
  "fst (m h) = Pending \<Longrightarrow> fst (await_try m c k h) = Pending"
  by (cases "m h") (simp add: await_try_def)

lemma fst_await_Rejected:
  "fst (m h) = Rejected e \<Longrightarrow> fst (await m k h) = Rejected e"
  by (cases "m h") (simp add: await_def)

lemma fst_await_Pending:
  "fst (m h) = Pending \<Longrightarrow> fst (await m k h) = Pending"
  by (cases "m h") (simp add: await_def)

lemma full_disk_modules: "ImageManipulator full_disk_device" "FileSystem full_disk_device"
  by (simp_all add: full_disk_device_def offline_device_def)

lemma full_disk_manipulateAsync:
  "fst (manipulateAsync full_disk_device u acts opts h) = Resolved (ImageResult (u @ ''.out'') 1024 768)"
  by (simp add: manipulateAsync_def external_def full_disk_device_def offline_device_def)

lemma full_disk_writeAsStringAsync:
  "fst (writeAsStringAsync full_disk_device p c e h) = Rejected (Error ''No space left on device'')"
  by (simp add: writeAsStringAsync_def external_def full_disk_device_def offline_device_def)

lemma full_disk_Date_now_text: "fst (Date_now_text full_disk_device h) = Resolved ''1700000000000''"
  by (simp add: Date_now_text_def full_disk_device_def offline_device_def)

lemma full_disk_readAsStringAsync: "fst (readAsStringAsync full_disk_device p e h) = Resolved jpeg_base64"
  by (simp add: readAsStringAsync_def external_def full_disk_device_def offline_device_def)

lemma full_disk_fetch:
  "fst (fetch full_disk_device req h)
   = Resolved (Response True 200 (Inl (Error ''Unexpected token in JSON''))
                 (Inl (Error ''body used already'')) (Inr (Blob ''PNG'')))"
  by (simp add: fetch_def external_def full_disk_device_def offline_device_def)

lemma full_disk_readAsDataURL:
  "fst (readAsDataURL full_disk_device b h) = Resolved (Some ''data:image/png;base64,iVBORw0KGgo='')"
  by (simp add: readAsDataURL_def full_disk_device_def offline_device_def)

lemma full_disk_saveSVGToFile:
  "fst (saveSVGToFile full_disk_device svg h) = Rejected (Error ''No space left on device'')"
  unfolding saveSVGToFile_def Let_def
  by (simp add: full_disk_modules fst_await_Resolved [OF full_disk_Date_now_text]
      fst_await_Rejected [OF full_disk_writeAsStringAsync])

lemma full_disk_generateSVGFromAnalysis:
  "\<exists>svg. fst (generateSVGFromAnalysis full_disk_device u h) = Resolved svg"
  using always_resolvesD [OF always_resolves_generateSVGFromAnalysis] .

lemma full_disk_processWithLocalStarVector:
  "fst (processWithLocalStarVector full_disk_device u options h) = Resolved (local_failure u)"
proof -
  obtain svg where g: "fst (generateSVGFromAnalysis full_disk_device u h) = Resolved svg"
    using full_disk_generateSVGFromAnalysis by blast
  have o: "fst (optimizeSVGForTattoo full_disk_device x h') = Resolved (restyle full_disk_device x)"
    for x h'
    by (simp add: optimizeSVGForTattoo_def resolved_def)
  show ?thesis
    unfolding processWithLocalStarVector_def Let_def
    by (simp add: fst_await_try_Resolved [where m = "generateSVGFromAnalysis full_disk_device u" and h = h, OF g]
        fst_await_try_Resolved [OF o]
        fst_await_try_Rejected [OF full_disk_saveSVGToFile] resolved_def local_failure_def)
qed

lemma full_disk_blob_to_file: "fst (blob_to_file full_disk_device prefix b h) = Pending"
  unfolding blob_to_file_def Let_def
  by (simp add: fst_await_Resolved [OF full_disk_readAsDataURL]
      fst_await_Resolved [OF full_disk_Date_now_text] full_disk_modules
      fst_await_try_Rejected [OF full_disk_writeAsStringAsync] never_def)

lemma full_disk_tryRemoveBgAPI: "fst (tryRemoveBgAPI full_disk_device svc u h) = Pending"
  unfolding tryRemoveBgAPI_def
  by (simp add: fst_await_try_Resolved [OF full_disk_fetch] full_disk_blob_to_file)

lemma full_disk_removeBackgroundAI:
  "fst (removeBackgroundAI full_disk_device remove_bg_key u h) = Pending"
proof -
  have k: "truthy (REMOVE_BG_apiKey remove_bg_key)" by (simp add: remove_bg_key_def truthy_def)
  show ?thesis
    unfolding removeBackgroundAI_def Let_def
    by (simp add: k fst_await_try_Pending [OF full_disk_tryRemoveBgAPI])
qed

lemma full_disk_background_stage:
  assumes "enabled (removeBackground options)"
  shows "fst (background_stage full_disk_device remove_bg_key options cur h) = Pending"
  unfolding background_stage_def
  using assms by (simp add: fst_await_Pending [OF full_disk_removeBackgroundAI])

lemma full_disk_traditionalProcessingPipeline:
  assumes "enabled (removeBackground options)"
  shows "fst (traditionalProcessingPipeline full_disk_device remove_bg_key u options steps h) = Pending"
proof -
  obtain u1 where p: "fst (preprocessForAI full_disk_device u h) = Resolved u1"
    using always_resolvesD [OF always_resolves_preprocessForAI] by blast
  show ?thesis
    unfolding traditionalProcessingPipeline_def Let_def
    by (simp only: fst_await_try_Resolved [where m = "preprocessForAI full_disk_device u" and h = h, OF p]
        fst_await_try_Pending [OF full_disk_background_stage [OF assms]])
qed

lemma full_disk_traditional_tier:
  assumes "enabled (removeBackground options)"
  shows "fst (traditional_tier full_disk_device remove_bg_key u options steps h) = Pending"
  unfolding traditional_tier_def
  by (rule fst_await_try_Pending [OF full_disk_traditionalProcessingPipeline [OF assms]])

lemma full_disk_local_tier:
  assumes "enabled (removeBackground options)"
  shows "fst (local_tier full_disk_device remove_bg_key u options steps h) = Pending"
proof (cases "enabled (fallbackToLocal options)")
  case False
  then show ?thesis by (simp add: local_tier_def full_disk_traditional_tier [OF assms])
next
  case True
  have f: "\<not> StarVectorResult.success (local_failure u)" by (simp add: local_failure_def)
  show ?thesis
    unfolding local_tier_def
    by (simp add: True fst_await_try_Resolved [OF full_disk_processWithLocalStarVector] f
        full_disk_traditional_tier [OF assms])
qed

lemma defaults_spread:
  "enabled (removeBackground (spread AI_PROCESSING_DEFAULTS AI_PROCESSING_DEFAULTS))"
  "enabled (useStarVector (spread AI_PROCESSING_DEFAULTS AI_PROCESSING_DEFAULTS))"
  "enabled (removeBackground (spread AI_PROCESSING_DEFAULTS without_StarVector))"
  "\<not> enabled (useStarVector (spread AI_PROCESSING_DEFAULTS without_StarVector))"
  by (simp_all add: spread_def or_default_def AI_PROCESSING_DEFAULTS_def without_StarVector_def
      enabled_def)


lemma full_disk_callStarVectorAPI:
  "fst (callStarVectorAPI full_disk_device b m options h) = Resolved None"
  unfolding callStarVectorAPI_def
  by (simp add: fst_await_try_Resolved [OF full_disk_fetch] Let_def resolved_def)

lemma full_disk_imageToSVG_step6:
  "\<exists>r. fst (imageToSVG_step6 full_disk_device u options steps h) = Resolved r \<and>
        \<not> StarVectorResult.success r"
  unfolding imageToSVG_step6_def Let_def
  by (simp add: fst_await_try_Resolved [OF full_disk_processWithLocalStarVector] resolved_def
      local_failure_def)

lemma full_disk_imageToSVG_step5:
  "\<exists>r. fst (imageToSVG_step5 full_disk_device hf_ready u options b m steps h) = Resolved r \<and>
        \<not> StarVectorResult.success r"
  unfolding imageToSVG_step5_def
  by (simp add: hf_ready_def fst_await_try_Resolved [OF full_disk_callStarVectorAPI] truthy_def
      full_disk_imageToSVG_step6)

lemma full_disk_prepareImageForStarVector:
  "fst (prepareImageForStarVector full_disk_device u h) = Resolved (u @ ''.out'')"
  by (simp add: prepareImageForStarVector_def full_disk_modules
      fst_await_try_Resolved [OF full_disk_manipulateAsync] resolved_def)

lemma full_disk_imageToSVG:
  assumes "\<not> enabled (StarVectorOptions.useCPUMode options)"
  shows "\<exists>r. fst (imageToSVG full_disk_device hf_ready u options h) = Resolved r \<and>
             \<not> StarVectorResult.success r"
proof -
  have c: "\<not> cpuModeEnabled hf_ready" by (simp add: hf_ready_def)
  show ?thesis
    unfolding imageToSVG_def Let_def
    by (simp add: fst_await_try_Resolved [OF full_disk_prepareImageForStarVector]
        fst_await_try_Resolved [OF full_disk_readAsStringAsync] validateBase64Image_jpeg
        assms c full_disk_imageToSVG_step5)
qed

lemma isAvailable_full_disk: "isAvailable full_disk_device hf_ready"
  by (simp add: isAvailable_def hf_ready_def full_disk_device_def offline_device_def)

lemma full_disk_StarVector_fails:
  "fst (processImageToTattooDesign full_disk_device remove_bg_key hf_ready u AI_PROCESSING_DEFAULTS h)
   = Pending"
proof -
  let ?so = "\<lparr>StarVectorOptions.model =
                 Some (if truthy (starVectorModel (spread AI_PROCESSING_DEFAULTS AI_PROCESSING_DEFAULTS))
                       then the (starVectorModel (spread AI_PROCESSING_DEFAULTS AI_PROCESSING_DEFAULTS))
                       else ''1b''),
               temperature = Some (Decimal 1 (- 1)), maxTokens = Some 2048, useHuggingFace = None,
               huggingFaceToken = Some (AI_CONFIG_huggingFace full_disk_device),
               StarVectorOptions.useCPUMode = None, localModelPath = None\<rparr>"
  have "\<not> enabled (StarVectorOptions.useCPUMode ?so)" by (simp add: enabled_def)
  then obtain r where r: "fst (imageToSVG full_disk_device hf_ready u ?so h) = Resolved r"
    and f: "\<not> StarVectorResult.success r"
    using full_disk_imageToSVG by blast
  show ?thesis
    unfolding processImageToTattooDesign_def Let_def
    by (simp only: defaults_spread isAvailable_full_disk simp_thms if_True
        fst_await_try_Resolved [where m = "imageToSVG full_disk_device hf_ready u ?so" and h = h, OF r]
        f if_False full_disk_local_tier [OF defaults_spread(1)])
qed

text \<open>
  A device whose storage is full, with a Remove.bg key set. StarVector is not
  available, the local drawing fails to save its file, and the traditional pipeline
  asks Remove.bg for the background; the service answers, the file with its answer
  cannot be written, and the promise that \<^verbatim>\<open>tryRemoveBgAPI\<close> returned never settles:
  \<^verbatim>\<open>processImageToTattooDesign\<close> neither returns a result nor throws.
\<close>

lemma full_disk_StarVector_unavailable:
  "\<not> isAvailable full_disk_device star_vector_initial \<and>
   truthy (REMOVE_BG_apiKey remove_bg_key) \<and>
   fst (processImageToTattooDesign full_disk_device remove_bg_key star_vector_initial ''photo.jpg''
          AI_PROCESSING_DEFAULTS []) = Pending"
proof -
  have a: "\<not> isAvailable full_disk_device star_vector_initial"
    by (simp add: isAvailable_def star_vector_initial_def)
  have k: "truthy (REMOVE_BG_apiKey remove_bg_key)" by (simp add: remove_bg_key_def truthy_def)
  from a have "processImageToTattooDesign full_disk_device remove_bg_key star_vector_initial ''photo.jpg''
          AI_PROCESSING_DEFAULTS
        = local_tier full_disk_device remove_bg_key ''photo.jpg''
            (spread AI_PROCESSING_DEFAULTS AI_PROCESSING_DEFAULTS) []"
    by (intro processImageToTattooDesign_skips) simp
  with a k full_disk_local_tier [OF defaults_spread(1)] show ?thesis by simp
qed

text \<open>
  Claim C6 fails on the code. On the device whose storage is full, with a Remove.bg
  key set, whether StarVector is unavailable, or turned off by the caller, or
  available and its conversion fails, the local and traditional fallbacks produce
  no graphic: the promise that \<^verbatim>\<open>tryRemoveBgAPI\<close> returned never settles, and the
  call neither returns a result nor throws.
\<close>

theorem StarVector_skipped_or_failed_never_settles:
  "\<not> isAvailable full_disk_device star_vector_initial \<and>
   fst (processImageToTattooDesign full_disk_device remove_bg_key star_vector_initial ''photo.jpg''
          AI_PROCESSING_DEFAULTS []) = Pending \<and>
   \<not> enabled (useStarVector (spread AI_PROCESSING_DEFAULTS without_StarVector)) \<and>
   fst (processImageToTattooDesign full_disk_device remove_bg_key hf_ready ''photo.jpg''
          without_StarVector []) = Pending \<and>
   enabled (useStarVector (spread AI_PROCESSING_DEFAULTS AI_PROCESSING_DEFAULTS)) \<and>
   isAvailable full_disk_device hf_ready \<and>
   fst (processImageToTattooDesign full_disk_device remove_bg_key hf_ready ''photo.jpg''
          AI_PROCESSING_DEFAULTS []) = Pending"
proof -
  have "processImageToTattooDesign full_disk_device remove_bg_key hf_ready ''photo.jpg'' without_StarVector
        = local_tier full_disk_device remove_bg_key ''photo.jpg''
            (spread AI_PROCESSING_DEFAULTS without_StarVector) []"
    by (intro processImageToTattooDesign_skips) (simp add: defaults_spread)
  then have "fst (processImageToTattooDesign full_disk_device remove_bg_key hf_ready ''photo.jpg''
          without_StarVector []) = Pending"
    using full_disk_local_tier [OF defaults_spread(3)] by simp
  with defaults_spread isAvailable_full_disk full_disk_StarVector_fails full_disk_StarVector_unavailable
  show ?thesis by blast
qed

text \<open>
  Claim C9. Where no HuggingFace client has been constructed, \<^verbatim>\<open>initialize\<close> with
  \<^verbatim>\<open>enableCPUMode\<close> true (and any token, in particular none) returns true and sets
  \<^verbatim>\<open>isInitialized\<close> and \<^verbatim>\<open>cpuModeEnabled\<close>, and \<^verbatim>\<open>isAvailable\<close> is still false;
  \<^verbatim>\<open>processImageToTattooDesign\<close> then is its step 2 onwards with no step pushed:
  the StarVector branch is not entered.
\<close>

theorem initialize_CPU_mode_leaves_StarVector_unavailable:
  assumes "hf sv = None"
  shows "fst (initialize env sv token True) = True \<and>
         isInitialized (snd (initialize env sv token True)) \<and>
         cpuModeEnabled (snd (initialize env sv token True)) \<and>
         \<not> isAvailable env (snd (initialize env sv token True)) \<and>
         processImageToTattooDesign env svc (snd (initialize env sv token True)) imageUri options
           = local_tier env svc imageUri (spread AI_PROCESSING_DEFAULTS options) []"
proof -
  have i: "initialize env sv token True = (True, sv\<lparr>cpuModeEnabled := True, isInitialized := True\<rparr>)"
    by (simp add: initialize_def)
  have a: "\<not> isAvailable env (snd (initialize env sv token True))"
    using assms by (simp add: i isAvailable_def)
  from a have "processImageToTattooDesign env svc (snd (initialize env sv token True)) imageUri options
           = local_tier env svc imageUri (spread AI_PROCESSING_DEFAULTS options) []"
    by (intro processImageToTattooDesign_skips) simp
  with a show ?thesis by (simp add: i)
qed

theorem initialize_CPU_mode_leaves_StarVector_unavailable_witness:
  "hf star_vector_initial = None \<and>
   fst (initialize offline_device star_vector_initial None True) = True \<and>
   isInitialized (snd (initialize offline_device star_vector_initial None True)) \<and>
   \<not> isAvailable offline_device (snd (initialize offline_device star_vector_initial None True)) \<and>
   processImageToTattooDesign offline_device AI_SERVICES_initial
       (snd (initialize offline_device star_vector_initial None True)) ''photo.jpg'' AI_PROCESSING_DEFAULTS
     = local_tier offline_device AI_SERVICES_initial ''photo.jpg''
         (spread AI_PROCESSING_DEFAULTS AI_PROCESSING_DEFAULTS) []"
proof -
  have h: "hf star_vector_initial = None" by (simp add: star_vector_initial_def)
  from initialize_CPU_mode_leaves_StarVector_unavailable [OF h, of offline_device None
      AI_SERVICES_initial "''photo.jpg''" AI_PROCESSING_DEFAULTS] h
  show ?thesis by blast
qed

subsection \<open>The tiers of processImageToTattooDesign\<close>

lemma offline_modules: "ImageManipulator offline_device" "FileSystem offline_device"
  by (simp_all add: offline_device_def)

lemma offline_manipulateAsync:
  "fst (manipulateAsync offline_device u acts opts h) = Resolved (ImageResult (u @ ''.out'') 1024 768)"
  by (simp add: manipulateAsync_def external_def offline_device_def)

lemma offline_writeAsStringAsync: "fst (writeAsStringAsync offline_device p c e h) = Resolved ()"
  by (simp add: writeAsStringAsync_def external_def offline_device_def)

lemma offline_deleteAsync: "fst (deleteAsync offline_device p h) = Resolved ()"
  by (simp add: deleteAsync_def external_def offline_device_def)

lemma offline_Date_now_text: "fst (Date_now_text offline_device h) = Resolved ''1700000000000''"
  by (simp add: Date_now_text_def offline_device_def)

lemma offline_fields:
  "documentDirectory offline_device = ''file:///documents/''"
  "svg_markup offline_device w h = ''<svg></svg>''"
  "restyle offline_device svg = svg"
  by (simp_all add: offline_device_def)

lemma offline_createSimpleTattooDesign:
  "fst (createSimpleTattooDesign offline_device h)
   = Resolved ''file:///documents/tattoo_design_1700000000000.png.out''"
  unfolding createSimpleTattooDesign_def Let_def
  by (simp add: offline_modules fst_await_Resolved [OF offline_Date_now_text]
      fst_await_try_Resolved [OF offline_writeAsStringAsync]
      fst_await_try_Resolved [OF offline_manipulateAsync]
      fst_await_try_Resolved [OF offline_deleteAsync] resolved_def offline_fields)

lemma offline_createTattooImageFallback:
  "fst (createTattooImageFallback offline_device svg h)
   = Resolved ''file:///documents/tattoo_design_1700000000000.png.out''"
  unfolding createTattooImageFallback_def
  by (simp add: offline_modules fst_await_try_Resolved [OF offline_createSimpleTattooDesign]
      resolved_def)

lemma offline_saveSVGToFile:
  "fst (saveSVGToFile offline_device svg h)
   = Resolved ''file:///documents/tattoo_design_1700000000000.png.out''"
  unfolding saveSVGToFile_def convertSVGToPNG_def Let_def
  by (simp add: offline_modules fst_await_Resolved [OF offline_Date_now_text]
      fst_await_Resolved [OF offline_writeAsStringAsync]
      fst_await_try_Resolved [OF offline_createTattooImageFallback] resolved_def)

lemma offline_generateSVGFromAnalysis:
  "fst (generateSVGFromAnalysis offline_device u h) = Resolved ''<svg></svg>''"
  unfolding generateSVGFromAnalysis_def
  by (simp add: offline_modules fst_await_try_Resolved [OF offline_manipulateAsync] resolved_def
      offline_fields)

lemma offline_optimizeSVGForTattoo:
  "fst (optimizeSVGForTattoo offline_device svg h) = Resolved svg"
  by (simp add: optimizeSVGForTattoo_def resolved_def offline_fields)

lemma offline_processWithLocalStarVector:
  "fst (processWithLocalStarVector offline_device u options h) = Resolved (offline_drawing u)"
  unfolding processWithLocalStarVector_def Let_def
  by (simp add: fst_await_try_Resolved [OF offline_generateSVGFromAnalysis]
      fst_await_try_Resolved [OF offline_optimizeSVGForTattoo]
      fst_await_try_Resolved [OF offline_saveSVGToFile] resolved_def offline_drawing_def)


lemma plain_pipeline_run:
  assumes m: "ImageManipulator env"
    and reply: "\<And>h u acts opts. manipulateAsync_reply env h u acts opts = Inr (ImageResult (u @ ''.out'') 1024 768)"
    and keys: "\<not> truthy (REMOVE_BG_apiKey svc)" "\<not> truthy (CLIPDROP_apiKey svc)"
    and flags: "enabled (removeBackground fo)" "enabled (smartCrop fo)" "enabled (convertToLineArt fo)"
  shows "fst (traditionalProcessingPipeline env svc ''photo.jpg'' fo steps h)
   = Resolved \<lparr>success = True, processedImageUri = Some ''photo.jpg.out.out.out.out.out.out'',
        originalImageUri = ''photo.jpg'',
        processingSteps = steps @ [''Using traditional processing pipeline'', ''Image preprocessed'',
          ''Background processed locally'', ''Smart cropped'', ''Converted to line art'',
          ''Tattoo styling applied''],
        error = None, format = Some ''PNG'', svgCode = None, model = Some ''traditional-pipeline''\<rparr>"
proof -
  have none: "removeBackgroundAI env svc u h' = (Resolved None, h')" for u h'
    using keys by (simp add: removeBackgroundAI_run)
  have falsy: "\<not> truthy None" by (simp add: truthy_def)
  show ?thesis
    by (simp add: traditionalProcessingPipeline_def Let_def await_try_def await_def resolved_def
        preprocessForAI_run background_stage_def crop_stage_def lineart_stage_def
        none localBackgroundRemoval_run smartCrop_step_run
        convertToLineArt_step_run applyTattooStyling_run m reply flags falsy)
qed


lemma processImageToTattooDesign_failed:
  assumes "enabled (useStarVector (spread AI_PROCESSING_DEFAULTS options))" "isAvailable env sv"
    and "fst (imageToSVG env sv imageUri
          \<lparr>StarVectorOptions.model =
             Some (if truthy (starVectorModel (spread AI_PROCESSING_DEFAULTS options))
                   then the (starVectorModel (spread AI_PROCESSING_DEFAULTS options)) else ''1b''),
           temperature = Some (Decimal 1 (- 1)), maxTokens = Some 2048, useHuggingFace = None,
           huggingFaceToken = Some (AI_CONFIG_huggingFace env),
           StarVectorOptions.useCPUMode = None, localModelPath = None\<rparr> h) = Resolved s"
    and "\<not> StarVectorResult.success s"
  shows "processImageToTattooDesign env svc sv imageUri options h
         = local_tier env svc imageUri (spread AI_PROCESSING_DEFAULTS options)
             [''StarVector processing not available'']
             (snd (imageToSVG env sv imageUri
          \<lparr>StarVectorOptions.model =
             Some (if truthy (starVectorModel (spread AI_PROCESSING_DEFAULTS options))
                   then the (starVectorModel (spread AI_PROCESSING_DEFAULTS options)) else ''1b''),
           temperature = Some (Decimal 1 (- 1)), maxTokens = Some 2048, useHuggingFace = None,
           huggingFaceToken = Some (AI_CONFIG_huggingFace env),
           StarVectorOptions.useCPUMode = None, localModelPath = None\<rparr> h))"
  using assms
  unfolding processImageToTattooDesign_def Let_def
  by (cases "imageToSVG env sv imageUri
          \<lparr>StarVectorOptions.model =
             Some (if truthy (starVectorModel (spread AI_PROCESSING_DEFAULTS options))
                   then the (starVectorModel (spread AI_PROCESSING_DEFAULTS options)) else ''1b''),
           temperature = Some (Decimal 1 (- 1)), maxTokens = Some 2048, useHuggingFace = None,
           huggingFaceToken = Some (AI_CONFIG_huggingFace env),
           StarVectorOptions.useCPUMode = None, localModelPath = None\<rparr> h")
     (simp add: await_try_def)

lemma local_tier_succeeded:
  assumes "enabled (fallbackToLocal fo)"
    and "fst (processWithLocalStarVector env imageUri no_options h) = Resolved l"
    and "StarVectorResult.success l"
  shows "fst (local_tier env svc imageUri fo steps h)
         = Resolved \<lparr>success = True, processedImageUri = svgUri l, originalImageUri = imageUri,
                      processingSteps = steps @ StarVectorResult.processingSteps l, error = None,
                      format = Some ''SVG'', svgCode = StarVectorResult.svgCode l,
                      model = StarVectorResult.model l\<rparr>"
  using assms unfolding local_tier_def
  by (cases "processWithLocalStarVector env imageUri no_options h")
     (simp add: await_try_def resolved_def)

lemma local_tier_failed:
  assumes "enabled (fallbackToLocal fo)"
    and "fst (processWithLocalStarVector env imageUri no_options h) = Resolved l"
    and "\<not> StarVectorResult.success l"
  shows "local_tier env svc imageUri fo steps h
         = traditional_tier env svc imageUri fo (steps @ [''Local StarVector processing failed''])
             (snd (processWithLocalStarVector env imageUri no_options h))"
  using assms unfolding local_tier_def
  by (cases "processWithLocalStarVector env imageUri no_options h")
     (simp add: await_try_def)

lemma local_tier_off:
  assumes "\<not> enabled (fallbackToLocal fo)"
  shows "local_tier env svc imageUri fo steps h = traditional_tier env svc imageUri fo steps h"
  using assms by (simp add: local_tier_def)

lemma traditional_tier_succeeded:
  assumes "fst (traditionalProcessingPipeline env svc imageUri fo steps h) = Resolved r"
  shows "fst (traditional_tier env svc imageUri fo steps h) = Resolved r"
  using assms unfolding traditional_tier_def
  by (simp add: fst_await_try_Resolved resolved_def)

lemma without_local_spread:
  "enabled (removeBackground (spread AI_PROCESSING_DEFAULTS without_local))"
  "enabled (smartCrop (spread AI_PROCESSING_DEFAULTS without_local))"
  "enabled (convertToLineArt (spread AI_PROCESSING_DEFAULTS without_local))"
  "\<not> enabled (fallbackToLocal (spread AI_PROCESSING_DEFAULTS without_local))"
  by (simp_all add: spread_def or_default_def AI_PROCESSING_DEFAULTS_def without_local_def enabled_def)

lemma defaults_spread_flags:
  "enabled (smartCrop (spread AI_PROCESSING_DEFAULTS AI_PROCESSING_DEFAULTS))"
  "enabled (convertToLineArt (spread AI_PROCESSING_DEFAULTS AI_PROCESSING_DEFAULTS))"
  "enabled (fallbackToLocal (spread AI_PROCESSING_DEFAULTS AI_PROCESSING_DEFAULTS))"
  by (simp_all add: spread_def or_default_def AI_PROCESSING_DEFAULTS_def enabled_def)

lemma no_keys: "\<not> truthy (REMOVE_BG_apiKey AI_SERVICES_initial)" "\<not> truthy (CLIPDROP_apiKey AI_SERVICES_initial)"
  by (simp_all add: AI_SERVICES_initial_def truthy_def)

lemma offline_reply:
  "manipulateAsync_reply offline_device h u acts opts = Inr (ImageResult (u @ ''.out'') 1024 768)"
  by (simp add: offline_device_def)

lemma full_disk_reply:
  "manipulateAsync_reply full_disk_device h u acts opts = Inr (ImageResult (u @ ''.out'') 1024 768)"
  by (simp add: full_disk_device_def offline_device_def)

lemma unavailable_initially: "\<not> isAvailable env star_vector_initial"
  by (simp add: isAvailable_def star_vector_initial_def)

text \<open>
  The \<^verbatim>\<open>catch\<close> clause, which no tier reaches: it returns what the ultimate
  fallback returns, and a result with \<^verbatim>\<open>success\<close> false when that throws too.
\<close>

lemma processImage_catch_run:
  "fst (ultimateFallbackProcessing env imageUri steps h) = Resolved r \<Longrightarrow>
   fst (processImage_catch env imageUri steps err h) = Resolved r"
  "fst (ultimateFallbackProcessing env imageUri steps h) = Rejected fallbackError \<Longrightarrow>
   fst (processImage_catch env imageUri steps err h)
   = Resolved \<lparr>success = False, processedImageUri = None, originalImageUri = imageUri,
                processingSteps = steps,
                error = Some (''All processing methods failed: '' @ message err),
                format = None, svgCode = None, model = None\<rparr>"
  unfolding processImage_catch_def
  by (simp_all add: fst_await_try_Resolved fst_await_try_Rejected resolved_def)

text \<open>
  Claim C1 fails as it is stated. On a device where the local drawing works, with
  StarVector unavailable and the caller's option \<^verbatim>\<open>fallbackToLocal\<close> false, the call
  does not fall back to the local drawing: it returns the result of the traditional
  pipeline, and no step of the local drawing is recorded.
\<close>

theorem processImageToTattooDesign_fallbackToLocal_counterexample:
  "\<not> isAvailable offline_device star_vector_initial \<and>
   fst (processWithLocalStarVector offline_device ''photo.jpg'' no_options [])
     = Resolved (offline_drawing ''photo.jpg'') \<and>
   StarVectorResult.success (offline_drawing ''photo.jpg'') \<and>
   fst (processImageToTattooDesign offline_device AI_SERVICES_initial star_vector_initial ''photo.jpg''
          without_local [])
     = Resolved \<lparr>success = True, processedImageUri = Some ''photo.jpg.out.out.out.out.out.out'',
        originalImageUri = ''photo.jpg'',
        processingSteps = [''Using traditional processing pipeline'', ''Image preprocessed'',
          ''Background processed locally'', ''Smart cropped'', ''Converted to line art'',
          ''Tattoo styling applied''],
        error = None, format = Some ''PNG'', svgCode = None, model = Some ''traditional-pipeline''\<rparr>"
proof -
  have "processImageToTattooDesign offline_device AI_SERVICES_initial star_vector_initial ''photo.jpg''
          without_local
        = local_tier offline_device AI_SERVICES_initial ''photo.jpg''
            (spread AI_PROCESSING_DEFAULTS without_local) []"
    by (intro processImageToTattooDesign_skips) (simp add: unavailable_initially)
  then have "fst (processImageToTattooDesign offline_device AI_SERVICES_initial star_vector_initial
          ''photo.jpg'' without_local [])
        = fst (traditionalProcessingPipeline offline_device AI_SERVICES_initial ''photo.jpg''
            (spread AI_PROCESSING_DEFAULTS without_local) [] [])"
    using traditional_tier_succeeded [OF plain_pipeline_run [OF offline_modules(1) offline_reply no_keys
          without_local_spread(1,2,3)]]
    by (simp add: local_tier_off [OF without_local_spread(4)]
        plain_pipeline_run [OF offline_modules(1) offline_reply no_keys without_local_spread(1,2,3)])
  then show ?thesis
    by (simp add: unavailable_initially offline_processWithLocalStarVector offline_drawing_def
        plain_pipeline_run [OF offline_modules(1) offline_reply no_keys without_local_spread(1,2,3)])
qed

text \<open>
  Claim C1, amended. Whatever the image, the options, the keys and the device,
  \<^verbatim>\<open>processImageToTattooDesign\<close> never throws, and every result it returns has
  \<^verbatim>\<open>success\<close> true and a processed image, so that a result with \<^verbatim>\<open>success\<close> false is
  not returned at all. When StarVector is unavailable or turned off, the call is its
  step 2 onwards with no step pushed; when StarVector was tried and has failed, it is
  step 2 onwards with the step \<^verbatim>\<open>StarVector processing not available\<close>. Step 2 runs
  the local drawing only when the merged option \<^verbatim>\<open>fallbackToLocal\<close> is true, and
  returns its SVG when it succeeds; when it fails, step 3 follows with the step
  \<^verbatim>\<open>Local StarVector processing failed\<close>, and when the option is false step 3 follows
  at once. Step 3 returns what the traditional pipeline returns.
\<close>

theorem processImageToTattooDesign_tiers:
  "never_rejects (processImageToTattooDesign env svc sv imageUri options) \<and>
   resolves_to (processImageToTattooDesign env svc sv imageUri options) has_graphic \<and>
   (\<not> (enabled (useStarVector (spread AI_PROCESSING_DEFAULTS options)) \<and> isAvailable env sv) \<longrightarrow>
      processImageToTattooDesign env svc sv imageUri options h
      = local_tier env svc imageUri (spread AI_PROCESSING_DEFAULTS options) [] h) \<and>
   (enabled (useStarVector (spread AI_PROCESSING_DEFAULTS options)) \<and> isAvailable env sv \<and>
    fst (imageToSVG env sv imageUri
          \<lparr>StarVectorOptions.model =
             Some (if truthy (starVectorModel (spread AI_PROCESSING_DEFAULTS options))
                   then the (starVectorModel (spread AI_PROCESSING_DEFAULTS options)) else ''1b''),
           temperature = Some (Decimal 1 (- 1)), maxTokens = Some 2048, useHuggingFace = None,
           huggingFaceToken = Some (AI_CONFIG_huggingFace env),
           StarVectorOptions.useCPUMode = None, localModelPath = None\<rparr> h) = Resolved s \<and>
    \<not> StarVectorResult.success s \<longrightarrow>
      processImageToTattooDesign env svc sv imageUri options h
      = local_tier env svc imageUri (spread AI_PROCESSING_DEFAULTS options)
          [''StarVector processing not available'']
          (snd (imageToSVG env sv imageUri
          \<lparr>StarVectorOptions.model =
             Some (if truthy (starVectorModel (spread AI_PROCESSING_DEFAULTS options))
                   then the (starVectorModel (spread AI_PROCESSING_DEFAULTS options)) else ''1b''),
           temperature = Some (Decimal 1 (- 1)), maxTokens = Some 2048, useHuggingFace = None,
           huggingFaceToken = Some (AI_CONFIG_huggingFace env),
           StarVectorOptions.useCPUMode = None, localModelPath = None\<rparr> h))) \<and>
   (enabled (fallbackToLocal (spread AI_PROCESSING_DEFAULTS options)) \<and>
    fst (processWithLocalStarVector env imageUri no_options h) = Resolved l \<and>
    StarVectorResult.success l \<longrightarrow>
      fst (local_tier env svc imageUri (spread AI_PROCESSING_DEFAULTS options) steps h)
      = Resolved \<lparr>success = True, processedImageUri = svgUri l, originalImageUri = imageUri,
                   processingSteps = steps @ StarVectorResult.processingSteps l, error = None,
                   format = Some ''SVG'', svgCode = StarVectorResult.svgCode l,
                   model = StarVectorResult.model l\<rparr>) \<and>
   (enabled (fallbackToLocal (spread AI_PROCESSING_DEFAULTS options)) \<and>
    fst (processWithLocalStarVector env imageUri no_options h) = Resolved l \<and>
    \<not> StarVectorResult.success l \<longrightarrow>
      local_tier env svc imageUri (spread AI_PROCESSING_DEFAULTS options) steps h
      = traditional_tier env svc imageUri (spread AI_PROCESSING_DEFAULTS options)
          (steps @ [''Local StarVector processing failed''])
          (snd (processWithLocalStarVector env imageUri no_options h))) \<and>
   (\<not> enabled (fallbackToLocal (spread AI_PROCESSING_DEFAULTS options)) \<longrightarrow>
      local_tier env svc imageUri (spread AI_PROCESSING_DEFAULTS options) steps h
      = traditional_tier env svc imageUri (spread AI_PROCESSING_DEFAULTS options) steps h) \<and>
   (fst (traditionalProcessingPipeline env svc imageUri (spread AI_PROCESSING_DEFAULTS options) steps h)
      = Resolved r \<longrightarrow>
      fst (traditional_tier env svc imageUri (spread AI_PROCESSING_DEFAULTS options) steps h)
      = Resolved r)"
proof (intro conjI impI)
  show "never_rejects (processImageToTattooDesign env svc sv imageUri options)"
    by (rule never_rejects_processImageToTattooDesign)
  show "resolves_to (processImageToTattooDesign env svc sv imageUri options) has_graphic"
    by (rule processImageToTattooDesign_graphic)
next
  assume "\<not> (enabled (useStarVector (spread AI_PROCESSING_DEFAULTS options)) \<and> isAvailable env sv)"
  then show "processImageToTattooDesign env svc sv imageUri options h
      = local_tier env svc imageUri (spread AI_PROCESSING_DEFAULTS options) [] h"
    by (simp add: processImageToTattooDesign_skips)
next
  assume "enabled (useStarVector (spread AI_PROCESSING_DEFAULTS options)) \<and> isAvailable env sv \<and>
    fst (imageToSVG env sv imageUri
          \<lparr>StarVectorOptions.model =
             Some (if truthy (starVectorModel (spread AI_PROCESSING_DEFAULTS options))
                   then the (starVectorModel (spread AI_PROCESSING_DEFAULTS options)) else ''1b''),
           temperature = Some (Decimal 1 (- 1)), maxTokens = Some 2048, useHuggingFace = None,
           huggingFaceToken = Some (AI_CONFIG_huggingFace env),
           StarVectorOptions.useCPUMode = None, localModelPath = None\<rparr> h) = Resolved s \<and>
    \<not> StarVectorResult.success s"
  then show "processImageToTattooDesign env svc sv imageUri options h
      = local_tier env svc imageUri (spread AI_PROCESSING_DEFAULTS options)
          [''StarVector processing not available'']
          (snd (imageToSVG env sv imageUri
          \<lparr>StarVectorOptions.model =
             Some (if truthy (starVectorModel (spread AI_PROCESSING_DEFAULTS options))
                   then the (starVectorModel (spread AI_PROCESSING_DEFAULTS options)) else ''1b''),
           temperature = Some (Decimal 1 (- 1)), maxTokens = Some 2048, useHuggingFace = None,
           huggingFaceToken = Some (AI_CONFIG_huggingFace env),
           StarVectorOptions.useCPUMode = None, localModelPath = None\<rparr> h))"
    using processImageToTattooDesign_failed [of options env sv imageUri h s svc] by blast
next
  assume "enabled (fallbackToLocal (spread AI_PROCESSING_DEFAULTS options)) \<and>
    fst (processWithLocalStarVector env imageUri no_options h) = Resolved l \<and>
    StarVectorResult.success l"
  then show "fst (local_tier env svc imageUri (spread AI_PROCESSING_DEFAULTS options) steps h)
      = Resolved \<lparr>success = True, processedImageUri = svgUri l, originalImageUri = imageUri,
                   processingSteps = steps @ StarVectorResult.processingSteps l, error = None,
                   format = Some ''SVG'', svgCode = StarVectorResult.svgCode l,
                   model = StarVectorResult.model l\<rparr>"
    using local_tier_succeeded [of "spread AI_PROCESSING_DEFAULTS options" env imageUri h l svc steps] by blast
next
  assume "enabled (fallbackToLocal (spread AI_PROCESSING_DEFAULTS options)) \<and>
    fst (processWithLocalStarVector env imageUri no_options h) = Resolved l \<and>
    \<not> StarVectorResult.success l"
  then show "local_tier env svc imageUri (spread AI_PROCESSING_DEFAULTS options) steps h
      = traditional_tier env svc imageUri (spread AI_PROCESSING_DEFAULTS options)
          (steps @ [''Local StarVector processing failed''])
          (snd (processWithLocalStarVector env imageUri no_options h))"
    using local_tier_failed [of "spread AI_PROCESSING_DEFAULTS options" env imageUri h l svc steps] by blast
next
  assume "\<not> enabled (fallbackToLocal (spread AI_PROCESSING_DEFAULTS options))"
  then show "local_tier env svc imageUri (spread AI_PROCESSING_DEFAULTS options) steps h
      = traditional_tier env svc imageUri (spread AI_PROCESSING_DEFAULTS options) steps h"
    by (rule local_tier_off)
next
  assume "fst (traditionalProcessingPipeline env svc imageUri (spread AI_PROCESSING_DEFAULTS options) steps h)
      = Resolved r"
  then show "fst (traditional_tier env svc imageUri (spread AI_PROCESSING_DEFAULTS options) steps h)
      = Resolved r"
    by (rule traditional_tier_succeeded)
qed


theorem processImageToTattooDesign_tiers_witness:
  "\<not> isAvailable offline_device star_vector_initial \<and>
   enabled (fallbackToLocal (spread AI_PROCESSING_DEFAULTS AI_PROCESSING_DEFAULTS)) \<and>
   fst (processImageToTattooDesign offline_device AI_SERVICES_initial star_vector_initial ''photo.jpg''
          AI_PROCESSING_DEFAULTS [])
     = Resolved \<lparr>success = True,
        processedImageUri = Some ''file:///documents/tattoo_design_1700000000000.png.out'',
        originalImageUri = ''photo.jpg'',
        processingSteps = [''Image analyzed for vector elements'', ''SVG structure generated'',
          ''SVG optimized for tattoo design'', ''SVG file saved''],
        error = None, format = Some ''SVG'', svgCode = Some ''<svg></svg>'',
        model = Some ''local-starvector-inspired''\<rparr> \<and>
   has_graphic \<lparr>success = True,
        processedImageUri = Some ''file:///documents/tattoo_design_1700000000000.png.out'',
        originalImageUri = ''photo.jpg'',
        processingSteps = [''Image analyzed for vector elements'', ''SVG structure generated'',
          ''SVG optimized for tattoo design'', ''SVG file saved''],
        error = None, format = Some ''SVG'', svgCode = Some ''<svg></svg>'',
        model = Some ''local-starvector-inspired''\<rparr> \<and>
   \<not> enabled (fallbackToLocal (spread AI_PROCESSING_DEFAULTS without_local)) \<and>
   fst (processImageToTattooDesign offline_device AI_SERVICES_initial star_vector_initial ''photo.jpg''
          without_local [])
     = Resolved \<lparr>success = True, processedImageUri = Some ''photo.jpg.out.out.out.out.out.out'',
        originalImageUri = ''photo.jpg'',
        processingSteps = [''Using traditional processing pipeline'', ''Image preprocessed'',
          ''Background processed locally'', ''Smart cropped'', ''Converted to line art'',
          ''Tattoo styling applied''],
        error = None, format = Some ''PNG'', svgCode = None, model = Some ''traditional-pipeline''\<rparr> \<and>
   enabled (useStarVector (spread AI_PROCESSING_DEFAULTS AI_PROCESSING_DEFAULTS)) \<and>
   isAvailable full_disk_device hf_ready \<and>
   fst (processImageToTattooDesign full_disk_device AI_SERVICES_initial hf_ready ''photo.jpg''
          AI_PROCESSING_DEFAULTS [])
     = Resolved \<lparr>success = True, processedImageUri = Some ''photo.jpg.out.out.out.out.out.out'',
        originalImageUri = ''photo.jpg'',
        processingSteps = [''StarVector processing not available'', ''Local StarVector processing failed'', ''Using traditional processing pipeline'', ''Image preprocessed'',
          ''Background processed locally'', ''Smart cropped'', ''Converted to line art'',
          ''Tattoo styling applied''],
        error = None, format = Some ''PNG'', svgCode = None, model = Some ''traditional-pipeline''\<rparr>"
proof -
  let ?defaults = "spread AI_PROCESSING_DEFAULTS AI_PROCESSING_DEFAULTS"
  let ?no_local = "spread AI_PROCESSING_DEFAULTS without_local"
  let ?drawing = "\<lparr>success = True,
        processedImageUri = Some ''file:///documents/tattoo_design_1700000000000.png.out'',
        originalImageUri = ''photo.jpg'',
        processingSteps = [''Image analyzed for vector elements'', ''SVG structure generated'',
          ''SVG optimized for tattoo design'', ''SVG file saved''],
        error = None, format = Some ''SVG'', svgCode = Some ''<svg></svg>'',
        model = Some ''local-starvector-inspired''\<rparr>"
  let ?plain = "\<lparr>success = True, processedImageUri = Some ''photo.jpg.out.out.out.out.out.out'',
        originalImageUri = ''photo.jpg'',
        processingSteps = [''Using traditional processing pipeline'', ''Image preprocessed'',
          ''Background processed locally'', ''Smart cropped'', ''Converted to line art'',
          ''Tattoo styling applied''],
        error = None, format = Some ''PNG'', svgCode = None, model = Some ''traditional-pipeline''\<rparr>"
  let ?last = "\<lparr>success = True, processedImageUri = Some ''photo.jpg.out.out.out.out.out.out'',
        originalImageUri = ''photo.jpg'',
        processingSteps = [''StarVector processing not available'', ''Local StarVector processing failed'', ''Using traditional processing pipeline'', ''Image preprocessed'',
          ''Background processed locally'', ''Smart cropped'', ''Converted to line art'',
          ''Tattoo styling applied''],
        error = None, format = Some ''PNG'', svgCode = None, model = Some ''traditional-pipeline''\<rparr>"
  let ?so = "\<lparr>StarVectorOptions.model =
             Some (if truthy (starVectorModel (spread AI_PROCESSING_DEFAULTS AI_PROCESSING_DEFAULTS))
                   then the (starVectorModel (spread AI_PROCESSING_DEFAULTS AI_PROCESSING_DEFAULTS)) else ''1b''),
           temperature = Some (Decimal 1 (- 1)), maxTokens = Some 2048, useHuggingFace = None,
           huggingFaceToken = Some (AI_CONFIG_huggingFace full_disk_device),
           StarVectorOptions.useCPUMode = None, localModelPath = None\<rparr>"
  have skip: "\<not> (enabled (useStarVector opts) \<and> isAvailable offline_device star_vector_initial)"
    for opts :: ProcessingOptions
    by (simp add: unavailable_initially)
  text \<open>StarVector unavailable, the local drawing succeeds.\<close>
  have local: "fst (processWithLocalStarVector offline_device ''photo.jpg'' no_options [])
               = Resolved (offline_drawing ''photo.jpg'')"
    by (rule offline_processWithLocalStarVector)
  have ok: "StarVectorResult.success (offline_drawing ''photo.jpg'')"
    by (simp add: offline_drawing_def)
  from processImageToTattooDesign_tiers [where env = offline_device and svc = AI_SERVICES_initial
      and sv = star_vector_initial and imageUri = "''photo.jpg''" and options = AI_PROCESSING_DEFAULTS
      and h = "[]" and l = "offline_drawing ''photo.jpg''" and steps = "[]"]
  have a1: "processImageToTattooDesign offline_device AI_SERVICES_initial star_vector_initial ''photo.jpg''
          AI_PROCESSING_DEFAULTS []
        = local_tier offline_device AI_SERVICES_initial ''photo.jpg'' ?defaults [] []"
    and a2: "fst (local_tier offline_device AI_SERVICES_initial ''photo.jpg'' ?defaults [] [])
        = Resolved \<lparr>success = True, processedImageUri = svgUri (offline_drawing ''photo.jpg''),
                   originalImageUri = ''photo.jpg'',
                   processingSteps = [] @ StarVectorResult.processingSteps (offline_drawing ''photo.jpg''),
                   error = None, format = Some ''SVG'',
                   svgCode = StarVectorResult.svgCode (offline_drawing ''photo.jpg''),
                   model = StarVectorResult.model (offline_drawing ''photo.jpg'')\<rparr>"
    and a3: "resolves_to (processImageToTattooDesign offline_device AI_SERVICES_initial star_vector_initial
          ''photo.jpg'' AI_PROCESSING_DEFAULTS) has_graphic"
    using skip local ok defaults_spread_flags(3) by blast+
  have w1: "fst (processImageToTattooDesign offline_device AI_SERVICES_initial star_vector_initial ''photo.jpg''
          AI_PROCESSING_DEFAULTS []) = Resolved ?drawing"
    by (simp add: a1 a2 offline_drawing_def)
  have g1: "has_graphic ?drawing"
    by (rule resolves_toD [OF a3 w1])
  text \<open>StarVector unavailable, the local drawing turned off.\<close>
  have run2: "fst (traditionalProcessingPipeline offline_device AI_SERVICES_initial ''photo.jpg'' ?no_local [] [])
              = Resolved ?plain"
    using plain_pipeline_run [OF offline_modules(1) offline_reply no_keys without_local_spread(1,2,3),
        of "[]" "[]"] by simp
  from processImageToTattooDesign_tiers [where env = offline_device and svc = AI_SERVICES_initial
      and sv = star_vector_initial and imageUri = "''photo.jpg''" and options = without_local
      and h = "[]" and steps = "[]" and r = ?plain]
  have b1: "processImageToTattooDesign offline_device AI_SERVICES_initial star_vector_initial ''photo.jpg''
          without_local []
        = local_tier offline_device AI_SERVICES_initial ''photo.jpg'' ?no_local [] []"
    and b2: "local_tier offline_device AI_SERVICES_initial ''photo.jpg'' ?no_local [] []
        = traditional_tier offline_device AI_SERVICES_initial ''photo.jpg'' ?no_local [] []"
    and b3: "fst (traditional_tier offline_device AI_SERVICES_initial ''photo.jpg'' ?no_local [] [])
        = Resolved ?plain"
    using skip without_local_spread(4) run2 by blast+
  have w2: "fst (processImageToTattooDesign offline_device AI_SERVICES_initial star_vector_initial ''photo.jpg''
          without_local []) = Resolved ?plain"
    by (simp only: b1 b2 b3)
  text \<open>StarVector tried and failed, the local drawing failed.\<close>
  have "\<not> enabled (StarVectorOptions.useCPUMode ?so)" by (simp add: enabled_def)
  then obtain s where s: "fst (imageToSVG full_disk_device hf_ready ''photo.jpg'' ?so []) = Resolved s"
    and f: "\<not> StarVectorResult.success s"
    using full_disk_imageToSVG by blast
  let ?h1 = "snd (imageToSVG full_disk_device hf_ready ''photo.jpg'' ?so [])"
  let ?h2 = "snd (processWithLocalStarVector full_disk_device ''photo.jpg'' no_options ?h1)"
  from processImageToTattooDesign_tiers [where env = full_disk_device and svc = AI_SERVICES_initial
      and sv = hf_ready and imageUri = "''photo.jpg''" and options = AI_PROCESSING_DEFAULTS
      and h = "[]" and s = s]
  have c1: "processImageToTattooDesign full_disk_device AI_SERVICES_initial hf_ready ''photo.jpg''
          AI_PROCESSING_DEFAULTS []
        = local_tier full_disk_device AI_SERVICES_initial ''photo.jpg'' ?defaults
            [''StarVector processing not available''] ?h1"
    using defaults_spread(2) isAvailable_full_disk s f by blast
  have lf: "fst (processWithLocalStarVector full_disk_device ''photo.jpg'' no_options ?h1)
            = Resolved (local_failure ''photo.jpg'')"
    by (rule full_disk_processWithLocalStarVector)
  have nf: "\<not> StarVectorResult.success (local_failure ''photo.jpg'')"
    by (simp add: local_failure_def)
  from processImageToTattooDesign_tiers [where env = full_disk_device and svc = AI_SERVICES_initial
      and imageUri = "''photo.jpg''" and options = AI_PROCESSING_DEFAULTS
      and h = ?h1 and l = "local_failure ''photo.jpg''"
      and steps = "[''StarVector processing not available'']"]
  have c2: "local_tier full_disk_device AI_SERVICES_initial ''photo.jpg'' ?defaults
            [''StarVector processing not available''] ?h1
        = traditional_tier full_disk_device AI_SERVICES_initial ''photo.jpg'' ?defaults
            ([''StarVector processing not available''] @ [''Local StarVector processing failed'']) ?h2"
    using defaults_spread_flags(3) lf nf by blast
  have run3: "fst (traditionalProcessingPipeline full_disk_device AI_SERVICES_initial ''photo.jpg'' ?defaults
            ([''StarVector processing not available''] @ [''Local StarVector processing failed'']) ?h2)
          = Resolved ?last"
    using plain_pipeline_run [OF full_disk_modules(1) full_disk_reply no_keys defaults_spread(1)
        defaults_spread_flags(1,2),
        of "[''StarVector processing not available''] @ [''Local StarVector processing failed'']" ?h2]
    by simp
  from processImageToTattooDesign_tiers [where env = full_disk_device and svc = AI_SERVICES_initial
      and imageUri = "''photo.jpg''" and options = AI_PROCESSING_DEFAULTS
      and h = ?h2 and r = ?last
      and steps = "[''StarVector processing not available''] @ [''Local StarVector processing failed'']"]
  have c3: "fst (traditional_tier full_disk_device AI_SERVICES_initial ''photo.jpg'' ?defaults
            ([''StarVector processing not available''] @ [''Local StarVector processing failed'']) ?h2)
        = Resolved ?last"
    using run3 by blast
  have w3: "fst (processImageToTattooDesign full_disk_device AI_SERVICES_initial hf_ready ''photo.jpg''
          AI_PROCESSING_DEFAULTS []) = Resolved ?last"
    by (simp only: c1 c2 c3)
  show ?thesis
    by (intro conjI) (rule unavailable_initially defaults_spread_flags(3) w1 g1 without_local_spread(4) w2
        defaults_spread(2) isAvailable_full_disk w3)+
qed

subsection \<open>The traditional pipeline on the device whose storage is full\<close>

lemma full_disk_blob_to_file_run:
  "blob_to_file full_disk_device ''bg_removed_'' (Blob ''PNG'') h
   = (Pending, h @ [ReadAsDataURL (Blob ''PNG''), DateNow,
        WriteAsString ''file:///documents/bg_removed_1700000000000.png'' (Some ''iVBORw0KGgo='') Base64])"
  by (simp add: blob_to_file_def await_def await_try_def readAsDataURL_def Date_now_text_def
      writeAsStringAsync_def external_def never_def split_comma_1_def Let_def
      full_disk_device_def offline_device_def)

lemma full_disk_removeBackgroundAI_run:
  "removeBackgroundAI full_disk_device remove_bg_key u h
   = (Pending, h @ [Fetch (remove_bg_request remove_bg_key u), ReadAsDataURL (Blob ''PNG''), DateNow,
        WriteAsString ''file:///documents/bg_removed_1700000000000.png'' (Some ''iVBORw0KGgo='') Base64])"
proof -
  have k: "truthy (REMOVE_BG_apiKey remove_bg_key)" by (simp add: remove_bg_key_def truthy_def)
  have f: "fetch full_disk_device (remove_bg_request remove_bg_key u) h
      = (Resolved (Response True 200 (Inl (Error ''Unexpected token in JSON''))
                 (Inl (Error ''body used already'')) (Inr (Blob ''PNG''))),
         h @ [Fetch (remove_bg_request remove_bg_key u)])"
    by (simp add: fetch_def external_def full_disk_device_def offline_device_def)
  have t: "tryRemoveBgAPI full_disk_device remove_bg_key u h
      = (Pending, h @ [Fetch (remove_bg_request remove_bg_key u), ReadAsDataURL (Blob ''PNG''), DateNow,
        WriteAsString ''file:///documents/bg_removed_1700000000000.png'' (Some ''iVBORw0KGgo='') Base64])"
    unfolding tryRemoveBgAPI_def remove_bg_request_def [symmetric]
    by (simp add: await_try_Resolved [where m = "fetch full_disk_device (remove_bg_request remove_bg_key u)"
          and h = h, OF f] full_disk_blob_to_file_run)
  show ?thesis
    unfolding removeBackgroundAI_def Let_def
    by (simp add: k await_try_Pending [where m = "tryRemoveBgAPI full_disk_device remove_bg_key u"
          and h = h, OF t])
qed

text \<open>
  Claim C2 fails on the code. On the device whose storage is full, with a Remove.bg
  key set and the default options, which ask for every step,
  \<^verbatim>\<open>traditionalProcessingPipeline\<close> preprocesses the image, sends it to Remove.bg,
  reads the answer and tries to write it to a file; the write is rejected, the
  promise of \<^verbatim>\<open>tryRemoveBgAPI\<close> never settles, and the pipeline stops there. These
  are all the calls it makes: no cropping, no line art and no tattoo styling follow,
  and no result is returned.
\<close>

theorem traditionalProcessingPipeline_stops_at_background_removal:
  "enabled (removeBackground AI_PROCESSING_DEFAULTS) \<and>
   enabled (smartCrop AI_PROCESSING_DEFAULTS) \<and>
   enabled (convertToLineArt AI_PROCESSING_DEFAULTS) \<and>
   traditionalProcessingPipeline full_disk_device remove_bg_key ''photo.jpg'' AI_PROCESSING_DEFAULTS [] []
   = (Pending,
      [Manipulate ''photo.jpg'' [Resize (Some 1024) None] (SaveOptions (Some (Decimal 9 (- 1))) JPEG),
       Fetch (remove_bg_request remove_bg_key ''photo.jpg.out''),
       ReadAsDataURL (Blob ''PNG''),
       DateNow,
       WriteAsString ''file:///documents/bg_removed_1700000000000.png'' (Some ''iVBORw0KGgo='') Base64])"
proof -
  have en: "enabled (removeBackground AI_PROCESSING_DEFAULTS)" "enabled (smartCrop AI_PROCESSING_DEFAULTS)"
    "enabled (convertToLineArt AI_PROCESSING_DEFAULTS)"
    by (simp_all add: enabled_def AI_PROCESSING_DEFAULTS_def)
  have p: "preprocessForAI full_disk_device ''photo.jpg'' []
      = (Resolved ''photo.jpg.out'',
         [Manipulate ''photo.jpg'' [Resize (Some 1024) None] (SaveOptions (Some (Decimal 9 (- 1))) JPEG)])"
    by (simp add: preprocessForAI_run full_disk_modules full_disk_reply)
  have b: "background_stage full_disk_device remove_bg_key AI_PROCESSING_DEFAULTS cur h
      = (Pending, h @ [Fetch (remove_bg_request remove_bg_key (fst cur)), ReadAsDataURL (Blob ''PNG''), DateNow,
        WriteAsString ''file:///documents/bg_removed_1700000000000.png'' (Some ''iVBORw0KGgo='') Base64])"
    for cur h
    unfolding background_stage_def
    by (simp add: en await_Pending [where m = "removeBackgroundAI full_disk_device remove_bg_key (fst cur)"
          and h = h, OF full_disk_removeBackgroundAI_run])
  have "traditionalProcessingPipeline full_disk_device remove_bg_key ''photo.jpg'' AI_PROCESSING_DEFAULTS [] []
   = (Pending,
      [Manipulate ''photo.jpg'' [Resize (Some 1024) None] (SaveOptions (Some (Decimal 9 (- 1))) JPEG),
       Fetch (remove_bg_request remove_bg_key ''photo.jpg.out''),
       ReadAsDataURL (Blob ''PNG''),
       DateNow,
       WriteAsString ''file:///documents/bg_removed_1700000000000.png'' (Some ''iVBORw0KGgo='') Base64])"
    unfolding traditionalProcessingPipeline_def Let_def
    by (simp add: await_try_Resolved [where m = "preprocessForAI full_disk_device ''photo.jpg''"
          and h = "[]", OF p] await_try_Pending [OF b])
  with en show ?thesis by simp
qed

end
